theory Spec2Isabelle
  imports Complex_Main "HOL-Library.Word"
begin

unbundle bit_operations_syntax

section \<open>Numeric model\<close>

text \<open>
  GLSL and C++ \<^verbatim>\<open>float\<close> values are modelled as mathematical reals, without NaN and
  without infinity. Arithmetic is exact except where a result depends on how a \<^verbatim>\<open>float\<close>
  is rounded or stored: \<^verbatim>\<open>quantizeDiffuseIntensity\<close> takes the \<^verbatim>\<open>floor\<close> of a rounded sum,
  so its operations are rounded to binary32 (\<open>float32\<close> below), and the edge buffer is an
  8-bit texture, so what is written to it is stored through \<open>storeRGBA8\<close>. GLSL \<^verbatim>\<open>int\<close>
  and C++ \<^verbatim>\<open>int\<close> values are \<^typ>\<open>int\<close>; the C++ \<^verbatim>\<open>unsigned int\<close> frame counters are
  32-bit words, so that their wrap-around is the one of the program.
\<close>

type_synonym vec2 = "real \<times> real"
type_synonym vec3 = "real \<times> real \<times> real"
type_synonym vec4 = "real \<times> real \<times> real \<times> real"

fun vx :: "vec3 \<Rightarrow> real" where "vx (x, y, z) = x"
fun vy :: "vec3 \<Rightarrow> real" where "vy (x, y, z) = y"
fun vz :: "vec3 \<Rightarrow> real" where "vz (x, y, z) = z"

fun vadd :: "vec3 \<Rightarrow> vec3 \<Rightarrow> vec3" where
  "vadd (a, b, c) (x, y, z) = (a + x, b + y, c + z)"

fun vsub :: "vec3 \<Rightarrow> vec3 \<Rightarrow> vec3" where
  "vsub (a, b, c) (x, y, z) = (a - x, b - y, c - z)"

fun vmul :: "vec3 \<Rightarrow> vec3 \<Rightarrow> vec3" where
  "vmul (a, b, c) (x, y, z) = (a * x, b * y, c * z)"

fun vscale :: "vec3 \<Rightarrow> real \<Rightarrow> vec3" where
  "vscale (a, b, c) k = (a * k, b * k, c * k)"

fun vneg :: "vec3 \<Rightarrow> vec3" where
  "vneg (a, b, c) = (- a, - b, - c)"

definition vec3_of :: "real \<Rightarrow> vec3" where
  "vec3_of k = (k, k, k)"

fun dot :: "vec3 \<Rightarrow> vec3 \<Rightarrow> real" where
  "dot (a, b, c) (x, y, z) = a * x + b * y + c * z"

fun cross :: "vec3 \<Rightarrow> vec3 \<Rightarrow> vec3" where
  "cross (a, b, c) (x, y, z) = (b * z - c * y, c * x - a * z, a * y - b * x)"

definition vlength :: "vec3 \<Rightarrow> real" where
  "vlength v = sqrt (dot v v)"

text \<open>
  \<^verbatim>\<open>normalize(v)\<close> is \<^verbatim>\<open>v * inversesqrt(dot(v, v))\<close>. On the zero vector the program
  computes NaN components; the real model divides by zero, which HOL evaluates to the
  zero vector. No theorem below relies on the value at the zero vector.
\<close>

definition normalize :: "vec3 \<Rightarrow> vec3" where
  "normalize v = vscale v (1 / vlength v)"

definition clamp :: "real \<Rightarrow> real \<Rightarrow> real \<Rightarrow> real" where
  "clamp x minVal maxVal = min (max x minVal) maxVal"

definition mix :: "real \<Rightarrow> real \<Rightarrow> real \<Rightarrow> real" where
  "mix x y a = x * (1 - a) + y * a"

definition mix3 :: "vec3 \<Rightarrow> vec3 \<Rightarrow> real \<Rightarrow> vec3" where
  "mix3 x y a = vadd (vscale x (1 - a)) (vscale y a)"

definition smoothstep :: "real \<Rightarrow> real \<Rightarrow> real \<Rightarrow> real" where
  "smoothstep edge0 edge1 x =
     (let t = clamp ((x - edge0) / (edge1 - edge0)) 0 1 in t * t * (3 - 2 * t))"

definition vec4_of :: "vec3 \<Rightarrow> real \<Rightarrow> vec4" where
  "vec4_of v w = (vx v, vy v, vz v, w)"

fun xyz :: "vec4 \<Rightarrow> vec3" where "xyz (x, y, z, w) = (x, y, z)"
fun wc :: "vec4 \<Rightarrow> real" where "wc (x, y, z, w) = w"
fun rc :: "vec4 \<Rightarrow> real" where "rc (x, y, z, w) = x"
fun gc :: "vec4 \<Rightarrow> real" where "gc (x, y, z, w) = y"
fun bc :: "vec4 \<Rightarrow> real" where "bc (x, y, z, w) = z"

fun v4add :: "vec4 \<Rightarrow> vec4 \<Rightarrow> vec4" where
  "v4add (a, b, c, d) (x, y, z, w) = (a + x, b + y, c + z, d + w)"

fun v4scale :: "vec4 \<Rightarrow> real \<Rightarrow> vec4" where
  "v4scale (a, b, c, d) k = (a * k, b * k, c * k, d * k)"

text \<open>A \<^verbatim>\<open>mat4\<close> is column-major, as in GLSL and GLM: four columns of four rows.\<close>

type_synonym mat4 = "vec4 \<times> vec4 \<times> vec4 \<times> vec4"

fun mat_vec :: "mat4 \<Rightarrow> vec4 \<Rightarrow> vec4" where
  "mat_vec (c0, c1, c2, c3) (x, y, z, w) =
     v4add (v4add (v4scale c0 x) (v4scale c1 y)) (v4add (v4scale c2 z) (v4scale c3 w))"

fun mat_mul :: "mat4 \<Rightarrow> mat4 \<Rightarrow> mat4" where
  "mat_mul m (c0, c1, c2, c3) = (mat_vec m c0, mat_vec m c1, mat_vec m c2, mat_vec m c3)"

definition mat4_identity :: mat4 where
  "mat4_identity = ((1, 0, 0, 0), (0, 1, 0, 0), (0, 0, 1, 0), (0, 0, 0, 1))"

section \<open>Rounding to binary32 and storage in eight bits\<close>

text \<open>
  A \<^verbatim>\<open>float\<close> is an IEEE 754 binary32 number: 24 significant bits, exponents from -126
  to 127, subnormal numbers below, results rounded to the nearest representable number
  and ties to the one with an even significand. \<open>float32 x\<close> is the \<^verbatim>\<open>float\<close> that an
  operation with the exact result \<open>x\<close> delivers. Overflow to infinity is not modelled:
  the values rounded below stay far under \<open>2 ^ 128\<close>.
\<close>

definition pow2 :: "int \<Rightarrow> real" where
  "pow2 e = (if 0 \<le> e then 2 ^ nat e else 1 / 2 ^ nat (- e))"

text \<open>
  The exponent of the binade of \<open>a\<close>: the largest \<open>e\<close> with \<open>2 ^ e \<le> a\<close>, searched downward
  from \<open>e\<close> in at most \<open>n\<close> steps and no further (the subnormal numbers share the lowest
  exponent).
\<close>

fun float32_exponent_from :: "nat \<Rightarrow> int \<Rightarrow> real \<Rightarrow> int" where
  "float32_exponent_from 0 e a = e"
| "float32_exponent_from (Suc n) e a =
     (if pow2 e \<le> a then e else float32_exponent_from n (e - 1) a)"

definition float32_exponent :: "real \<Rightarrow> int" where
  "float32_exponent x = float32_exponent_from 253 127 \<bar>x\<bar>"

definition round_ties_even :: "real \<Rightarrow> int" where
  "round_ties_even y =
     (let f = \<lfloor>y\<rfloor>; d = y - real_of_int f
      in if d < 1/2 then f else if 1/2 < d then f + 1 else if even f then f else f + 1)"

definition float32 :: "real \<Rightarrow> real" where
  "float32 x =
     (let ulp = pow2 (float32_exponent x - 23)
      in real_of_int (round_ties_even (x / ulp)) * ulp)"

text \<open>
  A channel of a \<^verbatim>\<open>GL_RGBA\<close>, \<^verbatim>\<open>GL_UNSIGNED_BYTE\<close> texture holds an integer from 0 to 255:
  a value \<open>x\<close> written to it is clamped to \<open>[0, 1]\<close> and stored as the nearest integer to
  \<open>255 * x\<close>, and is read back as that integer divided by 255.
\<close>

definition unorm8 :: "real \<Rightarrow> real" where
  "unorm8 x = real_of_int \<lfloor>clamp x 0 1 * 255 + 1/2\<rfloor> / 255"

fun storeRGBA8 :: "vec4 \<Rightarrow> vec4" where
  "storeRGBA8 (r, g, b, a) = (unorm8 r, unorm8 g, unorm8 b, unorm8 a)"

section \<open>Lighting shader: quantization\<close>

text \<open>
  \<^verbatim>\<open>quantizeDiffuseIntensity\<close> of the hybrid cel lighting fragment shader. The conversion
  \<^verbatim>\<open>float(bands)\<close>, the product, the sum and the quotient are each rounded to binary32;
  \<^verbatim>\<open>clamp\<close> and \<^verbatim>\<open>floor\<close> are exact on \<^verbatim>\<open>float\<close> values.
\<close>

definition quantizeDiffuseIntensity :: "real \<Rightarrow> int \<Rightarrow> real" where
  "quantizeDiffuseIntensity intensity bands =
     (if bands \<le> 1 then intensity
      else
        let bandsFloat = float32 (real_of_int bands);
            intensity' = clamp intensity 0 1
        in float32 (real_of_int \<lfloor>float32 (float32 (intensity' * bandsFloat) + 0.5)\<rfloor>
                      / bandsFloat))"

definition quantizeSpecularIntensity :: "real \<Rightarrow> real \<Rightarrow> real \<Rightarrow> real" where
  "quantizeSpecularIntensity intensity threshold1 threshold2 =
     (let intensity' = clamp intensity 0 1;
          threshold1' = clamp threshold1 0 1;
          threshold2' = clamp threshold2 (threshold1' + 0.01) 1
      in if intensity' < threshold1' then 0
         else if intensity' < threshold2' then 0.8
         else 0.95)"

section \<open>Lighting shader: uniforms and shadow sampling\<close>

text \<open>
  A \<^verbatim>\<open>sampler2D\<close> is the function from texture coordinates to texels together with the
  size reported by \<^verbatim>\<open>textureSize\<close>; a \<^verbatim>\<open>samplerCube\<close> is a function from directions to
  texels. Texel storage is exact (no quantization to the texture format).
\<close>

record sampler2D =
  texture2D :: "vec2 \<Rightarrow> vec4"
  textureSize :: "int \<times> int"

type_synonym samplerCube = "vec3 \<Rightarrow> vec4"

text \<open>The GLSL \<^verbatim>\<open>struct Light\<close>; field \<^verbatim>\<open>f\<close> is \<open>sl_f\<close>.\<close>

record ShaderLight =
  sl_type :: int
  sl_position :: vec3
  sl_direction :: vec3
  sl_color :: vec3
  sl_intensity :: real
  sl_constant :: real
  sl_linear :: real
  sl_quadratic :: real
  sl_cutOff :: real
  sl_outerCutOff :: real
  sl_castShadows :: bool

text \<open>
  The uniforms of the lighting shader; uniform \<^verbatim>\<open>name\<close> is \<open>u_name\<close>. The arrays
  \<^verbatim>\<open>shadowMaps[8]\<close>, \<^verbatim>\<open>shadowCubeMaps[8]\<close>, \<^verbatim>\<open>lightSpaceMatrices[8]\<close> and \<^verbatim>\<open>lights[8]\<close>
  are lists (of length 8 in the program).
\<close>

record LightingUniforms =
  u_gBaseColor :: "vec2 \<Rightarrow> vec4"
  u_gNormal :: "vec2 \<Rightarrow> vec4"
  u_gPosition :: "vec2 \<Rightarrow> vec4"
  u_gQuantization :: "vec2 \<Rightarrow> vec4"
  u_shadowMaps :: "sampler2D list"
  u_shadowCubeMaps :: "samplerCube list"
  u_lightSpaceMatrices :: "mat4 list"
  u_shadowBias :: real
  u_shadowNormalBias :: real
  u_shadowPCFSamples :: int
  u_shadowIntensity :: real
  u_enablePCF :: bool
  u_shadowFarPlane :: real
  u_numLights :: int
  u_lights :: "ShaderLight list"
  u_viewPos :: vec3
  u_diffuseQuantizationBands :: int
  u_specularThreshold1 :: real
  u_specularThreshold2 :: real
  u_enableQuantization :: bool
  u_globalMaterialType :: int

text \<open>
  \<^verbatim>\<open>projCoords\<close> of \<^verbatim>\<open>calculateDirectionalSpotShadow\<close>: light space, perspective
  divide, remap to \<open>[0,1]\<close>.
\<close>

definition projCoords_of :: "mat4 \<Rightarrow> vec3 \<Rightarrow> vec3" where
  "projCoords_of m p =
     (let fragPosLightSpace = mat_vec m (vec4_of p 1);
          projCoords = vscale (xyz fragPosLightSpace) (1 / wc fragPosLightSpace)
      in vadd (vscale projCoords 0.5) (vec3_of 0.5))"

definition outsideShadowMap :: "vec3 \<Rightarrow> bool" where
  "outsideShadowMap projCoords \<longleftrightarrow>
     vz projCoords > 1 \<or> vx projCoords < 0 \<or> vx projCoords > 1 \<or>
     vy projCoords < 0 \<or> vy projCoords > 1"

text \<open>
  The value of the local \<^verbatim>\<open>shadow\<close> of \<^verbatim>\<open>calculateDirectionalSpotShadow\<close> just before
  the final \<^verbatim>\<open>mix\<close>: the PCF average over the \<open>(2k+1) \<times> (2k+1)\<close> kernel, or the single
  hard comparison.
\<close>

definition dirSpotRawShadow :: "LightingUniforms \<Rightarrow> nat \<Rightarrow> vec3 \<Rightarrow> vec3 \<Rightarrow> vec3 \<Rightarrow> real" where
  "dirSpotRawShadow u lightIndex fragPos normal lightDir =
     (let m = u_lightSpaceMatrices u ! lightIndex;
          projCoords = projCoords_of m fragPos;
          bias = max (u_shadowBias u * (1 - dot normal lightDir)) (u_shadowBias u * 0.1);
          offsetPos = vadd fragPos (vscale normal (u_shadowNormalBias u));
          offsetProjCoords = projCoords_of m offsetPos;
          currentDepth = vz offsetProjCoords;
          smap = u_shadowMaps u ! lightIndex
      in if u_enablePCF u \<and> u_shadowPCFSamples u > 0 then
           let k = u_shadowPCFSamples u;
               texelSize = (1 / real_of_int (fst (textureSize smap)),
                            1 / real_of_int (snd (textureSize smap)));
               total = sum_list (map (\<lambda>x. sum_list (map (\<lambda>y.
                   let pcfDepth = rc (texture2D smap
                         (vx projCoords + real_of_int x * fst texelSize,
                          vy projCoords + real_of_int y * snd texelSize))
                   in if currentDepth - bias > pcfDepth then 1 else 0) [- k..k])) [- k..k]);
               kernelSize = k * 2 + 1
           in total / real_of_int (kernelSize * kernelSize)
         else
           let closestDepth = rc (texture2D smap (vx projCoords, vy projCoords))
           in if currentDepth - bias > closestDepth then 1 else 0)"

definition calculateDirectionalSpotShadow ::
  "LightingUniforms \<Rightarrow> nat \<Rightarrow> vec3 \<Rightarrow> vec3 \<Rightarrow> vec3 \<Rightarrow> real" where
  "calculateDirectionalSpotShadow u lightIndex fragPos normal lightDir =
     (if outsideShadowMap (projCoords_of (u_lightSpaceMatrices u ! lightIndex) fragPos) then 1
      else mix 1 (1 - dirSpotRawShadow u lightIndex fragPos normal lightDir)
             (1 - u_shadowIntensity u))"

text \<open>
  The sample offsets of the point-light PCF loops,
  \<^verbatim>\<open>for (float x = -offset; x < offset; x += offset / (samples * 0.5))\<close> with
  \<^verbatim>\<open>samples = 4.0\<close> and \<^verbatim>\<open>offset = 0.1\<close>: in exact arithmetic the four values below.
\<close>

definition pointSampleOffsets :: "real list" where
  "pointSampleOffsets = [- 0.1, - 0.05, 0, 0.05]"

text \<open>The local \<^verbatim>\<open>shadow\<close> of \<^verbatim>\<open>calculatePointShadow\<close> just before the final \<^verbatim>\<open>mix\<close>.\<close>

definition pointRawShadow :: "LightingUniforms \<Rightarrow> nat \<Rightarrow> vec3 \<Rightarrow> vec3 \<Rightarrow> real" where
  "pointRawShadow u lightIndex fragPos lightPos =
     (let fragToLight = vsub fragPos lightPos;
          currentDepth = vlength fragToLight;
          cube = u_shadowCubeMaps u ! lightIndex;
          closestDepth = rc (cube fragToLight) * u_shadowFarPlane u;
          bias = u_shadowBias u * 2.5
      in if u_enablePCF u \<and> u_shadowPCFSamples u > 0 then
           let samples = 4;
               total = sum_list (map (\<lambda>x. sum_list (map (\<lambda>y. sum_list (map (\<lambda>z.
                   let closestDepth' = rc (cube (vadd fragToLight (x, y, z))) * u_shadowFarPlane u
                   in if currentDepth - bias > closestDepth' then 1 else 0)
                   pointSampleOffsets)) pointSampleOffsets)) pointSampleOffsets)
           in total / (samples * samples * samples)
         else
           (if currentDepth - bias > closestDepth then 1 else 0))"

definition calculatePointShadow :: "LightingUniforms \<Rightarrow> nat \<Rightarrow> vec3 \<Rightarrow> vec3 \<Rightarrow> real" where
  "calculatePointShadow u lightIndex fragPos lightPos =
     mix 1 (1 - pointRawShadow u lightIndex fragPos lightPos) (1 - u_shadowIntensity u)"

section \<open>Lighting shader: shading\<close>

definition hybridCelShading ::
  "vec3 \<Rightarrow> real \<Rightarrow> real \<Rightarrow> int \<Rightarrow> real \<Rightarrow> real \<Rightarrow> real \<Rightarrow> vec3" where
  "hybridCelShading baseColor diffuseIntensity specularIntensity diffuseBands
       specThreshold1 specThreshold2 shadowFactor =
     (let diffuseIntensity' = diffuseIntensity * shadowFactor;
          quantizedDiffuse = quantizeDiffuseIntensity diffuseIntensity' diffuseBands;
          diffuseColor = vscale baseColor quantizedDiffuse;
          specularIntensity' = specularIntensity * shadowFactor;
          quantizedSpecular =
            quantizeSpecularIntensity specularIntensity' specThreshold1 specThreshold2;
          specularColor = vec3_of (quantizedSpecular * 0.6);
          finalColor = vadd diffuseColor specularColor
      in (vx finalColor powr 1, vy finalColor powr 1, vz finalColor powr 1))"

definition calculateSpecularIntensity :: "vec3 \<Rightarrow> vec3 \<Rightarrow> vec3 \<Rightarrow> real \<Rightarrow> real" where
  "calculateSpecularIntensity lightDir viewDir normal shininess =
     (let NdotL = max (dot normal lightDir) 0
      in if NdotL \<le> 0 then 0
         else
           let halfwayDir = normalize (vadd lightDir viewDir);
               NdotH = max (dot normal halfwayDir) 0;
               specular = NdotH powr shininess
           in specular * NdotL)"

text \<open>The GLSL \<^verbatim>\<open>struct GBufferData\<close>; field \<^verbatim>\<open>f\<close> is \<open>gd_f\<close>.\<close>

record GBufferData =
  gd_baseColor :: vec3
  gd_materialType :: real
  gd_worldNormal :: vec3
  gd_roughness :: real
  gd_worldPosition :: vec3
  gd_specularShininess :: real
  gd_ambientOcclusion :: real
  gd_edgeWeight :: real

definition sampleGBuffer :: "LightingUniforms \<Rightarrow> vec2 \<Rightarrow> GBufferData" where
  "sampleGBuffer u texCoords =
     (let baseColorData = u_gBaseColor u texCoords;
          normalData = u_gNormal u texCoords;
          positionData = u_gPosition u texCoords;
          quantizationData = u_gQuantization u texCoords
      in \<lparr> gd_baseColor = xyz baseColorData,
           gd_materialType = wc baseColorData,
           gd_worldNormal = normalize (xyz normalData),
           gd_roughness = wc normalData,
           gd_worldPosition = xyz positionData,
           gd_specularShininess = wc positionData,
           gd_ambientOcclusion = bc quantizationData,
           gd_edgeWeight = wc quantizationData \<rparr>)"

definition calculateMinnaert :: "vec3 \<Rightarrow> vec3 \<Rightarrow> vec3 \<Rightarrow> real \<Rightarrow> vec3" where
  "calculateMinnaert normal lightDir viewDir k =
     (let NdotL = max (dot normal lightDir) 0;
          NdotV = max (dot normal viewDir) 0
      in vec3_of (max (NdotL * NdotV) 0.001 powr k))"

definition calculateOrenNayar :: "vec3 \<Rightarrow> vec3 \<Rightarrow> vec3 \<Rightarrow> real \<Rightarrow> vec3 \<Rightarrow> vec3" where
  "calculateOrenNayar normal lightDir viewDir rough albedo =
     (let sigma2 = rough * rough;
          A = 1 - (sigma2 / (2 * (sigma2 + 0.33)));
          B = 0.45 * sigma2 / (sigma2 + 0.09);
          NdotL = max (dot normal lightDir) 0;
          NdotV = max (dot normal viewDir) 0;
          lightProj0 = vsub lightDir (vscale normal NdotL);
          viewProj0 = vsub viewDir (vscale normal NdotV);
          lightProj = (if vlength lightProj0 > 0.001 then normalize lightProj0 else lightProj0);
          viewProj = (if vlength viewProj0 > 0.001 then normalize viewProj0 else viewProj0);
          deltaAlpha = max 0 (dot lightProj viewProj);
          sinAlpha = (if NdotL < NdotV then sqrt (max 0 (1 - NdotL * NdotL))
                      else sqrt (max 0 (1 - NdotV * NdotV)));
          tanBeta = (if NdotL < NdotV then sqrt (max 0 (1 - NdotV * NdotV)) / max NdotV 0.001
                     else sqrt (max 0 (1 - NdotL * NdotL)) / max NdotL 0.001)
      in vscale albedo (NdotL * (A + B * deltaAlpha * sinAlpha * tanBeta)))"

definition determineTangentFrame :: "vec3 \<Rightarrow> vec3 \<times> vec3" where
  "determineTangentFrame N =
     (let up = (if \<bar>vy N\<bar> < 0.999999 then (0, 1, 0) else (1, 0, 0));
          T = normalize (cross up N);
          B = cross N T
      in (T, B))"

definition calculateAshikhminShirley ::
  "vec3 \<Rightarrow> vec3 \<Rightarrow> vec3 \<Rightarrow> real \<Rightarrow> real \<Rightarrow> vec3 \<Rightarrow> vec3" where
  "calculateAshikhminShirley N L V nu nv albedo =
     (let H = normalize (vadd L V);
          T = fst (determineTangentFrame N);
          B = snd (determineTangentFrame N);
          NdotL = max (dot N L) 0;
          NdotV = max (dot N V) 0;
          NdotH = max (dot N H) 0;
          HdotV = max (dot H V) 0
      in if NdotL = 0 \<or> NdotV = 0 then vec3_of 0
         else
           let Rd = (28 * (1 - max (dot N L) 0 / 2) * (1 - max (dot N V) 0 / 2)) / (23 * 3.14159);
               diffuse = vscale albedo
                 (Rd * (1 - (1 - NdotL / 2) powr 5) * (1 - (1 - NdotV / 2) powr 5));
               HdotT = dot H T;
               HdotB = dot H B;
               exponent = (nu * HdotT * HdotT + nv * HdotB * HdotB) / (1 - NdotH * NdotH);
               numerator = sqrt ((nu + 1) * (nv + 1)) * (NdotH powr exponent);
               denominator = 8 * 3.14159 * HdotV * max NdotL NdotV;
               F = 0.04 + (1 - 0.04) * ((1 - HdotV) powr 5);
               specular = vec3_of ((numerator / denominator) * F)
           in vadd diffuse specular)"

definition calculateCookTorrance ::
  "vec3 \<Rightarrow> vec3 \<Rightarrow> vec3 \<Rightarrow> real \<Rightarrow> real \<Rightarrow> vec3 \<Rightarrow> vec3" where
  "calculateCookTorrance N L V rough F0_val albedo =
     (let H = normalize (vadd L V);
          NdotL = max (dot N L) 0;
          NdotV = max (dot N V) 0
      in if NdotL = 0 then vec3_of 0
         else
           let NdotH = max (dot N H) 0.001;
               NdotH2 = NdotH * NdotH;
               m2 = rough * rough;
               r1 = 1 / (4 * m2 * (NdotH powr 4));
               r2 = (NdotH2 - 1) / (m2 * NdotH2);
               D = r1 * exp r2;
               HdotV = max (dot H V) 0;
               NdotH_x2 = 2 * NdotH;
               G1 = (NdotH_x2 * NdotV) / HdotV;
               G2 = (NdotH_x2 * NdotL) / HdotV;
               G = min 1 (min G1 G2);
               F = F0_val + (1 - F0_val) * ((1 - HdotV) powr 5);
               numerator = D * F * G;
               denominator = 4 * NdotV * NdotL + 0.001;
               kS = numerator / denominator;
               kD = 1 - F
           in vscale (vadd (vscale albedo (kD / 3.14159)) (vec3_of kS)) NdotL)"

text \<open>
  One iteration of the light loop of \<^verbatim>\<open>calculateHybridCelShading\<close>, for loop index
  \<open>i\<close>: the value added to \<^verbatim>\<open>totalLighting\<close>. An iteration left by \<^verbatim>\<open>continue\<close> adds
  nothing, which is the zero vector here. For a \<^verbatim>\<open>type\<close> other than 0, 1, 2 the shader
  reads \<^verbatim>\<open>lightDir\<close> uninitialised; the model leaves it unspecified.
\<close>

definition lightContrib ::
  "LightingUniforms \<Rightarrow> GBufferData \<Rightarrow> vec3 \<Rightarrow> vec2 \<Rightarrow> nat \<Rightarrow> vec3" where
  "lightContrib u gData viewDir texCoords i =
     (let mType = round (gd_materialType gData);
          light = u_lights u ! i
      in if sl_intensity light \<le> 0 then vec3_of 0
         else
           let shouldCastShadows = sl_castShadows light;
               lightVec = vsub (sl_position light) (gd_worldPosition gData);
               lightDir =
                 (if sl_type light = 0 then normalize (vneg (sl_direction light))
                  else if sl_type light = 1 \<or> sl_type light = 2 then normalize lightVec
                  else undefined);
               distance = vlength lightVec;
               pointAtt = 1 / (sl_constant light + sl_linear light * distance
                               + sl_quadratic light * distance * distance);
               theta = dot lightDir (normalize (vneg (sl_direction light)));
               epsilon = sl_cutOff light - sl_outerCutOff light;
               spotIntensity = clamp ((theta - sl_outerCutOff light) / epsilon) 0 1;
               attenuation =
                 (if sl_type light = 0 then 1
                  else if sl_type light = 1 then pointAtt
                  else if sl_type light = 2 then pointAtt * spotIntensity
                  else 1);
               shadowFactor =
                 (if sl_type light = 0 \<and> shouldCastShadows then
                    calculateDirectionalSpotShadow u i (gd_worldPosition gData) (gd_worldNormal gData) lightDir
                  else if sl_type light = 1 \<and> shouldCastShadows then
                    calculatePointShadow u i (gd_worldPosition gData) (sl_position light)
                  else if sl_type light = 2 \<and> shouldCastShadows then
                    calculateDirectionalSpotShadow u i (gd_worldPosition gData) (gd_worldNormal gData) lightDir
                  else 1)
           in if attenuation \<le> 0.001 then vec3_of 0
              else
                let extraParams = u_gQuantization u texCoords;
                    minnaert = calculateMinnaert (gd_worldNormal gData) lightDir viewDir (rc extraParams);
                    orenNayar = calculateOrenNayar (gd_worldNormal gData) lightDir viewDir
                                  (gc extraParams) (gd_baseColor gData);
                    ashikhmin = calculateAshikhminShirley (gd_worldNormal gData) lightDir viewDir
                                  (rc extraParams) (gc extraParams) (gd_baseColor gData);
                    cookTorrance = calculateCookTorrance (gd_worldNormal gData) lightDir viewDir
                                  (rc extraParams) (gc extraParams) (gd_baseColor gData);
                    baseLen = vlength (vadd (gd_baseColor gData) (vec3_of 0.001));
                    diffuseIntensity0 =
                      (if mType = 0 then max (dot (gd_worldNormal gData) lightDir) 0
                       else if mType = 1 then vx minnaert
                       else if mType = 2 then vlength orenNayar / baseLen
                       else if mType = 3 then vlength ashikhmin / baseLen
                       else if mType = 4 then vlength cookTorrance / baseLen
                       else 0);
                    diffuseColor0 =
                      (if mType = 0 then
                         vscale (gd_baseColor gData) (max (dot (gd_worldNormal gData) lightDir) 0)
                       else if mType = 1 then vmul (gd_baseColor gData) minnaert
                       else if mType = 2 then orenNayar
                       else if mType = 3 then ashikhmin
                       else if mType = 4 then cookTorrance
                       else vec3_of 0);
                    diffuseIntensity = diffuseIntensity0 * (sl_intensity light * attenuation);
                    diffuseColor = vscale diffuseColor0 (sl_intensity light * attenuation);
                    specularIntensity =
                      (if mType \<noteq> 3 \<and> mType \<noteq> 4 then
                         calculateSpecularIntensity lightDir viewDir (gd_worldNormal gData)
                           (gd_specularShininess gData) * sl_intensity light * attenuation * 0.3
                       else 0)
                in if u_enableQuantization u then
                     vmul (hybridCelShading (gd_baseColor gData) diffuseIntensity specularIntensity
                             (u_diffuseQuantizationBands u) (u_specularThreshold1 u)
                             (u_specularThreshold2 u) shadowFactor)
                          (sl_color light)
                   else
                     let finalDiffuse = vscale diffuseColor shadowFactor;
                         finalSpecular = vec3_of (specularIntensity * shadowFactor)
                     in vmul (vadd finalDiffuse finalSpecular) (sl_color light))"

text \<open>
  \<^verbatim>\<open>calculateHybridCelShading\<close>: the loop
  \<^verbatim>\<open>for (int i = 0; i < numLights && i < 8; ++i)\<close> followed by the ambient term.
\<close>

definition lightLoopBound :: "LightingUniforms \<Rightarrow> nat" where
  "lightLoopBound u = nat (min (u_numLights u) 8)"

definition calculateHybridCelShading :: "LightingUniforms \<Rightarrow> GBufferData \<Rightarrow> vec3 \<Rightarrow> vec2 \<Rightarrow> vec3" where
  "calculateHybridCelShading u gData viewDir texCoords =
     (let totalLighting =
            foldl (\<lambda>total i. vadd total (lightContrib u gData viewDir texCoords i))
              (vec3_of 0) [0..<lightLoopBound u];
          ambient = vscale (vscale (gd_baseColor gData) 0.1) (gd_ambientOcclusion gData)
      in vadd totalLighting ambient)"

text \<open>\<^verbatim>\<open>main\<close> of the lighting shader: the value written to \<^verbatim>\<open>FragColor\<close>.\<close>

definition lighting_main :: "LightingUniforms \<Rightarrow> vec2 \<Rightarrow> vec4" where
  "lighting_main u texCoords =
     (let gData = sampleGBuffer u texCoords
      in if vlength (gd_worldNormal gData) < 0.1 then (0.05, 0.05, 0.1, 1)
         else
           let viewDir = normalize (vsub (u_viewPos u) (gd_worldPosition gData));
               finalColor = calculateHybridCelShading u gData viewDir texCoords
           in vec4_of finalColor 1)"

section \<open>Concrete inputs: shadow blending\<close>

text \<open>
  A lighting-shader state with hard shadows (PCF off), the default bias, far plane 50, and a
  cube shadow map whose stored depth is 0 in every direction, so that every fragment away
  from the light is behind an occluder. \<open>shadow_inputs\<close> has \<^verbatim>\<open>shadowIntensity = 0\<close>.
\<close>

definition dark_cube :: samplerCube where
  "dark_cube d = (0, 0, 0, 0)"

definition blank_texture :: "vec2 \<Rightarrow> vec4" where
  "blank_texture uv = (0, 0, 0, 0)"

definition shadow_inputs :: LightingUniforms where
  "shadow_inputs =
     \<lparr> u_gBaseColor = blank_texture, u_gNormal = blank_texture,
       u_gPosition = blank_texture, u_gQuantization = blank_texture,
       u_shadowMaps = replicate 8 \<lparr> texture2D = blank_texture, textureSize = (2048, 2048) \<rparr>,
       u_shadowCubeMaps = replicate 8 dark_cube,
       u_lightSpaceMatrices = replicate 8 mat4_identity,
       u_shadowBias = 0.005, u_shadowNormalBias = 0.02, u_shadowPCFSamples = 2,
       u_shadowIntensity = 0, u_enablePCF = False, u_shadowFarPlane = 50,
       u_numLights = 0, u_lights = [],
       u_viewPos = (0, 0, 0),
       u_diffuseQuantizationBands = 5, u_specularThreshold1 = 0.3, u_specularThreshold2 = 0.7,
       u_enableQuantization = True, u_globalMaterialType = 0 \<rparr>"

section \<open>Edge detection shader\<close>

text \<open>The uniforms of the edge detection shader; uniform \<^verbatim>\<open>name\<close> is \<open>e_name\<close>.\<close>

record EdgeUniforms =
  e_gPosition :: "vec2 \<Rightarrow> vec4"
  e_gNormal :: "vec2 \<Rightarrow> vec4"
  e_gDepth :: "vec2 \<Rightarrow> vec4"
  e_colorTexture :: "vec2 \<Rightarrow> vec4"
  e_edgeFlags :: int
  e_depthThreshold :: real
  e_normalThreshold :: real
  e_sobelThreshold :: real
  e_colorThreshold :: real
  e_edgeColor :: vec3
  e_screenSize :: vec2
  e_depthExponent :: real
  e_normalSplit :: real
  e_sobelScale :: real
  e_smoothWidth :: real
  e_laplacianThreshold :: real
  e_laplacianScale :: real

definition DEPTH_BASED :: int where "DEPTH_BASED = 1"
definition NORMAL_BASED :: int where "NORMAL_BASED = 2"
definition SOBEL :: int where "SOBEL = 4"
definition COLOR_BASED :: int where "COLOR_BASED = 8"
definition LAPLACIAN :: int where "LAPLACIAN = 16"

definition getLinearDepth :: "EdgeUniforms \<Rightarrow> real \<Rightarrow> real" where
  "getLinearDepth u d = d powr e_depthExponent u"

definition getEdgeIntensity :: "EdgeUniforms \<Rightarrow> real \<Rightarrow> real \<Rightarrow> real" where
  "getEdgeIntensity u val threshold =
     (let edgeW = e_smoothWidth u * 0.01
      in smoothstep (threshold - edgeW) (threshold + edgeW) val)"

definition texelSize :: "EdgeUniforms \<Rightarrow> vec2" where
  "texelSize u = (1 / fst (e_screenSize u), 1 / snd (e_screenSize u))"

text \<open>The texture coordinate \<^verbatim>\<open>TexCoords + vec2(i * texelSize.x, j * texelSize.y)\<close>.\<close>

definition neighbour :: "EdgeUniforms \<Rightarrow> vec2 \<Rightarrow> real \<Rightarrow> real \<Rightarrow> vec2" where
  "neighbour u texCoords i j =
     (fst texCoords + i * fst (texelSize u), snd texCoords + j * snd (texelSize u))"

definition depthAt :: "EdgeUniforms \<Rightarrow> vec2 \<Rightarrow> real \<Rightarrow> real \<Rightarrow> real" where
  "depthAt u texCoords i j = getLinearDepth u (rc (e_gDepth u (neighbour u texCoords i j)))"

definition depthEdgeSignal :: "EdgeUniforms \<Rightarrow> vec2 \<Rightarrow> real" where
  "depthEdgeSignal u texCoords =
     (let depthN = depthAt u texCoords 0 1;
          depthS = depthAt u texCoords 0 (- 1);
          depthE = depthAt u texCoords 1 0;
          depthW = depthAt u texCoords (- 1) 0;
          depthGradX = \<bar>depthE - depthW\<bar>;
          depthGradY = \<bar>depthN - depthS\<bar>
      in sqrt (depthGradX * depthGradX + depthGradY * depthGradY))"

definition depthEdgeDetection :: "EdgeUniforms \<Rightarrow> vec2 \<Rightarrow> real" where
  "depthEdgeDetection u texCoords =
     getEdgeIntensity u (depthEdgeSignal u texCoords) (e_depthThreshold u)"

definition normalAt :: "EdgeUniforms \<Rightarrow> vec2 \<Rightarrow> real \<Rightarrow> real \<Rightarrow> vec3" where
  "normalAt u texCoords i j = xyz (e_gNormal u (neighbour u texCoords i j))"

definition normalEdgeSignal :: "EdgeUniforms \<Rightarrow> vec2 \<Rightarrow> real" where
  "normalEdgeSignal u texCoords =
     (let normal = normalAt u texCoords 0 0;
          dotN = dot normal (normalAt u texCoords 0 1);
          dotS = dot normal (normalAt u texCoords 0 (- 1));
          dotE = dot normal (normalAt u texCoords 1 0);
          dotW = dot normal (normalAt u texCoords (- 1) 0);
          minDot = min (min dotN dotS) (min dotE dotW)
      in 1 - minDot)"

definition normalEdgeDetection :: "EdgeUniforms \<Rightarrow> vec2 \<Rightarrow> real" where
  "normalEdgeDetection u texCoords =
     getEdgeIntensity u (normalEdgeSignal u texCoords) (e_normalThreshold u)"

definition computeSobel ::
  "real \<Rightarrow> real \<Rightarrow> real \<Rightarrow> real \<Rightarrow> real \<Rightarrow> real \<Rightarrow> real \<Rightarrow> real \<Rightarrow> real" where
  "computeSobel tl' tm' tr' ml' mr' bl' bm' br' =
     (let gx = tl' * - 1 + tr' * 1 + ml' * - 2 + mr' * 2 + bl' * - 1 + br' * 1;
          gy = tl' * - 1 + tm' * - 2 + tr' * - 1 + bl' * 1 + bm' * 2 + br' * 1
      in sqrt (gx * gx + gy * gy))"

text \<open>\<^verbatim>\<open>computeSobel\<close> on the eight neighbours of a scalar field \<open>f i j\<close>.\<close>

definition sobelOf :: "(real \<Rightarrow> real \<Rightarrow> real) \<Rightarrow> real" where
  "sobelOf f = computeSobel (f (- 1) 1) (f 0 1) (f 1 1) (f (- 1) 0) (f 1 0)
                 (f (- 1) (- 1)) (f 0 (- 1)) (f 1 (- 1))"

definition normalSobelSignal :: "EdgeUniforms \<Rightarrow> vec2 \<Rightarrow> real" where
  "normalSobelSignal u texCoords =
     (let magX = sobelOf (\<lambda>i j. vx (normalAt u texCoords i j));
          magY = sobelOf (\<lambda>i j. vy (normalAt u texCoords i j));
          magZ = sobelOf (\<lambda>i j. vz (normalAt u texCoords i j))
      in (magX + magY + magZ) * e_sobelScale u)"

definition normalSobelDetection :: "EdgeUniforms \<Rightarrow> vec2 \<Rightarrow> real" where
  "normalSobelDetection u texCoords =
     getEdgeIntensity u (normalSobelSignal u texCoords) (e_sobelThreshold u)"

definition lumWeights :: vec3 where
  "lumWeights = (0.299, 0.587, 0.114)"

definition lumAt :: "EdgeUniforms \<Rightarrow> vec2 \<Rightarrow> real \<Rightarrow> real \<Rightarrow> real" where
  "lumAt u texCoords i j = dot (xyz (e_colorTexture u (neighbour u texCoords i j))) lumWeights"

definition colorEdgeSignal :: "EdgeUniforms \<Rightarrow> vec2 \<Rightarrow> real" where
  "colorEdgeSignal u texCoords = sobelOf (lumAt u texCoords) * e_sobelScale u"

definition colorEdgeDetection :: "EdgeUniforms \<Rightarrow> vec2 \<Rightarrow> real" where
  "colorEdgeDetection u texCoords =
     getEdgeIntensity u (colorEdgeSignal u texCoords) (e_colorThreshold u)"

definition laplacianEdgeSignal :: "EdgeUniforms \<Rightarrow> vec2 \<Rightarrow> real" where
  "laplacianEdgeSignal u texCoords =
     (let center = depthAt u texCoords 0 0;
          n = depthAt u texCoords 0 1;
          s = depthAt u texCoords 0 (- 1);
          e = depthAt u texCoords 1 0;
          w = depthAt u texCoords (- 1) 0;
          nw = depthAt u texCoords (- 1) 1;
          ne = depthAt u texCoords 1 1;
          sw = depthAt u texCoords (- 1) (- 1);
          se = depthAt u texCoords 1 (- 1);
          laplacian = (n + s + e + w + nw + ne + sw + se) - 8 * center
      in \<bar>laplacian\<bar> * e_laplacianScale u)"

definition laplacianEdgeDetection :: "EdgeUniforms \<Rightarrow> vec2 \<Rightarrow> real" where
  "laplacianEdgeDetection u texCoords =
     getEdgeIntensity u (laplacianEdgeSignal u texCoords) (e_laplacianThreshold u)"

text \<open>The local \<^verbatim>\<open>edge\<close> of \<^verbatim>\<open>main\<close> when \<^verbatim>\<open>FragColor\<close> is written.\<close>

definition edge_value :: "EdgeUniforms \<Rightarrow> vec2 \<Rightarrow> real" where
  "edge_value u texCoords =
     (let edge0 = 0;
          edge1 = (if e_edgeFlags u AND DEPTH_BASED \<noteq> 0
                   then max edge0 (depthEdgeDetection u texCoords) else edge0);
          edge2 = (if e_edgeFlags u AND NORMAL_BASED \<noteq> 0
                   then max edge1 (normalEdgeDetection u texCoords) else edge1);
          edge3 = (if e_edgeFlags u AND SOBEL \<noteq> 0
                   then max edge2 (normalSobelDetection u texCoords) else edge2);
          edge4 = (if e_edgeFlags u AND COLOR_BASED \<noteq> 0
                   then max edge3 (colorEdgeDetection u texCoords) else edge3);
          edge5 = (if e_edgeFlags u AND LAPLACIAN \<noteq> 0
                   then max edge4 (laplacianEdgeDetection u texCoords) else edge4)
      in edge5)"

definition edge_main :: "EdgeUniforms \<Rightarrow> vec2 \<Rightarrow> vec4" where
  "edge_main u texCoords =
     vec4_of (vscale (e_edgeColor u) (edge_value u texCoords)) (edge_value u texCoords)"

section \<open>Composite shader\<close>

record CompositeUniforms =
  c_lightingTexture :: "vec2 \<Rightarrow> vec4"
  c_edgeTexture :: "vec2 \<Rightarrow> vec4"
  c_enableOutlining :: bool

definition composite_main :: "CompositeUniforms \<Rightarrow> vec2 \<Rightarrow> vec4" where
  "composite_main u texCoords =
     (let lighting = xyz (c_lightingTexture u texCoords);
          edge = c_edgeTexture u texCoords;
          finalColor = (if c_enableOutlining u then mix3 lighting (xyz edge) (wc edge)
                        else lighting)
      in vec4_of finalColor 1)"

section \<open>Concrete inputs: edge and composite passes\<close>

text \<open>
  A flat frame: depth 1/2, the unit normal \<open>(0, 1, 0)\<close> and mid-grey colour at every
  texture coordinate, on a 800 by 600 screen. Only the depth technique is enabled, with
  the depth threshold at the lowest value of its slider (0.001), the default smoothing
  width 1 and a white outline colour; every other setting has its default.
\<close>

definition flat_depth :: "vec2 \<Rightarrow> vec4" where
  "flat_depth uv = (1/2, 0, 0, 1)"

definition flat_normal :: "vec2 \<Rightarrow> vec4" where
  "flat_normal uv = (0, 1, 0, 0)"

definition flat_color :: "vec2 \<Rightarrow> vec4" where
  "flat_color uv = (1/2, 1/2, 1/2, 1)"

definition flat_edge_inputs :: EdgeUniforms where
  "flat_edge_inputs =
     \<lparr> e_gPosition = blank_texture, e_gNormal = flat_normal, e_gDepth = flat_depth,
       e_colorTexture = flat_color, e_edgeFlags = 1,
       e_depthThreshold = 0.001, e_normalThreshold = 0.5, e_sobelThreshold = 0.3,
       e_colorThreshold = 0.2, e_edgeColor = (1, 1, 1), e_screenSize = (800, 600),
       e_depthExponent = 1, e_normalSplit = 0.5, e_sobelScale = 1, e_smoothWidth = 1,
       e_laplacianThreshold = 0.5, e_laplacianScale = 1 \<rparr>"

text \<open>
  The composite pass reading that frame's lit colour and the edge buffer as the edge pass
  leaves it.
\<close>

definition flat_composite_inputs :: CompositeUniforms where
  "flat_composite_inputs =
     \<lparr> c_lightingTexture = flat_color,
       c_edgeTexture = (\<lambda>texCoords. storeRGBA8 (edge_main flat_edge_inputs texCoords)),
       c_enableOutlining = True \<rparr>"

section \<open>GLM functions used by the renderer\<close>

text \<open>
  The GLM library is not part of the repository. These are its definitions of the
  functions the renderer calls, in the library's default configuration (right-handed
  coordinates, clip-space depth from -1 to 1), over the reals.
\<close>

definition radians :: "real \<Rightarrow> real" where
  "radians deg = deg * (pi / 180)"

definition degrees :: "real \<Rightarrow> real" where
  "degrees rad = rad * (180 / pi)"

definition glm_ortho :: "real \<Rightarrow> real \<Rightarrow> real \<Rightarrow> real \<Rightarrow> real \<Rightarrow> real \<Rightarrow> mat4" where
  "glm_ortho l r b t zNear zFar =
     ((2 / (r - l), 0, 0, 0),
      (0, 2 / (t - b), 0, 0),
      (0, 0, - 2 / (zFar - zNear), 0),
      (- (r + l) / (r - l), - (t + b) / (t - b), - (zFar + zNear) / (zFar - zNear), 1))"

definition glm_perspective :: "real \<Rightarrow> real \<Rightarrow> real \<Rightarrow> real \<Rightarrow> mat4" where
  "glm_perspective fovy aspect zNear zFar =
     (let tanHalfFovy = tan (fovy / 2)
      in ((1 / (aspect * tanHalfFovy), 0, 0, 0),
          (0, 1 / tanHalfFovy, 0, 0),
          (0, 0, - (zFar + zNear) / (zFar - zNear), - 1),
          (0, 0, - (2 * zFar * zNear) / (zFar - zNear), 0)))"

definition glm_lookAt :: "vec3 \<Rightarrow> vec3 \<Rightarrow> vec3 \<Rightarrow> mat4" where
  "glm_lookAt eye center up =
     (let f = normalize (vsub center eye);
          s = normalize (cross f up);
          u = cross s f
      in ((vx s, vx u, - vx f, 0),
          (vy s, vy u, - vy f, 0),
          (vz s, vz u, - vz f, 0),
          (- dot s eye, - dot u eye, dot f eye, 1)))"

section \<open>Lights and the light registry\<close>

datatype LightType = DIRECTIONAL | POINT | SPOT

text \<open>
  \<^verbatim>\<open>struct Light\<close>. The attenuation fields \<^verbatim>\<open>constant\<close> and \<^verbatim>\<open>linear\<close> are
  \<open>constant_att\<close> and \<open>linear_att\<close>.
\<close>

record Light =
  type :: LightType
  position :: vec3
  direction :: vec3
  color :: vec3
  intensity :: real
  constant_att :: real
  linear_att :: real
  quadratic :: real
  cutOff :: real
  outerCutOff :: real
  castShadows :: bool
  isStatic :: bool
  flicker :: bool
  baseIntensity :: real
  baseColor :: vec3

text \<open>The default constructor \<^verbatim>\<open>Light()\<close>.\<close>

definition Light_default :: Light where
  "Light_default =
     \<lparr> type = POINT, position = (0, 0, 0), direction = (0, - 1, 0), color = (1, 1, 1),
       intensity = 1, constant_att = 1, linear_att = 0.09, quadratic = 0.032,
       cutOff = 12.5, outerCutOff = 15, castShadows = True, isStatic = False,
       flicker = False, baseIntensity = 1, baseColor = (1, 1, 1) \<rparr>"

definition createDirectionalLight :: "vec3 \<Rightarrow> vec3 \<Rightarrow> real \<Rightarrow> Light" where
  "createDirectionalLight dir col inten =
     Light_default \<lparr> type := DIRECTIONAL, direction := normalize dir, color := col,
       intensity := inten, baseIntensity := inten, baseColor := col, castShadows := True \<rparr>"

definition createPointLight :: "vec3 \<Rightarrow> vec3 \<Rightarrow> real \<Rightarrow> Light" where
  "createPointLight pos col inten =
     Light_default \<lparr> type := POINT, position := pos, color := col,
       intensity := inten, baseIntensity := inten, baseColor := col \<rparr>"

definition createSpotLight :: "vec3 \<Rightarrow> vec3 \<Rightarrow> vec3 \<Rightarrow> real \<Rightarrow> real \<Rightarrow> real \<Rightarrow> Light" where
  "createSpotLight pos dir col cutOff' outerCutOff' inten =
     Light_default \<lparr> type := SPOT, position := pos, direction := normalize dir, color := col,
       intensity := inten, baseIntensity := inten, baseColor := col,
       cutOff := cutOff', outerCutOff := outerCutOff' \<rparr>"

text \<open>\<^verbatim>\<open>LightManager\<close>: the registry is its vector \<^verbatim>\<open>lights\<close>.\<close>

definition MAX_LIGHTS :: nat where
  "MAX_LIGHTS = 32"

definition addLight :: "Light list \<Rightarrow> Light \<Rightarrow> Light list" where
  "addLight lights light = (if length lights < MAX_LIGHTS then lights @ [light] else lights)"

definition removeLight :: "Light list \<Rightarrow> nat \<Rightarrow> Light list" where
  "removeLight lights index =
     (if index < length lights then take index lights @ drop (Suc index) lights else lights)"

definition updateLight :: "Light list \<Rightarrow> nat \<Rightarrow> Light \<Rightarrow> Light list" where
  "updateLight lights index light =
     (if index < length lights then lights[index := light] else lights)"

definition clearLights :: "Light list \<Rightarrow> Light list" where
  "clearLights lights = []"

text \<open>
  The direction sliders of \<^verbatim>\<open>GUI::renderLightingWindow\<close>: for a light that is not a point
  light, \<^verbatim>\<open>SliderFloat3("Direction", &light.direction.x, -1.0f, 1.0f)\<close> writes the three
  slider values, each within \<open>[-1, 1]\<close>, into the light's direction in place.
\<close>

definition sliderValue :: "real \<Rightarrow> real" where
  "sliderValue v = clamp v (- 1) 1"

definition editDirection :: "Light \<Rightarrow> vec3 \<Rightarrow> Light" where
  "editDirection light v =
     (if type light \<noteq> POINT
      then light \<lparr> direction := (sliderValue (vx v), sliderValue (vy v), sliderValue (vz v)) \<rparr>
      else light)"

section \<open>Light animation\<close>

text \<open>The lambda \<^verbatim>\<open>updateCelestia\<close> of \<^verbatim>\<open>Renderer::updateLights\<close>.\<close>

definition updateCelestia :: "Light \<Rightarrow> real \<Rightarrow> real \<Rightarrow> real \<Rightarrow> real \<Rightarrow> real \<Rightarrow> Light" where
  "updateCelestia light t startT endT maxI minI =
     (let tilt = radians 45;
          cosTilt = cos tilt;
          sinTilt = sin tilt;
          windowSize = endT - startT;
          relativeT0 = t - startT;
          relativeT = (if relativeT0 < 0 then relativeT0 + 1 else relativeT0)
      in if relativeT \<le> windowSize then
           let windowProgress = relativeT / windowSize;
               angle = windowProgress * pi;
               orbitalY = sin angle;
               orbitalX = cos angle;
               worldY = orbitalY * cosTilt;
               worldZ = orbitalY * sinTilt;
               worldX = orbitalX;
               dir = (- worldX, - worldY, - worldZ);
               ramp = smoothstep 0 0.2 worldY
           in light \<lparr> direction := normalize dir, intensity := mix minI maxI ramp \<rparr>
         else light \<lparr> intensity := 0, direction := normalize (- 1, 0, 0) \<rparr>)"

text \<open>The C++ conversion \<^verbatim>\<open>(int)x\<close> (truncation toward zero) and remainder \<^verbatim>\<open>a % b\<close>.\<close>

definition c_trunc :: "real \<Rightarrow> int" where
  "c_trunc x = (if 0 \<le> x then \<lfloor>x\<rfloor> else \<lceil>x\<rceil>)"

definition c_rem :: "int \<Rightarrow> int \<Rightarrow> int" where
  "c_rem a b = sgn a * (\<bar>a\<bar> mod \<bar>b\<bar>)"

text \<open>The body of the flicker loop of \<^verbatim>\<open>Renderer::updateLights\<close> for one light.\<close>

definition flickerLight :: "real \<Rightarrow> Light \<Rightarrow> Light" where
  "flickerLight totalTime light =
     (if flicker light then
        let seed = vx (position light) * 12.9898 + vy (position light) * 78.233
                   + vz (position light) * 43.123;
            timeOffset = totalTime + real_of_int (c_rem (c_trunc seed) 100) / 10;
            noise = (sin (timeOffset * 3) + sin (timeOffset * 5.3 + 1.2)
                     + sin (timeOffset * 7.7 + 3.5)) * 0.33;
            colorOffset = (noise * 0.03, noise * 0.01, 0);
            c = vadd (baseColor light) colorOffset
        in light \<lparr> intensity := baseIntensity light * (1 + noise * 0.08),
                   color := (clamp (vx c) 0 1, clamp (vy c) 0 1, clamp (vz c) 0 1) \<rparr>
      else light)"

text \<open>
  The effect of \<^verbatim>\<open>Renderer::updateLights\<close> on the registry, given the value of the
  static \<^verbatim>\<open>totalTime\<close> after \<^verbatim>\<open>deltaTime\<close> has been added.
\<close>

definition updateLights_registry :: "real \<Rightarrow> Light list \<Rightarrow> Light list" where
  "updateLights_registry totalTime lights =
     (let lights' =
            (if length lights \<ge> 2 then
               let cycleSpeed = 0.01;
                   rawTime = totalTime * cycleSpeed;
                   progress = rawTime - real_of_int \<lfloor>rawTime\<rfloor>;
                   sun = updateCelestia (lights ! 0) progress 0 0.55 1 0;
                   moon = updateCelestia (lights ! 1) progress 0.5 1.05 0.5 0;
                   sun' = sun \<lparr> castShadows := (intensity sun > 0.001) \<rparr>;
                   moon' = moon \<lparr> castShadows := (intensity moon > 0.001) \<rparr>
               in lights[0 := sun', 1 := moon']
             else lights)
      in map (flickerLight totalTime) lights')"

section \<open>Renderer state\<close>

record ShadowParams =
  shadowMapSize :: int
  cubeShadowMapSize :: int
  shadowBias :: real
  shadowNormalBias :: real
  shadowPCFSamples :: int
  shadowIntensity :: real
  enablePCF :: bool
  orthoSize :: real
  nearPlane :: real
  farPlane :: real

text \<open>The fields of \<^verbatim>\<open>MaterialParams\<close> that the lighting pass reads.\<close>

record MaterialParams =
  enableQuantization :: bool
  diffuseQuantizationBands :: int
  specularThreshold1 :: real
  specularThreshold2 :: real

datatype IlluminationModel =
  LAMBERTIAN | MINNAERT | OREN_NAYAR | ASHIKHMIN_SHIRLEY | COOK_TORRANCE

fun IlluminationModel_int :: "IlluminationModel \<Rightarrow> int" where
  "IlluminationModel_int LAMBERTIAN = 0"
| "IlluminationModel_int MINNAERT = 1"
| "IlluminationModel_int OREN_NAYAR = 2"
| "IlluminationModel_int ASHIKHMIN_SHIRLEY = 3"
| "IlluminationModel_int COOK_TORRANCE = 4"

fun LightType_int :: "LightType \<Rightarrow> int" where
  "LightType_int DIRECTIONAL = 0"
| "LightType_int POINT = 1"
| "LightType_int SPOT = 2"

record EdgeParams =
  enableOutlining :: bool
  depthThreshold :: real
  normalThreshold :: real
  sobelThreshold :: real
  colorThreshold :: real
  edgeWidth :: real
  edgeColor :: vec3
  depthExponent :: real
  normalSplit :: real
  sobelScale :: real
  smoothWidth :: real
  laplacianThreshold :: real
  laplacianScale :: real

text \<open>\<^verbatim>\<open>Renderer::Stats\<close>: two \<^verbatim>\<open>unsigned int\<close> counters.\<close>

record Stats =
  drawCalls :: "32 word"
  vertexCount :: "32 word"

text \<open>
  A loaded \<^verbatim>\<open>Model\<close>: the number of vertices of each of its meshes and the names of its
  loaded textures. A null \<^verbatim>\<open>unique_ptr<Model>\<close> is \<open>None\<close>.
\<close>

record Model =
  meshes :: "nat list"
  textures_loaded :: "nat list"

definition getVertexCount :: "Model \<Rightarrow> nat" where
  "getVertexCount model = sum_list (meshes model)"

text \<open>
  \<^verbatim>\<open>ShadowMapData\<close>; the fields \<^verbatim>\<open>type\<close> and \<^verbatim>\<open>size\<close> are \<open>type_sm\<close> and \<open>size_sm\<close>.
  OpenGL object names are natural numbers, 0 being no object.
\<close>

record ShadowMapData =
  FBO :: nat
  depthMap :: nat
  depthCubemap :: nat
  lightSpaceMatrix :: mat4
  shadowTransforms :: "mat4 list"
  isActive :: bool
  type_sm :: LightType
  size_sm :: int
  hasRendered :: bool

text \<open>
  The calls whose occurrence the properties below are about: the OpenGL calls that
  create and delete shadow resources, and the calls of \<^verbatim>\<open>renderShadowMapForLight\<close> with
  their light index.
\<close>

datatype call =
  GlGenFramebuffers nat
| GlGenTextures nat
| GlDeleteFramebuffers nat
| GlDeleteTextures nat
| RenderShadowMapForLight nat

text \<open>The images held by the G-buffer attachments.\<close>

record GBuffer =
  gb_baseColor :: "vec2 \<Rightarrow> vec4"
  gb_normal :: "vec2 \<Rightarrow> vec4"
  gb_position :: "vec2 \<Rightarrow> vec4"
  gb_quantization :: "vec2 \<Rightarrow> vec4"
  gb_depth :: "vec2 \<Rightarrow> vec4"

text \<open>
  The renderer, with the parts of the OpenGL context it drives.
  \<^item> \<open>lightManager\<close> is the registry's vector of lights.
  \<^item> A shader pointer is \<open>False\<close> or \<open>None\<close> when null; the programs whose uniforms matter
    here carry their current uniform values.
  \<^item> \<open>lightingTexture\<close>, \<open>edgeTexture\<close> and \<open>screen\<close> are the images of the two intermediate
    targets and of the default framebuffer; the edge target is the 8-bit texture that
    \<^verbatim>\<open>initializeRenderTargets\<close> creates. \<open>depthMaps\<close> and \<open>depthCubemaps\<close> give
    the image of each shadow texture by its name. Rasterisation is not modelled: the
    images of the G-buffer and of the shadow textures are whatever the state holds.
  \<^item> \<open>glNames\<close> is the last object name handed out, \<open>calls\<close> the log of calls (oldest first),
    \<open>clearColor\<close> the current clear colour.
  \<^item> \<open>totalTime\<close> is the static local of \<^verbatim>\<open>updateLights\<close>.
  \<^item> \<open>sceneDraws\<close> and \<open>geometryDraws\<close> are the model pointers passed, in order, to
    \<^verbatim>\<open>renderModel\<close> by \<^verbatim>\<open>renderScene\<close> and by \<^verbatim>\<open>geometryPass\<close>: the hard-coded scene
    layout, taken as data.
\<close>

record Renderer =
  width :: nat
  height :: nat
  lightManager :: "Light list"
  shadowMaps :: "ShadowMapData list"
  shadowParams :: ShadowParams
  materialParams :: MaterialParams
  globalIlluminationModel :: IlluminationModel
  edgeParams :: EdgeParams
  edgeDetectionFlags :: int
  stats :: Stats
  geometryShader :: bool
  shadowMapShader :: bool
  pointShadowShader :: bool
  hybridCelShader :: "LightingUniforms option"
  edgeDetectionShader :: "EdgeUniforms option"
  compositeShader :: "CompositeUniforms option"
  gBuffer :: GBuffer
  lightingTexture :: "vec2 \<Rightarrow> vec4"
  edgeTexture :: "vec2 \<Rightarrow> vec4"
  screen :: "vec2 \<Rightarrow> vec4"
  depthMaps :: "nat \<Rightarrow> sampler2D"
  depthCubemaps :: "nat \<Rightarrow> samplerCube"
  clearColor :: vec4
  glNames :: nat
  calls :: "call list"
  totalTime :: real
  sceneDraws :: "Model option list"
  geometryDraws :: "Model option list"

definition MAX_SHADOW_CASTING_LIGHTS :: nat where
  "MAX_SHADOW_CASTING_LIGHTS = 8"

definition getStats :: "Renderer \<Rightarrow> Stats" where
  "getStats r = stats r"

definition resetStats :: "Renderer \<Rightarrow> Renderer" where
  "resetStats r = r \<lparr> stats := \<lparr> drawCalls = 0, vertexCount = 0 \<rparr> \<rparr>"

section \<open>Shadow resources\<close>

text \<open>
  The shadow-resource functions act on one slot and on the OpenGL context: the state they
  touch is the last object name handed out, the call log and the slot.
\<close>

type_synonym slot_state = "nat \<times> call list \<times> ShadowMapData"

definition cleanupShadowMap :: "slot_state \<Rightarrow> slot_state" where
  "cleanupShadowMap s =
     (case s of (names, cs, shadowData) \<Rightarrow>
        let cs1 = (if FBO shadowData \<noteq> 0 then cs @ [GlDeleteFramebuffers (FBO shadowData)] else cs);
            cs2 = (if depthMap shadowData \<noteq> 0
                   then cs1 @ [GlDeleteTextures (depthMap shadowData)] else cs1);
            cs3 = (if depthCubemap shadowData \<noteq> 0
                   then cs2 @ [GlDeleteTextures (depthCubemap shadowData)] else cs2)
        in (names, cs3,
            shadowData \<lparr> FBO := 0, depthMap := 0, depthCubemap := 0,
                         isActive := False, hasRendered := False \<rparr>))"

definition requiredSize :: "ShadowParams \<Rightarrow> Light \<Rightarrow> int" where
  "requiredSize params light =
     (if type light = POINT then cubeShadowMapSize params else shadowMapSize params)"

text \<open>The allocation branch of \<^verbatim>\<open>updateShadowMaps\<close>: a framebuffer and one depth texture.\<close>

definition allocateShadowMap :: "ShadowParams \<Rightarrow> Light \<Rightarrow> slot_state \<Rightarrow> slot_state" where
  "allocateShadowMap params light s =
     (case s of (names, cs, shadowData) \<Rightarrow>
        let fbo = Suc names;
            tex = Suc fbo;
            cs' = cs @ [GlGenFramebuffers fbo, GlGenTextures tex];
            shadowData1 = (if type light = POINT
                           then shadowData \<lparr> FBO := fbo, depthCubemap := tex \<rparr>
                           else shadowData \<lparr> FBO := fbo, depthMap := tex \<rparr>)
        in (tex, cs',
            shadowData1 \<lparr> type_sm := type light, size_sm := requiredSize params light,
                          isActive := True \<rparr>))"

text \<open>The body of the first loop of \<^verbatim>\<open>updateShadowMaps\<close>, for one light and its slot.\<close>

definition updateShadowMapSlot :: "ShadowParams \<Rightarrow> Light \<Rightarrow> slot_state \<Rightarrow> slot_state" where
  "updateShadowMapSlot params light s =
     (case s of (names, cs, shadowData) \<Rightarrow>
        if \<not> isActive shadowData \<or> type_sm shadowData \<noteq> type light
           \<or> size_sm shadowData \<noteq> requiredSize params light \<or> \<not> castShadows light
        then
          let s1 = (if isActive shadowData then cleanupShadowMap s else s)
          in if \<not> castShadows light then s1
             else allocateShadowMap params light s1
        else s)"

text \<open>The body of the second loop: an active slot beyond the lights is cleaned up.\<close>

definition removeUnusedSlot :: "slot_state \<Rightarrow> slot_state" where
  "removeUnusedSlot s =
     (case s of (names, cs, shadowData) \<Rightarrow>
        if isActive shadowData then cleanupShadowMap s else s)"

text \<open>Running a slot function on slot \<open>i\<close> of the renderer.\<close>

definition onSlot :: "(slot_state \<Rightarrow> slot_state) \<Rightarrow> nat \<Rightarrow> Renderer \<Rightarrow> Renderer" where
  "onSlot f i r =
     (case f (glNames r, calls r, shadowMaps r ! i) of (names, cs, shadowData) \<Rightarrow>
        r \<lparr> glNames := names, calls := cs, shadowMaps := (shadowMaps r)[i := shadowData] \<rparr>)"

definition shadowLightCount :: "Renderer \<Rightarrow> nat" where
  "shadowLightCount r = min (length (lightManager r)) MAX_SHADOW_CASTING_LIGHTS"

definition updateShadowMaps :: "Renderer \<Rightarrow> Renderer" where
  "updateShadowMaps r =
     (let lightCount = shadowLightCount r;
          r1 = foldl (\<lambda>r i. onSlot (updateShadowMapSlot (shadowParams r) (lightManager r ! i)) i r)
                 r [0..<lightCount]
      in foldl (\<lambda>r i. onSlot removeUnusedSlot i r) r1 [lightCount..<length (shadowMaps r1)])"

text \<open>
  \<^verbatim>\<open>initializeShadowMapping\<close>: eight default-constructed slots. The constructor leaves
  \<^verbatim>\<open>type\<close> and the matrices uninitialised; the values given to them here are arbitrary and
  no theorem depends on them.
\<close>

definition ShadowMapData_default :: ShadowMapData where
  "ShadowMapData_default =
     \<lparr> FBO = 0, depthMap = 0, depthCubemap = 0, lightSpaceMatrix = mat4_identity,
       shadowTransforms = replicate 6 mat4_identity, isActive = False,
       type_sm = DIRECTIONAL, size_sm = 0, hasRendered = False \<rparr>"

definition initializeShadowMapping :: "Renderer \<Rightarrow> Renderer" where
  "initializeShadowMapping r =
     r \<lparr> shadowMaps := take MAX_SHADOW_CASTING_LIGHTS (shadowMaps r)
            @ replicate (MAX_SHADOW_CASTING_LIGHTS - length (shadowMaps r)) ShadowMapData_default \<rparr>"

section \<open>Drawing and the shadow pass\<close>

text \<open>
  \<^verbatim>\<open>renderModel\<close>: with a model and a shader it draws the model and then counts the draw;
  the shader argument is whether the pointer is non-null.
\<close>

definition renderModel :: "Model option \<Rightarrow> bool \<Rightarrow> Renderer \<Rightarrow> Renderer" where
  "renderModel model shader r =
     (case model of
        None \<Rightarrow> r
      | Some m \<Rightarrow>
          if \<not> shader then r
          else r \<lparr> stats := \<lparr> drawCalls = drawCalls (stats r) + 1,
                              vertexCount = vertexCount (stats r) + of_nat (getVertexCount m) \<rparr> \<rparr>)"

definition renderScene :: "bool \<Rightarrow> Renderer \<Rightarrow> Renderer" where
  "renderScene shader r = foldl (\<lambda>r model. renderModel model shader r) r (sceneDraws r)"

text \<open>The up vector chosen by the shadow functions for a light direction.\<close>

definition shadowUp :: "vec3 \<Rightarrow> vec3" where
  "shadowUp lightDir = (if \<bar>dot lightDir (0, 1, 0)\<bar> > 0.99 then (1, 0, 0) else (0, 1, 0))"

text \<open>The matrix that \<^verbatim>\<open>renderDirectionalShadow\<close> stores in \<^verbatim>\<open>lightSpaceMatrix\<close>.\<close>

definition directionalShadowMatrix :: "ShadowParams \<Rightarrow> Light \<Rightarrow> mat4" where
  "directionalShadowMatrix params light =
     (let lightProjection = glm_ortho (- orthoSize params) (orthoSize params)
                              (- orthoSize params) (orthoSize params)
                              (nearPlane params) (farPlane params);
          lightDir = normalize (direction light);
          lightPos = vscale (vneg lightDir) (farPlane params * 0.5);
          up = shadowUp lightDir;
          lightView = glm_lookAt lightPos (0, 0, 0) up
      in mat_mul lightProjection lightView)"

text \<open>The matrix that \<^verbatim>\<open>renderSpotShadow\<close> stores in \<^verbatim>\<open>lightSpaceMatrix\<close>.\<close>

definition spotShadowMatrix :: "ShadowParams \<Rightarrow> Light \<Rightarrow> mat4" where
  "spotShadowMatrix params light =
     (let spotAngle = degrees (arccos (cutOff light)) * 2;
          lightProjection = glm_perspective (radians spotAngle) 1
                              (nearPlane params) (farPlane params);
          lightTarget = vadd (position light) (direction light);
          up = shadowUp (normalize (direction light));
          lightView = glm_lookAt (position light) lightTarget up
      in mat_mul lightProjection lightView)"

text \<open>The six matrices that \<^verbatim>\<open>renderPointShadow\<close> stores in \<^verbatim>\<open>shadowTransforms\<close>.\<close>

definition pointShadowTransforms :: "ShadowParams \<Rightarrow> Light \<Rightarrow> mat4 list" where
  "pointShadowTransforms params light =
     (let shadowProj = glm_perspective (radians 90) 1 (nearPlane params) (farPlane params);
          p = position light
      in [mat_mul shadowProj (glm_lookAt p (vadd p (1, 0, 0)) (0, - 1, 0)),
          mat_mul shadowProj (glm_lookAt p (vadd p (- 1, 0, 0)) (0, - 1, 0)),
          mat_mul shadowProj (glm_lookAt p (vadd p (0, 1, 0)) (0, 0, 1)),
          mat_mul shadowProj (glm_lookAt p (vadd p (0, - 1, 0)) (0, 0, - 1)),
          mat_mul shadowProj (glm_lookAt p (vadd p (0, 0, 1)) (0, - 1, 0)),
          mat_mul shadowProj (glm_lookAt p (vadd p (0, 0, - 1)) (0, - 1, 0))])"

definition renderDirectionalShadow :: "nat \<Rightarrow> Light \<Rightarrow> Renderer \<Rightarrow> Renderer" where
  "renderDirectionalShadow i light r =
     renderScene (shadowMapShader r)
       (r \<lparr> shadowMaps := (shadowMaps r)
               [i := (shadowMaps r ! i)
                  \<lparr> lightSpaceMatrix := directionalShadowMatrix (shadowParams r) light \<rparr>] \<rparr>)"

definition renderPointShadow :: "nat \<Rightarrow> Light \<Rightarrow> Renderer \<Rightarrow> Renderer" where
  "renderPointShadow i light r =
     (if \<not> pointShadowShader r then r
      else renderScene (pointShadowShader r)
             (r \<lparr> shadowMaps := (shadowMaps r)
                     [i := (shadowMaps r ! i)
                        \<lparr> shadowTransforms := pointShadowTransforms (shadowParams r) light \<rparr>] \<rparr>))"

definition renderSpotShadow :: "nat \<Rightarrow> Light \<Rightarrow> Renderer \<Rightarrow> Renderer" where
  "renderSpotShadow i light r =
     renderScene (shadowMapShader r)
       (r \<lparr> shadowMaps := (shadowMaps r)
               [i := (shadowMaps r ! i)
                  \<lparr> lightSpaceMatrix := spotShadowMatrix (shadowParams r) light \<rparr>] \<rparr>)"

text \<open>
  \<^verbatim>\<open>renderShadowMapForLight\<close>; its \<^verbatim>\<open>shadowData\<close> argument is slot \<open>lightIndex\<close>. The
  call is entered in the log.
\<close>

definition renderShadowMapForLight :: "nat \<Rightarrow> Light \<Rightarrow> Renderer \<Rightarrow> Renderer" where
  "renderShadowMapForLight lightIndex light r =
     (let r' = r \<lparr> calls := calls r @ [RenderShadowMapForLight lightIndex] \<rparr>
      in case type light of
           DIRECTIONAL \<Rightarrow> renderDirectionalShadow lightIndex light r'
         | POINT \<Rightarrow> renderPointShadow lightIndex light r'
         | SPOT \<Rightarrow> renderSpotShadow lightIndex light r')"

text \<open>The body of the loop of \<^verbatim>\<open>shadowMapPass\<close>.\<close>

definition shadowMapPass_step :: "nat \<Rightarrow> Renderer \<Rightarrow> Renderer" where
  "shadowMapPass_step i r =
     (let light = lightManager r ! i;
          shadowData = shadowMaps r ! i
      in if \<not> isActive shadowData then r
         else if isStatic light \<and> hasRendered shadowData then r
         else
           let r' = renderShadowMapForLight i light r
           in r' \<lparr> shadowMaps := (shadowMaps r')
                      [i := (shadowMaps r' ! i) \<lparr> hasRendered := True \<rparr>] \<rparr>)"

definition shadowMapPass :: "Renderer \<Rightarrow> Renderer" where
  "shadowMapPass r =
     (if \<not> shadowMapShader r \<or> \<not> pointShadowShader r then r
      else foldl (\<lambda>r i. shadowMapPass_step i r) r [0..<shadowLightCount r])"

section \<open>Geometry, lighting, edge and composite passes\<close>

text \<open>
  \<^verbatim>\<open>geometryPass\<close>: with a geometry shader, the scene's draws through \<^verbatim>\<open>renderModel\<close>.
\<close>

definition geometryPass :: "Renderer \<Rightarrow> Renderer" where
  "geometryPass r =
     (if geometryShader r
      then foldl (\<lambda>r model. renderModel model True r) r (geometryDraws r)
      else r)"

text \<open>The first loop of \<^verbatim>\<open>lightingPass\<close>: binding the shadow map of light \<open>i\<close>.\<close>

definition bindShadowMap :: "Renderer \<Rightarrow> LightingUniforms \<Rightarrow> nat \<Rightarrow> LightingUniforms" where
  "bindShadowMap r u i =
     (let light = lightManager r ! i;
          shadowData = shadowMaps r ! i
      in if \<not> isActive shadowData then u
         else if type light = POINT then
           u \<lparr> u_shadowCubeMaps :=
                 (u_shadowCubeMaps u)[i := depthCubemaps r (depthCubemap shadowData)] \<rparr>
         else
           u \<lparr> u_shadowMaps := (u_shadowMaps u)[i := depthMaps r (depthMap shadowData)],
               u_lightSpaceMatrices :=
                 (u_lightSpaceMatrices u)[i := lightSpaceMatrix shadowData] \<rparr>)"

text \<open>
  The second loop of \<^verbatim>\<open>lightingPass\<close>: uploading the properties of light \<open>i\<close>, field by
  field, into \<^verbatim>\<open>lights[i]\<close>.
\<close>

definition shaderLight :: "Light \<Rightarrow> ShaderLight" where
  "shaderLight light =
     \<lparr> sl_type = LightType_int (type light),
       sl_position = position light,
       sl_direction = direction light,
       sl_color = color light,
       sl_intensity = intensity light,
       sl_constant = constant_att light,
       sl_linear = linear_att light,
       sl_quadratic = quadratic light,
       sl_cutOff = cutOff light,
       sl_outerCutOff = outerCutOff light,
       sl_castShadows = castShadows light \<rparr>"

definition uploadLight :: "Renderer \<Rightarrow> LightingUniforms \<Rightarrow> nat \<Rightarrow> LightingUniforms" where
  "uploadLight r u i =
     (let light = lightManager r ! i
      in u \<lparr> u_lights := (u_lights u)[i := shaderLight light] \<rparr>)"

text \<open>
  The uniform values of the lighting program after the uploads of \<^verbatim>\<open>lightingPass\<close>, from
  the values \<open>u\<close> it held before.
\<close>

definition lightingUniforms :: "vec3 \<Rightarrow> Renderer \<Rightarrow> LightingUniforms \<Rightarrow> LightingUniforms" where
  "lightingUniforms cameraPosition r u =
     (let lightCount = shadowLightCount r;
          u1 = u \<lparr> u_gBaseColor := gb_baseColor (gBuffer r),
                   u_gNormal := gb_normal (gBuffer r),
                   u_gPosition := gb_position (gBuffer r),
                   u_gQuantization := gb_quantization (gBuffer r) \<rparr>;
          u2 = foldl (bindShadowMap r) u1 [0..<lightCount];
          u3 = u2 \<lparr> u_numLights := int lightCount \<rparr>;
          u4 = foldl (uploadLight r) u3 [0..<lightCount]
      in u4 \<lparr> u_shadowBias := shadowBias (shadowParams r),
              u_shadowNormalBias := shadowNormalBias (shadowParams r),
              u_shadowPCFSamples := shadowPCFSamples (shadowParams r),
              u_shadowIntensity := shadowIntensity (shadowParams r),
              u_enablePCF := enablePCF (shadowParams r),
              u_shadowFarPlane := farPlane (shadowParams r),
              u_viewPos := cameraPosition,
              u_enableQuantization := enableQuantization (materialParams r),
              u_diffuseQuantizationBands := diffuseQuantizationBands (materialParams r),
              u_specularThreshold1 := specularThreshold1 (materialParams r),
              u_specularThreshold2 := specularThreshold2 (materialParams r),
              u_globalMaterialType := IlluminationModel_int (globalIlluminationModel r) \<rparr>)"

definition lightingPass :: "vec3 \<Rightarrow> Renderer \<Rightarrow> Renderer" where
  "lightingPass cameraPosition r =
     (case hybridCelShader r of
        None \<Rightarrow> r \<lparr> lightingTexture := (\<lambda>texCoords. clearColor r) \<rparr>
      | Some u \<Rightarrow>
          let u' = lightingUniforms cameraPosition r u
          in r \<lparr> hybridCelShader := Some u', lightingTexture := lighting_main u' \<rparr>)"

definition edgeUniforms :: "Renderer \<Rightarrow> EdgeUniforms \<Rightarrow> EdgeUniforms" where
  "edgeUniforms r u =
     u \<lparr> e_gPosition := gb_position (gBuffer r),
         e_gNormal := gb_normal (gBuffer r),
         e_gDepth := gb_depth (gBuffer r),
         e_colorTexture := lightingTexture r,
         e_edgeFlags := edgeDetectionFlags r,
         e_depthThreshold := depthThreshold (edgeParams r),
         e_normalThreshold := normalThreshold (edgeParams r),
         e_sobelThreshold := sobelThreshold (edgeParams r),
         e_colorThreshold := colorThreshold (edgeParams r),
         e_edgeColor := edgeColor (edgeParams r),
         e_screenSize := (real (width r), real (height r)),
         e_depthExponent := depthExponent (edgeParams r),
         e_normalSplit := normalSplit (edgeParams r),
         e_sobelScale := sobelScale (edgeParams r),
         e_smoothWidth := smoothWidth (edgeParams r),
         e_laplacianThreshold := laplacianThreshold (edgeParams r),
         e_laplacianScale := laplacianScale (edgeParams r) \<rparr>"

definition edgeDetectionPass :: "Renderer \<Rightarrow> Renderer" where
  "edgeDetectionPass r =
     (case edgeDetectionShader r of
        None \<Rightarrow> r \<lparr> edgeTexture := (\<lambda>texCoords. storeRGBA8 (clearColor r)) \<rparr>
      | Some u \<Rightarrow>
          let u' = edgeUniforms r u
          in r \<lparr> edgeDetectionShader := Some u',
                 edgeTexture := (\<lambda>texCoords. storeRGBA8 (edge_main u' texCoords)) \<rparr>)"

definition compositePass :: "Renderer \<Rightarrow> Renderer" where
  "compositePass r =
     (case compositeShader r of
        None \<Rightarrow> r \<lparr> screen := (\<lambda>texCoords. clearColor r) \<rparr>
      | Some u \<Rightarrow>
          let u' = u \<lparr> c_lightingTexture := lightingTexture r,
                       c_edgeTexture := edgeTexture r,
                       c_enableOutlining := enableOutlining (edgeParams r) \<rparr>
          in r \<lparr> compositeShader := Some u', screen := composite_main u' \<rparr>)"

section \<open>The frame\<close>

definition updateLights :: "real \<Rightarrow> Renderer \<Rightarrow> Renderer" where
  "updateLights deltaTime r =
     (let t = totalTime r + deltaTime
      in r \<lparr> totalTime := t, lightManager := updateLights_registry t (lightManager r) \<rparr>)"

text \<open>\<^verbatim>\<open>Renderer::render\<close>; of the camera only the position is read by what is modelled.\<close>

definition render :: "vec3 \<Rightarrow> Renderer \<Rightarrow> Renderer" where
  "render cameraPosition r =
     (let r0 = resetStats r;
          r1 = updateShadowMaps r0;
          r2 = updateLights 0.016 r1;
          r3 = shadowMapPass r2;
          r4 = geometryPass r3;
          r5 = lightingPass cameraPosition r4;
          r6 = edgeDetectionPass r5
      in compositePass r6)"

section \<open>Predicates used in the statements\<close>

text \<open>
  A slot is settled for its light when reconciliation has nothing to do: for a light that
  casts shadows the slot is active with the light's type and required size, for one that
  does not the slot is inactive.
\<close>

definition slotSettled :: "ShadowParams \<Rightarrow> Light \<Rightarrow> ShadowMapData \<Rightarrow> bool" where
  "slotSettled params light shadowData =
     (if castShadows light
      then isActive shadowData \<and> type_sm shadowData = type light
           \<and> size_sm shadowData = requiredSize params light
      else \<not> isActive shadowData)"

section \<open>Scene lights and a concrete renderer\<close>

text \<open>\<^verbatim>\<open>Renderer::initializeLights\<close>: the sun, the moon and six torches.\<close>

definition sceneTorch :: "vec3 \<Rightarrow> Light" where
  "sceneTorch pos =
     (createPointLight pos (1, 0.6, 0.2) 1)
       \<lparr> castShadows := True, isStatic := True, flicker := True \<rparr>"

definition initializeLights :: "Renderer \<Rightarrow> Renderer" where
  "initializeLights r =
     (let sun = (createDirectionalLight (0, - 1, 0) (1, 1, 0.984) 1)
                  \<lparr> castShadows := True, isStatic := False, flicker := False \<rparr>;
          moon = (createDirectionalLight (0, 1, 0) (0.839, 0.863, 0.890) 1)
                  \<lparr> castShadows := True, isStatic := False, flicker := False \<rparr>
      in r \<lparr> lightManager :=
               foldl addLight (clearLights (lightManager r))
                 [sun, moon,
                  sceneTorch (- 6, 1.9, - 9.6), sceneTorch (- 9.6, 1.9, - 6),
                  sceneTorch (9.6, 1.9, 6), sceneTorch (- 9.6, 1.9, 6),
                  sceneTorch (- 1.6, 5.9, 6), sceneTorch (6, 5.9, 9.6)] \<rparr>)"

text \<open>
  A renderer as the constructor leaves it, on a 800 by 600 window: default parameters,
  depth-based edge detection, every shader loaded, eight empty shadow slots, no OpenGL
  object created yet, and the scene lights. Its images are the flat frame; its scene is
  two loaded models and one that failed to load.
\<close>

definition zero_ShaderLight :: ShaderLight where
  "zero_ShaderLight =
     \<lparr> sl_type = 0, sl_position = (0, 0, 0), sl_direction = (0, 0, 0), sl_color = (0, 0, 0),
       sl_intensity = 0, sl_constant = 0, sl_linear = 0, sl_quadratic = 0,
       sl_cutOff = 0, sl_outerCutOff = 0, sl_castShadows = False \<rparr>"

definition demo_model :: Model where
  "demo_model = \<lparr> meshes = [24, 12], textures_loaded = [1] \<rparr>"

definition blank_renderer :: Renderer where
  "blank_renderer =
     \<lparr> width = 800, height = 600,
       lightManager = [],
       shadowMaps = [],
       shadowParams =
         \<lparr> shadowMapSize = 2048, cubeShadowMapSize = 1024, shadowBias = 0.005,
           shadowNormalBias = 0.02, shadowPCFSamples = 2, shadowIntensity = 0.7,
           enablePCF = True, orthoSize = 20, nearPlane = 0.5, farPlane = 50 \<rparr>,
       materialParams =
         \<lparr> enableQuantization = True, diffuseQuantizationBands = 5,
           specularThreshold1 = 0.3, specularThreshold2 = 0.7 \<rparr>,
       globalIlluminationModel = LAMBERTIAN,
       edgeParams =
         \<lparr> enableOutlining = True, depthThreshold = 0.1, normalThreshold = 0.5,
           sobelThreshold = 0.3, colorThreshold = 0.2, edgeWidth = 1, edgeColor = (0, 0, 0),
           depthExponent = 1, normalSplit = 0.5, sobelScale = 1, smoothWidth = 1,
           laplacianThreshold = 0.5, laplacianScale = 1 \<rparr>,
       edgeDetectionFlags = 1,
       stats = \<lparr> drawCalls = 0, vertexCount = 0 \<rparr>,
       geometryShader = True, shadowMapShader = True, pointShadowShader = True,
       hybridCelShader = Some (shadow_inputs \<lparr> u_lights := replicate 8 zero_ShaderLight \<rparr>),
       edgeDetectionShader = Some flat_edge_inputs,
       compositeShader = Some flat_composite_inputs,
       gBuffer = \<lparr> gb_baseColor = flat_color, gb_normal = flat_normal,
                   gb_position = blank_texture, gb_quantization = blank_texture,
                   gb_depth = flat_depth \<rparr>,
       lightingTexture = blank_texture, edgeTexture = blank_texture, screen = blank_texture,
       depthMaps = (\<lambda>name. \<lparr> texture2D = blank_texture, textureSize = (2048, 2048) \<rparr>),
       depthCubemaps = (\<lambda>name. dark_cube),
       clearColor = (0.1, 0.1, 0.1, 1),
       glNames = 0, calls = [], totalTime = 0,
       sceneDraws = [Some demo_model, None, Some demo_model],
       geometryDraws = [Some demo_model, Some demo_model] \<rparr>"

definition demo_renderer :: Renderer where
  "demo_renderer = initializeLights (initializeShadowMapping blank_renderer)"

text \<open>
  The statistics after a draw of a model that may have failed to load, and after a
  sequence of such draws, through a non-null shader.
\<close>

definition countDraw :: "Model option \<Rightarrow> Stats \<Rightarrow> Stats" where
  "countDraw model s =
     (case model of
        None \<Rightarrow> s
      | Some m \<Rightarrow> \<lparr> drawCalls = drawCalls s + 1,
                    vertexCount = vertexCount s + of_nat (getVertexCount m) \<rparr>)"

definition countDraws :: "Model option list \<Rightarrow> Stats \<Rightarrow> Stats" where
  "countDraws models s = foldl (\<lambda>s model. countDraw model s) s models"

definition loadedModels :: "Model option list \<Rightarrow> nat" where
  "loadedModels models = length (filter (\<lambda>model. model \<noteq> None) models)"

text \<open>
  Whether the shadow pass renders the shadow map of light \<open>i\<close>: its slot is active, and
  the light is not a static one whose slot has been rendered.
\<close>

definition rendersAt :: "Renderer \<Rightarrow> nat \<Rightarrow> bool" where
  "rendersAt r i \<longleftrightarrow>
     isActive (shadowMaps r ! i) \<and>
     \<not> (isStatic (lightManager r ! i) \<and> hasRendered (shadowMaps r ! i))"

text \<open>The slot of a light after its shadow map has been rendered.\<close>

definition renderedSlot :: "ShadowParams \<Rightarrow> Light \<Rightarrow> ShadowMapData \<Rightarrow> ShadowMapData" where
  "renderedSlot params light shadowData =
     (case type light of
        DIRECTIONAL \<Rightarrow> shadowData \<lparr> lightSpaceMatrix := directionalShadowMatrix params light \<rparr>
      | POINT \<Rightarrow> shadowData \<lparr> shadowTransforms := pointShadowTransforms params light \<rparr>
      | SPOT \<Rightarrow> shadowData \<lparr> lightSpaceMatrix := spotShadowMatrix params light \<rparr>)
     \<lparr> hasRendered := True \<rparr>"

text \<open>The calls logged between a state and a later one.\<close>

definition callsDuring :: "Renderer \<Rightarrow> Renderer \<Rightarrow> call list" where
  "callsDuring r r' = drop (length (calls r)) (calls r')"

text \<open>The state of a frame when its shadow pass starts.\<close>

definition beforeShadowPass :: "Renderer \<Rightarrow> Renderer" where
  "beforeShadowPass r = updateLights 0.016 (updateShadowMaps (resetStats r))"

text \<open>Every slot that is marked rendered is active.\<close>

definition slotsConsistent :: "Renderer \<Rightarrow> bool" where
  "slotsConsistent r \<longleftrightarrow>
     (\<forall>j<length (shadowMaps r). hasRendered (shadowMaps r ! j) \<longrightarrow> isActive (shadowMaps r ! j))"

text \<open>
  The vertices counted for a sequence of draws: those of the models that are loaded.
\<close>

definition loadedVertices :: "Model option list \<Rightarrow> nat" where
  "loadedVertices models =
     sum_list (map (\<lambda>model. case model of None \<Rightarrow> 0 | Some m \<Rightarrow> getVertexCount m) models)"

text \<open>
  The demo renderer when the point-light shadow shader failed to load: the constructor
  catches the error and leaves \<^verbatim>\<open>pointShadowShader\<close> null.
\<close>

definition point_shader_missing :: Renderer where
  "point_shader_missing = demo_renderer \<lparr> pointShadowShader := False \<rparr>"

text \<open>The number of shadow maps the shadow pass renders from a state.\<close>

definition shadowRenders :: "Renderer \<Rightarrow> nat" where
  "shadowRenders r = length (filter (rendersAt r) [0..<shadowLightCount r])"

text \<open>A vector has unit length within \<open>1e-5\<close>.\<close>

definition unitLength :: "vec3 \<Rightarrow> bool" where
  "unitLength v \<longleftrightarrow> \<bar>vlength v - 1\<bar> \<le> 1 / 100000"

text \<open>
  The registry of the demo renderer after the direction sliders of its sun (light 0, a
  directional light) have been dragged to \<open>(0, -0.5, 0)\<close>.
\<close>

definition edited_registry :: "Light list" where
  "edited_registry =
     (lightManager demo_renderer)
       [0 := editDirection (lightManager demo_renderer ! 0) (0, - 1/2, 0)]"


section \<open>The light-space matrix helper\<close>







section \<open>Quantization results\<close>

lemma pow2_powr: "pow2 e = 2 powr (real_of_int e)"
  by (simp add: pow2_def powr_real_of_int inverse_eq_divide)

lemma pow2_pos: "0 < pow2 e"
  by (simp add: pow2_powr)

lemma pow2_add: "pow2 (a + b) = pow2 a * pow2 b"
  by (simp add: pow2_powr powr_add)

lemma pow2_diff: "pow2 (a - b) = pow2 a / pow2 b"
  by (simp add: pow2_powr powr_diff)

lemma pow2_mono: "pow2 a \<le> pow2 b \<longleftrightarrow> a \<le> b"
  by (simp add: pow2_powr)

lemma pow2_strict_mono: "pow2 a < pow2 b \<longleftrightarrow> a < b"
  by (simp add: pow2_powr)

lemma pow2_nat: "pow2 (int n) = 2 ^ n"
  by (simp add: pow2_def)

lemma exponent_from_range:
  "e - int n \<le> float32_exponent_from n e a \<and> float32_exponent_from n e a \<le> e"
proof (induction n arbitrary: e)
  case 0
  show ?case by simp
next
  case (Suc n)
  from Suc [of "e - 1"] show ?case by auto
qed

lemma exponent_from_below:
  "pow2 (float32_exponent_from n e a) \<le> a \<or> float32_exponent_from n e a = e - int n"
proof (induction n arbitrary: e)
  case 0
  show ?case by simp
next
  case (Suc n)
  from Suc [of "e - 1"] show ?case by auto
qed

lemma exponent_from_eq:
  "pow2 e0 \<le> a \<Longrightarrow> a < pow2 (e0 + 1) \<Longrightarrow> e0 \<le> e \<Longrightarrow> e - int n \<le> e0 \<Longrightarrow>
   float32_exponent_from n e a = e0"
proof (induction n arbitrary: e)
  case 0
  then show ?case by simp
next
  case (Suc n)
  show ?case
  proof (cases "pow2 e \<le> a")
    case True
    with Suc.prems(2) have "pow2 e < pow2 (e0 + 1)" by linarith
    then have "e < e0 + 1" by (simp only: pow2_strict_mono)
    with Suc.prems(3) True show ?thesis by simp
  next
    case False
    with Suc.prems(1) have "pow2 e0 < pow2 e" by linarith
    then have "e0 < e" by (simp only: pow2_strict_mono)
    with Suc.prems False show ?thesis
      by (simp add: Suc.IH)
  qed
qed

lemma float32_exponent_range:
  "- 126 \<le> float32_exponent x" "float32_exponent x \<le> 127"
  using exponent_from_range [of 127 253 "\<bar>x\<bar>"] by (simp_all add: float32_exponent_def)

lemma float32_exponent_below:
  "pow2 (float32_exponent x) \<le> \<bar>x\<bar> \<or> float32_exponent x = - 126"
  using exponent_from_below [of 253 127 "\<bar>x\<bar>"] by (simp add: float32_exponent_def)

lemma float32_exponent_eq:
  "pow2 e \<le> \<bar>x\<bar> \<Longrightarrow> \<bar>x\<bar> < pow2 (e + 1) \<Longrightarrow> - 126 \<le> e \<Longrightarrow> e \<le> 127 \<Longrightarrow>
   float32_exponent x = e"
  unfolding float32_exponent_def by (rule exponent_from_eq) simp_all

lemma round_ties_even_error: "\<bar>real_of_int (round_ties_even y) - y\<bar> \<le> 1 / 2"
  unfolding round_ties_even_def Let_def by (auto simp add: abs_le_iff; linarith)

lemma round_ties_even_int: "round_ties_even (real_of_int m) = m"
  by (simp add: round_ties_even_def)

lemma float32_error_ulp:
  "\<bar>float32 x - x\<bar> \<le> pow2 (float32_exponent x - 23) / 2"
proof -
  let ?u = "pow2 (float32_exponent x - 23)"
  have u: "0 < ?u" by (rule pow2_pos)
  have "float32 x - x = (real_of_int (round_ties_even (x / ?u)) - x / ?u) * ?u"
    using u by (simp add: float32_def Let_def algebra_simps)
  then have "\<bar>float32 x - x\<bar> = \<bar>real_of_int (round_ties_even (x / ?u)) - x / ?u\<bar> * ?u"
    using u by (simp add: abs_mult)
  also have "\<dots> \<le> 1 / 2 * ?u"
    using round_ties_even_error [of "x / ?u"] u by (intro mult_right_mono) simp_all
  finally show ?thesis by simp
qed

lemma float32_error:
  "\<bar>float32 x - x\<bar> \<le> \<bar>x\<bar> / 2 ^ 24 + 1 / 2 ^ 150"
proof -
  let ?e = "float32_exponent x"
  have p23: "pow2 23 = 2 ^ 23"
    by (simp add: pow2_def)
  have half: "pow2 (?e - 23) / 2 = pow2 ?e / 2 ^ 24"
    by (simp add: pow2_diff p23)
  from float32_exponent_below [of x] show ?thesis
  proof
    assume "pow2 ?e \<le> \<bar>x\<bar>"
    then have "pow2 ?e / 2 ^ 24 \<le> \<bar>x\<bar> / 2 ^ 24"
      by (simp add: divide_right_mono)
    with float32_error_ulp [of x] half show ?thesis by simp
  next
    assume "?e = - 126"
    then have "pow2 (?e - 23) / 2 = 1 / 2 ^ 150"
      by (simp add: pow2_def)
    with float32_error_ulp [of x] show ?thesis
      by (smt (verit) abs_ge_zero divide_nonneg_pos zero_less_numeral zero_less_power)
  qed
qed

lemma float32_exact:
  assumes m: "\<bar>m\<bar> < 2 ^ 24" and j: "- 149 \<le> j"
  shows "float32 (real_of_int m * pow2 j) = real_of_int m * pow2 j"
proof -
  let ?x = "real_of_int m * pow2 j"
  let ?e = "float32_exponent ?x"
  have e: "?e - 23 \<le> j"
  proof -
    from float32_exponent_below [of ?x] show ?thesis
    proof
      assume "pow2 ?e \<le> \<bar>?x\<bar>"
      moreover have "\<bar>?x\<bar> < 2 ^ 24 * pow2 j"
      proof -
        have "real_of_int \<bar>m\<bar> < 2 ^ 24"
          using m by (metis of_int_less_numeral_power_cancel_iff)
        then show ?thesis
          using pow2_pos [of j] by (simp add: abs_mult)
      qed
      moreover have "pow2 24 = 2 ^ 24"
        by (simp add: pow2_def)
      ultimately have "pow2 ?e < pow2 (24 + j)"
        by (simp add: pow2_add)
      then show ?thesis
        by (simp only: pow2_strict_mono)
    next
      assume "?e = - 126"
      with j show ?thesis by simp
    qed
  qed
  define d where "d = nat (j - (?e - 23))"
  define u where "u = pow2 (?e - 23)"
  have u: "0 < u"
    by (simp add: u_def pow2_pos)
  have "pow2 j = pow2 ((?e - 23) + int d)"
    using e by (simp add: d_def)
  then have pj: "pow2 j = u * 2 ^ d"
    by (simp only: pow2_add pow2_nat u_def)
  have "real_of_int m * (u * 2 ^ d) / u = real_of_int (m * 2 ^ d)"
    using u by simp
  then have "round_ties_even (real_of_int m * (u * 2 ^ d) / u) = m * 2 ^ d"
    by (simp only: round_ties_even_int)
  then have "real_of_int (round_ties_even (real_of_int m * (u * 2 ^ d) / u)) * u =
             real_of_int m * (u * 2 ^ d)"
    by simp
  then have "real_of_int (round_ties_even (?x / u)) * u = ?x"
    by (simp only: pj)
  then show ?thesis
    by (simp only: float32_def Let_def u_def)
qed

lemma float32_int: "\<bar>m\<bar> < 2 ^ 24 \<Longrightarrow> float32 (real_of_int m) = real_of_int m"
  using float32_exact [of m 0] by (simp add: pow2_def)


lemma float32_0: "float32 0 = 0"
  by (simp add: float32_def round_ties_even_def)

lemma float32_1: "float32 1 = 1"
  using float32_int [of 1] by simp

text \<open>The rounding of a value whose binade is known.\<close>

lemma float32_eval:
  "pow2 e \<le> \<bar>x\<bar> \<Longrightarrow> \<bar>x\<bar> < pow2 (e + 1) \<Longrightarrow> - 126 \<le> e \<Longrightarrow> e \<le> 127 \<Longrightarrow>
   float32 x = real_of_int (round_ties_even (x / pow2 (e - 23))) * pow2 (e - 23)"
  by (simp add: float32_def float32_exponent_eq Let_def)

lemma float32_073: "float32 (73 / 100) = 12247368 / 16777216"
  by (subst float32_eval [where e = "- 1"]) (simp_all add: pow2_def round_ties_even_def)

lemma float32_tie: "float32 (33554431 / 33554432) = 1"
  by (subst float32_eval [where e = "- 1"]) (simp_all add: pow2_def round_ties_even_def)

lemma float32_one_fifth: "float32 (1 / 5) = 13421773 / 67108864"
  by (subst float32_eval [where e = "- 3"]) (simp_all add: pow2_def round_ties_even_def)

lemma quantize_band:
  assumes N: "1 < N" "N \<le> 2 ^ 20"
  shows "\<exists>k. quantizeDiffuseIntensity x N = float32 (real_of_int k / real_of_int N) \<and>
             \<bar>real_of_int k - clamp x 0 1 * real_of_int N\<bar> \<le> 1 / 2 + real_of_int N / 2 ^ 22"
proof -
  define c where "c = clamp x 0 1 * real_of_int N"
  define k where "k = \<lfloor>float32 (float32 (clamp x 0 1 * real_of_int N) + 1 / 2)\<rfloor>"
  have Nr: "1 < real_of_int N" "real_of_int N \<le> 2 ^ 20"
    using N by (simp, metis of_int_le_numeral_power_cancel_iff)
  have "\<bar>N\<bar> < 2 ^ 24"
    using N by simp
  then have b: "float32 (real_of_int N) = real_of_int N"
    by (rule float32_int)
  have q: "quantizeDiffuseIntensity x N = float32 (real_of_int k / real_of_int N)"
    using N by (simp add: quantizeDiffuseIntensity_def b k_def Let_def)
  have c: "0 \<le> c" "c \<le> real_of_int N"
    using Nr by (simp_all add: c_def clamp_def min_def max_def)
  define r1 where "r1 = float32 c"
  define r2 where "r2 = float32 (r1 + 1 / 2)"
  have e1: "\<bar>r1 - c\<bar> \<le> c / 2 ^ 24 + 1 / 2 ^ 150"
    using float32_error [of c] c by (simp add: r1_def)
  have e2: "\<bar>r2 - (r1 + 1 / 2)\<bar> \<le> \<bar>r1 + 1 / 2\<bar> / 2 ^ 24 + 1 / 2 ^ 150"
    using float32_error [of "r1 + 1 / 2"] by (simp add: r2_def)
  have tiny: "(1 :: real) / 2 ^ 150 \<le> 1 / 2 ^ 26"
    by simp
  have e1': "\<bar>r1 - c\<bar> \<le> real_of_int N / 2 ^ 24 + 1 / 2 ^ 26"
    using e1 c tiny by (simp add: field_simps)
  have small: "real_of_int N / 2 ^ 24 + 1 / 2 ^ 26 \<le> 1 / 2"
    using Nr by simp
  have s: "\<bar>r1 + 1 / 2\<bar> \<le> real_of_int N + 1"
    using e1' c small by arith
  have e2': "\<bar>r2 - (r1 + 1 / 2)\<bar> \<le> (real_of_int N + 1) / 2 ^ 24 + 1 / 2 ^ 26"
    using e2 s tiny by (simp add: field_simps)
  have k: "real_of_int k \<le> r2" "r2 < real_of_int k + 1"
    by (simp_all add: k_def r2_def r1_def c_def)
  have E: "real_of_int N / 2 ^ 24 + 1 / 2 ^ 26 + ((real_of_int N + 1) / 2 ^ 24 + 1 / 2 ^ 26)
             \<le> real_of_int N / 2 ^ 22"
    using Nr by (simp add: field_simps)
  have "\<bar>real_of_int k - c\<bar> \<le> 1 / 2 + real_of_int N / 2 ^ 22"
    using e1' e2' k E by arith
  with q show ?thesis
    unfolding c_def by blast
qed


lemma float32_5: "float32 5 = 5"
  using float32_int [of 5] by simp

lemma float32_half_int: "\<bar>m\<bar> < 2 ^ 24 \<Longrightarrow> float32 (real_of_int m / 2) = real_of_int m / 2"
  using float32_exact [of m "- 1"] by (simp add: pow2_def)

lemma quantize_steps:
  "1 < N \<Longrightarrow> float32 (real_of_int N) = b \<Longrightarrow> float32 (clamp x 0 1 * b) = r1 \<Longrightarrow>
   float32 (r1 + 1 / 2) = r2 \<Longrightarrow>
   quantizeDiffuseIntensity x N = float32 (real_of_int \<lfloor>r2\<rfloor> / b)"
  by (simp add: quantizeDiffuseIntensity_def Let_def)

lemma float32_of_5: "float32 (real_of_int 5) = 5"
  by (simp add: float32_5)

lemma quantize_clamped_eval: "quantizeDiffuseIntensity (3/2) 5 = 1"
proof -
  have a: "float32 (clamp (3/2) 0 1 * 5) = 5"
    by (simp add: clamp_def float32_5)
  have b: "float32 (5 + 1 / 2) = 11 / 2"
    using float32_half_int [of 11] by simp
  from quantize_steps [OF _ float32_of_5 a b]
  have "quantizeDiffuseIntensity (3/2) 5 = float32 (real_of_int \<lfloor>11 / 2 :: real\<rfloor> / 5)"
    by simp
  then show ?thesis
    by (simp add: float32_1)
qed

lemma quantize_example_eval: "quantizeDiffuseIntensity (float32 (73 / 100)) 5 = float32 (4 / 5)"
proof -
  have e: "float32 (7654605 / 2097152) = 7654605 / 2097152"
    using float32_exact [of 7654605 "- 21"] by (simp add: pow2_def)
  have a: "float32 (clamp (float32 (73 / 100)) 0 1 * 5) = 7654605 / 2097152"
    by (simp add: float32_073 clamp_def e)
  have b: "float32 (7654605 / 2097152 + 1 / 2) = 8703181 / 2097152"
    using float32_exact [of 8703181 "- 21"] by (simp add: pow2_def)
  from quantize_steps [OF _ float32_of_5 a b]
  have "quantizeDiffuseIntensity (float32 (73 / 100)) 5 =
        float32 (real_of_int \<lfloor>8703181 / 2097152 :: real\<rfloor> / 5)"
    by simp
  then show ?thesis
    by simp
qed

text \<open>
  Rounding is visible in the result: for the \<^verbatim>\<open>float\<close> \<open>3355443 / 2 ^ 25\<close> and 5 bands the
  product is just under one half, the sum \<open>1 - 1 / 2 ^ 25\<close> lies halfway between two
  \<^verbatim>\<open>float\<close> values and is rounded to 1, so the function returns the first band although
  the exact product rounds to 0.
\<close>

lemma quantizeDiffuseIntensity_tie:
  "quantizeDiffuseIntensity (3355443 / 33554432) 5 = float32 (1 / 5) \<and>
   round (3355443 / 33554432 * real_of_int 5) = 0"
proof -
  have e: "float32 (16777215 / 33554432) = 16777215 / 33554432"
    using float32_exact [of 16777215 "- 25"] by (simp add: pow2_def)
  have a: "float32 (clamp (3355443 / 33554432) 0 1 * 5) = 16777215 / 33554432"
    by (simp add: clamp_def e)
  have b: "float32 (16777215 / 33554432 + 1 / 2) = 1"
    using float32_tie by simp
  from quantize_steps [OF _ float32_of_5 a b]
  have "quantizeDiffuseIntensity (3355443 / 33554432) 5 = float32 (1 / 5)"
    by simp
  moreover have "round (3355443 / 33554432 * real_of_int 5) = 0"
    by (simp add: round_def)
  ultimately show ?thesis by simp
qed

lemma quantize_nearest:
  assumes N: "1 < N" "N \<le> 2 ^ 20"
    and away: "\<bar>real_of_int (round (clamp x 0 1 * real_of_int N)) - clamp x 0 1 * real_of_int N\<bar>
                 < 1 / 2 - real_of_int N / 2 ^ 22"
  shows "quantizeDiffuseIntensity x N =
         float32 (real_of_int (round (clamp x 0 1 * real_of_int N)) / real_of_int N)"
proof -
  from quantize_band [OF N, of x] obtain k where
    q: "quantizeDiffuseIntensity x N = float32 (real_of_int k / real_of_int N)" and
    k: "\<bar>real_of_int k - clamp x 0 1 * real_of_int N\<bar> \<le> 1 / 2 + real_of_int N / 2 ^ 22"
    by blast
  from k away have "\<bar>real_of_int k - real_of_int (round (clamp x 0 1 * real_of_int N))\<bar> < 1"
    by arith
  then have "\<bar>k - round (clamp x 0 1 * real_of_int N)\<bar> < 1"
    by (metis of_int_abs of_int_diff of_int_less_1_iff)
  then have "k = round (clamp x 0 1 * real_of_int N)"
    by simp
  with q show ?thesis by simp
qed

lemma quantize_range:
  assumes N: "1 < N" "N \<le> 2 ^ 20"
    and k: "\<bar>real_of_int k - c\<bar> \<le> 1 / 2 + real_of_int N / 2 ^ 22"
    and c: "0 \<le> c" "c \<le> real_of_int N"
  shows "0 \<le> k \<and> k \<le> N"
proof -
  have "real_of_int N \<le> 2 ^ 20"
    using N by (metis of_int_le_numeral_power_cancel_iff)
  then have "real_of_int N / 2 ^ 22 \<le> 1 / 4"
    by simp
  with k c have "- 1 < real_of_int k" "real_of_int k < real_of_int N + 1"
    by arith+
  then have "- 1 < k" "k < N + 1"
    by linarith+
  then show ?thesis by simp
qed

section \<open>Shadow intensity blending\<close>

lemma mix_at_0: "mix x y 0 = x"
  by (simp add: mix_def)

lemma mix_at_1: "mix x y 1 = y"
  by (simp add: mix_def)

text \<open>
  C1, as stated, fails: with \<^verbatim>\<open>shadowIntensity = 0\<close> a fully occluded fragment (raw
  shadow 1) gets the effective shadow factor 0, not 1.
\<close>

theorem shadow_intensity_zero_counterexample:
  "u_shadowIntensity shadow_inputs = 0 \<and>
   pointRawShadow shadow_inputs 0 (1, 0, 0) (0, 0, 0) = 1 \<and>
   calculatePointShadow shadow_inputs 0 (1, 0, 0) (0, 0, 0) \<noteq> 1"
  by (simp add: calculatePointShadow_def pointRawShadow_def shadow_inputs_def dark_cube_def
      vlength_def mix_def)

text \<open>
  C1, amended: the blend \<^verbatim>\<open>mix(1.0, 1.0 - shadow, 1.0 - shadowIntensity)\<close> of both shadow
  functions yields 1 (no shadow) when \<^verbatim>\<open>shadowIntensity = 1\<close>, whatever the raw shadow
  test result, and yields exactly \<open>1 - rawShadow\<close> when \<^verbatim>\<open>shadowIntensity = 0\<close>
  (for directional and spot lights on fragments inside the shadow map; outside it the
  function returns 1 before blending).
\<close>

theorem shadow_intensity_blend:
  "(u_shadowIntensity u = 1 \<longrightarrow>
      calculatePointShadow u i fragPos lightPos = 1 \<and>
      calculateDirectionalSpotShadow u i fragPos normal lightDir = 1) \<and>
   (u_shadowIntensity u = 0 \<longrightarrow>
      calculatePointShadow u i fragPos lightPos = 1 - pointRawShadow u i fragPos lightPos \<and>
      calculateDirectionalSpotShadow u i fragPos normal lightDir =
        (if outsideShadowMap (projCoords_of (u_lightSpaceMatrices u ! i) fragPos) then 1
         else 1 - dirSpotRawShadow u i fragPos normal lightDir))"
  by (simp add: calculatePointShadow_def calculateDirectionalSpotShadow_def mix_at_0 mix_at_1)

theorem shadow_intensity_blend_witness:
  "u_shadowIntensity shadow_inputs = 0 \<and>
   calculatePointShadow shadow_inputs 0 (1, 0, 0) (0, 0, 0) = 0 \<and>
   u_shadowIntensity (shadow_inputs\<lparr>u_shadowIntensity := 1\<rparr>) = 1 \<and>
   calculatePointShadow (shadow_inputs\<lparr>u_shadowIntensity := 1\<rparr>) 0 (1, 0, 0) (0, 0, 0) = 1"
proof -
  have int0: "u_shadowIntensity shadow_inputs = 0"
    by (simp add: shadow_inputs_def)
  have raw: "pointRawShadow shadow_inputs 0 (1, 0, 0) (0, 0, 0) = 1"
    by (simp add: pointRawShadow_def shadow_inputs_def dark_cube_def vlength_def)
  have int1: "u_shadowIntensity (shadow_inputs\<lparr>u_shadowIntensity := 1\<rparr>) = 1"
    by simp
  from shadow_intensity_blend [of shadow_inputs 0 "(1, 0, 0)" "(0, 0, 0)"] int0 raw
  have a: "calculatePointShadow shadow_inputs 0 (1, 0, 0) (0, 0, 0) = 0"
    by simp
  from shadow_intensity_blend [of "shadow_inputs\<lparr>u_shadowIntensity := 1\<rparr>" 0 "(1, 0, 0)" "(0, 0, 0)"] int1
  have b: "calculatePointShadow (shadow_inputs\<lparr>u_shadowIntensity := 1\<rparr>) 0 (1, 0, 0) (0, 0, 0) = 1"
    by simp
  from int0 a int1 b show ?thesis by simp
qed

text \<open>
  C5, as stated, fails as a general formula: the function clamps the intensity to
  \<open>[0, 1]\<close> before banding, so the intensity 1.5 with 5 bands gives 1, while
  \<open>round (1.5 * 5) / 5\<close> is 1.6.
\<close>

theorem quantize_round_counterexample:
  "quantizeDiffuseIntensity (3/2) 5 \<noteq> real_of_int (round (3/2 * real_of_int 5)) / real_of_int 5"
  by (simp add: quantize_clamped_eval round_def)

text \<open>
  C5, amended. A band count of at most 1 is a pass-through: \<open>quantizeDiffuseIntensity x 1 = x\<close>
  for every \<open>x\<close>. For \<open>N\<close> bands, \<open>1 < N \<le> 2 ^ 20\<close>, the intensity is first clamped to
  \<open>[0, 1]\<close>; with \<open>c\<close> the clamped intensity, the result is the \<^verbatim>\<open>float\<close> nearest to \<open>k / N\<close>
  for an integer band \<open>k\<close> from 0 to \<open>N\<close> that is \<open>c * N\<close> rounded half up in \<^verbatim>\<open>float\<close>
  arithmetic: \<open>k\<close> is within \<open>1/2 + N / 2 ^ 22\<close> of \<open>c * N\<close>, and it is \<open>round (c * N)\<close>
  whenever \<open>c * N\<close> is nearer than \<open>1/2 - N / 2 ^ 22\<close> to that integer. Intensities of 1 or
  more give 1, intensities of 0 or less give 0. In particular
  \<open>quantizeDiffuseIntensity 0.73 5 = 0.8\<close>, both read as \<^verbatim>\<open>float\<close> values.
\<close>

theorem quantizeDiffuseIntensity_spec:
  "quantizeDiffuseIntensity (float32 0.73) 5 = float32 0.8 \<and>
   quantizeDiffuseIntensity x 1 = x \<and>
   (N \<le> 1 \<longrightarrow> quantizeDiffuseIntensity x N = x) \<and>
   (1 < N \<and> N \<le> 2 ^ 20 \<longrightarrow>
      (\<exists>k. 0 \<le> k \<and> k \<le> N \<and>
           quantizeDiffuseIntensity x N = float32 (real_of_int k / real_of_int N) \<and>
           \<bar>real_of_int k - clamp x 0 1 * real_of_int N\<bar> \<le> 1 / 2 + real_of_int N / 2 ^ 22) \<and>
      (\<bar>real_of_int (round (clamp x 0 1 * real_of_int N)) - clamp x 0 1 * real_of_int N\<bar>
           < 1 / 2 - real_of_int N / 2 ^ 22 \<longrightarrow>
         quantizeDiffuseIntensity x N =
           float32 (real_of_int (round (clamp x 0 1 * real_of_int N)) / real_of_int N)) \<and>
      (1 \<le> x \<longrightarrow> quantizeDiffuseIntensity x N = 1) \<and>
      (x \<le> 0 \<longrightarrow> quantizeDiffuseIntensity x N = 0))"
proof -
  have ex: "quantizeDiffuseIntensity (float32 0.73) 5 = float32 0.8"
    using quantize_example_eval by simp
  have pass: "N \<le> 1 \<longrightarrow> quantizeDiffuseIntensity x N = x" "quantizeDiffuseIntensity x 1 = x"
    by (simp_all add: quantizeDiffuseIntensity_def)
  have many: "(\<exists>k. 0 \<le> k \<and> k \<le> N \<and>
           quantizeDiffuseIntensity x N = float32 (real_of_int k / real_of_int N) \<and>
           \<bar>real_of_int k - clamp x 0 1 * real_of_int N\<bar> \<le> 1 / 2 + real_of_int N / 2 ^ 22) \<and>
      (\<bar>real_of_int (round (clamp x 0 1 * real_of_int N)) - clamp x 0 1 * real_of_int N\<bar>
           < 1 / 2 - real_of_int N / 2 ^ 22 \<longrightarrow>
         quantizeDiffuseIntensity x N =
           float32 (real_of_int (round (clamp x 0 1 * real_of_int N)) / real_of_int N)) \<and>
      (1 \<le> x \<longrightarrow> quantizeDiffuseIntensity x N = 1) \<and>
      (x \<le> 0 \<longrightarrow> quantizeDiffuseIntensity x N = 0)"
    if N: "1 < N" "N \<le> 2 ^ 20"
  proof -
    have Nr: "1 < real_of_int N" "real_of_int N \<le> 2 ^ 20"
      using N by (simp, metis of_int_le_numeral_power_cancel_iff)
    have c: "0 \<le> clamp x 0 1 * real_of_int N" "clamp x 0 1 * real_of_int N \<le> real_of_int N"
      using Nr by (simp_all add: clamp_def min_def max_def)
    from quantize_band [OF N, of x] obtain k where
      q: "quantizeDiffuseIntensity x N = float32 (real_of_int k / real_of_int N)" and
      k: "\<bar>real_of_int k - clamp x 0 1 * real_of_int N\<bar> \<le> 1 / 2 + real_of_int N / 2 ^ 22"
      by blast
    from quantize_range [OF N k c] q k have band: "\<exists>k. 0 \<le> k \<and> k \<le> N \<and>
           quantizeDiffuseIntensity x N = float32 (real_of_int k / real_of_int N) \<and>
           \<bar>real_of_int k - clamp x 0 1 * real_of_int N\<bar> \<le> 1 / 2 + real_of_int N / 2 ^ 22"
      by blast
    have eps: "0 < 1 / 2 - real_of_int N / 2 ^ 22"
      using Nr by simp
    have top: "quantizeDiffuseIntensity x N = 1" if "1 \<le> x"
    proof -
      from that have "clamp x 0 1 * real_of_int N = real_of_int N"
        by (simp add: clamp_def)
      with quantize_nearest [OF N, of x] eps
      have "quantizeDiffuseIntensity x N = float32 (real_of_int N / real_of_int N)"
        by simp
      with Nr show ?thesis
        by (simp add: float32_1)
    qed
    have bottom: "quantizeDiffuseIntensity x N = 0" if "x \<le> 0"
    proof -
      from that have "clamp x 0 1 * real_of_int N = 0"
        by (simp add: clamp_def)
      with quantize_nearest [OF N, of x] eps
      have "quantizeDiffuseIntensity x N = float32 (0 / real_of_int N)"
        by simp
      then show ?thesis
        by (simp add: float32_0)
    qed
    from band quantize_nearest [OF N, of x] top bottom show ?thesis
      by blast
  qed
  from ex pass many show ?thesis
    by blast
qed

theorem quantizeDiffuseIntensity_spec_witness:
  "(1::int) < 5 \<and> quantizeDiffuseIntensity (3/2) 5 = 1 \<and>
   quantizeDiffuseIntensity (- 1/4) 5 = 0 \<and>
   quantizeDiffuseIntensity (3/4) 5 = float32 (4/5) \<and>
   (0::int) \<le> 1 \<and> quantizeDiffuseIntensity (3/2) 0 = 3/2"
proof -
  have N: "(1::int) < 5 \<and> (5::int) \<le> 2 ^ 20"
    by simp
  from quantizeDiffuseIntensity_spec [of "3/2" 5] N
  have a: "quantizeDiffuseIntensity (3/2) 5 = 1" by simp
  from quantizeDiffuseIntensity_spec [of "- 1/4" 5] N
  have b: "quantizeDiffuseIntensity (- 1/4) 5 = 0" by simp
  have r: "round (clamp (3/4) 0 1 * real_of_int 5) = 4"
    by (simp add: clamp_def round_def)
  have "\<bar>real_of_int (round (clamp (3/4) 0 1 * real_of_int 5)) - clamp (3/4) 0 1 * real_of_int 5\<bar>
          < 1 / 2 - real_of_int 5 / 2 ^ 22"
    unfolding r by (simp add: clamp_def)
  with quantizeDiffuseIntensity_spec [of "3/4" 5] N
  have "quantizeDiffuseIntensity (3/4) 5 =
          float32 (real_of_int (round (clamp (3/4) 0 1 * real_of_int 5)) / real_of_int 5)"
    by blast
  then have c: "quantizeDiffuseIntensity (3/4) 5 = float32 (4/5)"
    unfolding r by simp
  from quantizeDiffuseIntensity_spec [of "3/2" 0]
  have d: "quantizeDiffuseIntensity (3/2) 0 = 3/2" by simp
  from a b c d show ?thesis by simp
qed

section \<open>Edge detection on flat input\<close>




lemma flat_depthEdgeSignal:
  "\<forall>p q. e_gDepth u p = e_gDepth u q \<Longrightarrow> depthEdgeSignal u tc = 0"
proof -
  assume c: "\<forall>p q. e_gDepth u p = e_gDepth u q"
  define v where "v = e_gDepth u (0, 0)"
  have "\<And>p. e_gDepth u p = v"
    unfolding v_def using c by blast
  then show ?thesis
    by (simp add: depthEdgeSignal_def depthAt_def)
qed





lemma flat_edge_value_eval: "edge_value flat_edge_inputs (1/2, 1/2) = 1701 / 4000"
proof -
  have s: "depthEdgeSignal flat_edge_inputs (1/2, 1/2) = 0"
    by (rule flat_depthEdgeSignal) (simp add: flat_edge_inputs_def flat_depth_def)
  have "depthEdgeDetection flat_edge_inputs (1/2, 1/2) = 1701 / 4000"
    unfolding depthEdgeDetection_def s
    by (simp add: getEdgeIntensity_def smoothstep_def clamp_def flat_edge_inputs_def)
  then show ?thesis
    by (simp add: edge_value_def flat_edge_inputs_def DEPTH_BASED_def NORMAL_BASED_def
        SOBEL_def COLOR_BASED_def LAPLACIAN_def)
qed




section \<open>Composite blend\<close>

lemma flat_edge_main_eval:
  "edge_main flat_edge_inputs (1/2, 1/2) = (1701 / 4000, 1701 / 4000, 1701 / 4000, 1701 / 4000)"
  by (simp add: edge_main_def flat_edge_value_eval vec4_of_def) (simp add: flat_edge_inputs_def)

text \<open>In eight bits the edge intensity 0.42525 of the flat frame is stored as 108.\<close>

lemma flat_edge_texel:
  "c_edgeTexture flat_composite_inputs (1/2, 1/2) = (108 / 255, 108 / 255, 108 / 255, 108 / 255)"
  by (simp add: flat_composite_inputs_def flat_edge_main_eval unorm8_def clamp_def)

lemma unorm8_0: "unorm8 0 = 0"
  by (simp add: unorm8_def clamp_def)

lemma unorm8_1: "unorm8 1 = 1"
  by (simp add: unorm8_def clamp_def)

lemma mix3_at_0: "mix3 x y 0 = x"
  by (cases x; cases y) (simp add: mix3_def)

lemma mix3_at_1: "mix3 x y 1 = y"
  by (cases x; cases y) (simp add: mix3_def)

lemma stored_edge_texel:
  "storeRGBA8 (edge_main eu tc) =
     (unorm8 (vx (e_edgeColor eu) * edge_value eu tc),
      unorm8 (vy (e_edgeColor eu) * edge_value eu tc),
      unorm8 (vz (e_edgeColor eu) * edge_value eu tc),
      unorm8 (edge_value eu tc))"
  by (cases "e_edgeColor eu") (simp add: edge_main_def vec4_of_def)

lemma composite_main_eq:
  "composite_main c tc =
     vec4_of (if c_enableOutlining c
              then mix3 (xyz (c_lightingTexture c tc)) (xyz (c_edgeTexture c tc))
                     (wc (c_edgeTexture c tc))
              else xyz (c_lightingTexture c tc)) 1"
  by (simp add: composite_main_def Let_def)

text \<open>
  The screen after the edge pass and the composite pass of the renderer, both shaders
  loaded: the composite shader reads the edge shader's output as the 8-bit edge buffer
  holds it.
\<close>

lemma compositePass_screen:
  assumes "edgeDetectionShader r = Some eu" "compositeShader r = Some cu"
  shows "screen (compositePass (edgeDetectionPass r)) tc =
     composite_main
       \<lparr> c_lightingTexture = lightingTexture r,
         c_edgeTexture = (\<lambda>texCoords. storeRGBA8 (edge_main (edgeUniforms r eu) texCoords)),
         c_enableOutlining = enableOutlining (edgeParams r) \<rparr> tc"
  using assms
  by (simp add: compositePass_def edgeDetectionPass_def Let_def composite_main_def)

text \<open>
  C6, as stated, fails: on the flat frame with a white outline colour the edge pass
  writes the partial edge intensity 0.42525 in all four channels, the edge buffer holds
  it as 108/255, and the composite pass blends the lit colour toward that already
  attenuated colour, not toward the configured outline colour.
\<close>

theorem composite_mix_counterexample:
  "composite_main flat_composite_inputs (1/2, 1/2) \<noteq>
   vec4_of (mix3 (xyz (c_lightingTexture flat_composite_inputs (1/2, 1/2)))
              (e_edgeColor flat_edge_inputs)
              (wc (c_edgeTexture flat_composite_inputs (1/2, 1/2)))) 1"
proof -
  have "c_enableOutlining flat_composite_inputs"
    "c_lightingTexture flat_composite_inputs (1/2, 1/2) = (1/2, 1/2, 1/2, 1)"
    "e_edgeColor flat_edge_inputs = (1, 1, 1)"
    by (simp_all add: flat_composite_inputs_def flat_color_def flat_edge_inputs_def)
  then show ?thesis
    by (simp add: composite_main_eq flat_edge_texel mix3_def vec4_of_def)
qed

text \<open>
  C6, amended: when outlining is enabled the composite pass outputs
  \<^verbatim>\<open>mix(lit, e.rgb, e.a)\<close> for the texel \<open>e\<close> it reads from the edge buffer, and when
  outlining is disabled it outputs the lit colour unmodified. The edge buffer is an 8-bit
  texture into which the edge pass writes \<^verbatim>\<open>rgb = edgeColor * edge\<close> and \<^verbatim>\<open>a = edge\<close>, so
  \<open>e.rgb\<close> is \<open>edgeColor * edge\<close> and \<open>e.a\<close> is \<open>edge\<close>, each stored in eight bits: the blend
  is toward the outline colour already scaled by the edge intensity. Where the edge
  intensity is 0 the output is the lit colour, and where it is 1 the output is the outline
  colour as eight bits hold it. The renderer's edge and composite passes, with both
  shaders loaded, put exactly this on the screen.
\<close>

theorem composite_blend:
  "composite_main c tc =
     vec4_of (if c_enableOutlining c
              then mix3 (xyz (c_lightingTexture c tc)) (xyz (c_edgeTexture c tc))
                     (wc (c_edgeTexture c tc))
              else xyz (c_lightingTexture c tc)) 1 \<and>
   (c_edgeTexture c = (\<lambda>texCoords. storeRGBA8 (edge_main eu texCoords)) \<longrightarrow>
      xyz (c_edgeTexture c tc) =
        (unorm8 (vx (e_edgeColor eu) * edge_value eu tc),
         unorm8 (vy (e_edgeColor eu) * edge_value eu tc),
         unorm8 (vz (e_edgeColor eu) * edge_value eu tc)) \<and>
      wc (c_edgeTexture c tc) = unorm8 (edge_value eu tc) \<and>
      (c_enableOutlining c \<and> edge_value eu tc = 0 \<longrightarrow>
         composite_main c tc = vec4_of (xyz (c_lightingTexture c tc)) 1) \<and>
      (c_enableOutlining c \<and> edge_value eu tc = 1 \<longrightarrow>
         composite_main c tc =
           vec4_of (unorm8 (vx (e_edgeColor eu)), unorm8 (vy (e_edgeColor eu)),
                    unorm8 (vz (e_edgeColor eu))) 1)) \<and>
   (edgeDetectionShader r = Some eu \<and> compositeShader r = Some cu \<longrightarrow>
      screen (compositePass (edgeDetectionPass r)) tc =
        vec4_of (if enableOutlining (edgeParams r)
                 then mix3 (xyz (lightingTexture r tc))
                        (xyz (storeRGBA8 (edge_main (edgeUniforms r eu) tc)))
                        (wc (storeRGBA8 (edge_main (edgeUniforms r eu) tc)))
                 else xyz (lightingTexture r tc)) 1)"
proof -
  have parts: "xyz (storeRGBA8 (edge_main eu tc)) =
        (unorm8 (vx (e_edgeColor eu) * edge_value eu tc),
         unorm8 (vy (e_edgeColor eu) * edge_value eu tc),
         unorm8 (vz (e_edgeColor eu) * edge_value eu tc))"
      "wc (storeRGBA8 (edge_main eu tc)) = unorm8 (edge_value eu tc)"
    by (simp_all add: stored_edge_texel)
  have none: "composite_main c tc = vec4_of (xyz (c_lightingTexture c tc)) 1"
    if "c_edgeTexture c = (\<lambda>texCoords. storeRGBA8 (edge_main eu texCoords))"
      "c_enableOutlining c" "edge_value eu tc = 0"
    using that by (simp add: composite_main_eq parts unorm8_0 mix3_at_0)
  have full: "composite_main c tc =
           vec4_of (unorm8 (vx (e_edgeColor eu)), unorm8 (vy (e_edgeColor eu)),
                    unorm8 (vz (e_edgeColor eu))) 1"
    if "c_edgeTexture c = (\<lambda>texCoords. storeRGBA8 (edge_main eu texCoords))"
      "c_enableOutlining c" "edge_value eu tc = 1"
    using that by (simp add: composite_main_eq parts unorm8_1 mix3_at_1)
  have pipeline: "screen (compositePass (edgeDetectionPass r)) tc =
        vec4_of (if enableOutlining (edgeParams r)
                 then mix3 (xyz (lightingTexture r tc))
                        (xyz (storeRGBA8 (edge_main (edgeUniforms r eu) tc)))
                        (wc (storeRGBA8 (edge_main (edgeUniforms r eu) tc)))
                 else xyz (lightingTexture r tc)) 1"
    if "edgeDetectionShader r = Some eu" "compositeShader r = Some cu"
    using compositePass_screen [OF that] by (simp add: composite_main_eq)
  from parts none full pipeline composite_main_eq [of c tc] show ?thesis
    by simp
qed

theorem composite_blend_witness:
  "c_edgeTexture flat_composite_inputs =
     (\<lambda>texCoords. storeRGBA8 (edge_main flat_edge_inputs texCoords)) \<and>
   composite_main flat_composite_inputs (1/2, 1/2) =
     vec4_of (mix3 (1/2, 1/2, 1/2) (108 / 255, 108 / 255, 108 / 255) (108 / 255)) 1 \<and>
   edgeDetectionShader blank_renderer = Some flat_edge_inputs \<and>
   compositeShader blank_renderer = Some flat_composite_inputs \<and>
   screen (compositePass (edgeDetectionPass blank_renderer)) (1/2, 1/2) = (0, 0, 0, 1)"
proof -
  have e: "c_edgeTexture flat_composite_inputs =
     (\<lambda>texCoords. storeRGBA8 (edge_main flat_edge_inputs texCoords))"
    and o: "c_enableOutlining flat_composite_inputs"
    and l: "c_lightingTexture flat_composite_inputs (1/2, 1/2) = (1/2, 1/2, 1/2, 1)"
    by (simp_all add: flat_composite_inputs_def flat_color_def)
  have s: "edgeDetectionShader blank_renderer = Some flat_edge_inputs"
    "compositeShader blank_renderer = Some flat_composite_inputs"
    by (simp_all add: blank_renderer_def)
  have black: "e_edgeColor (edgeUniforms blank_renderer flat_edge_inputs) = (0, 0, 0)"
    "enableOutlining (edgeParams blank_renderer)"
    "lightingTexture blank_renderer (1/2, 1/2) = (0, 0, 0, 0)"
    by (simp_all add: edgeUniforms_def blank_renderer_def blank_texture_def)
  have texel: "xyz (storeRGBA8 (edge_main (edgeUniforms blank_renderer flat_edge_inputs) (1/2, 1/2)))
      = (0, 0, 0)"
    by (simp add: stored_edge_texel black unorm8_0)
  note blend = composite_blend [of flat_composite_inputs "(1/2, 1/2)" flat_edge_inputs
      blank_renderer flat_composite_inputs]
  from blend o have "composite_main flat_composite_inputs (1/2, 1/2) =
     vec4_of (mix3 (xyz (c_lightingTexture flat_composite_inputs (1/2, 1/2)))
                (xyz (c_edgeTexture flat_composite_inputs (1/2, 1/2)))
                (wc (c_edgeTexture flat_composite_inputs (1/2, 1/2)))) 1"
    by simp
  then have a: "composite_main flat_composite_inputs (1/2, 1/2) =
     vec4_of (mix3 (1/2, 1/2, 1/2) (108 / 255, 108 / 255, 108 / 255) (108 / 255)) 1"
    by (simp add: flat_edge_texel l)
  from blend s have "screen (compositePass (edgeDetectionPass blank_renderer)) (1/2, 1/2) =
        vec4_of (if enableOutlining (edgeParams blank_renderer)
                 then mix3 (xyz (lightingTexture blank_renderer (1/2, 1/2)))
                        (xyz (storeRGBA8 (edge_main (edgeUniforms blank_renderer flat_edge_inputs)
                           (1/2, 1/2))))
                        (wc (storeRGBA8 (edge_main (edgeUniforms blank_renderer flat_edge_inputs)
                           (1/2, 1/2))))
                 else xyz (lightingTexture blank_renderer (1/2, 1/2))) 1"
    by blast
  then have b: "screen (compositePass (edgeDetectionPass blank_renderer)) (1/2, 1/2) = (0, 0, 0, 1)"
    by (simp add: black texel mix3_def vec4_of_def)
  from e a s b show ?thesis
    by blast
qed

section \<open>Shadow reconciliation\<close>

lemma updateShadowMapSlot_settles:
  "slotSettled params light (snd (snd (updateShadowMapSlot params light s)))"
  by (cases s)
    (auto simp add: updateShadowMapSlot_def slotSettled_def cleanupShadowMap_def
      allocateShadowMap_def Let_def)

lemma updateShadowMapSlot_settled:
  "slotSettled params light shadowData \<Longrightarrow>
   updateShadowMapSlot params light (names, cs, shadowData) = (names, cs, shadowData)"
  by (auto simp add: updateShadowMapSlot_def slotSettled_def split: if_splits)

lemma removeUnusedSlot_inactive:
  "\<not> isActive (snd (snd (removeUnusedSlot s)))"
  by (cases s) (auto simp add: removeUnusedSlot_def cleanupShadowMap_def Let_def)

lemma removeUnusedSlot_id:
  "\<not> isActive shadowData \<Longrightarrow> removeUnusedSlot (names, cs, shadowData) = (names, cs, shadowData)"
  by (simp add: removeUnusedSlot_def)

lemma onSlot_fields:
  "lightManager (onSlot f i r) = lightManager r"
  "shadowParams (onSlot f i r) = shadowParams r"
  "length (shadowMaps (onSlot f i r)) = length (shadowMaps r)"
  "stats (onSlot f i r) = stats r"
  by (simp_all add: onSlot_def split: prod.splits)

lemma onSlot_other:
  "j \<noteq> i \<Longrightarrow> shadowMaps (onSlot f i r) ! j = shadowMaps r ! j"
  by (simp add: onSlot_def split: prod.splits)

lemma onSlot_same:
  "i < length (shadowMaps r) \<Longrightarrow>
   shadowMaps (onSlot f i r) ! i = snd (snd (f (glNames r, calls r, shadowMaps r ! i)))"
  by (simp add: onSlot_def split: prod.splits)

lemma onSlot_id:
  "f (glNames r, calls r, shadowMaps r ! i) = (glNames r, calls r, shadowMaps r ! i) \<Longrightarrow>
   onSlot f i r = r"
  by (simp add: onSlot_def)

lemma foldl_id: "(\<And>i. i \<in> set xs \<Longrightarrow> f r i = r) \<Longrightarrow> foldl f r xs = r"
  by (induction xs) auto

text \<open>The first loop of reconciliation, over the slots below \<open>n\<close>.\<close>

lemma updateLoop_inv:
  "n \<le> length (shadowMaps r) \<Longrightarrow>
   (let r' = foldl (\<lambda>r i. onSlot (updateShadowMapSlot (shadowParams r) (lightManager r ! i)) i r)
               r [0..<n]
    in lightManager r' = lightManager r \<and> shadowParams r' = shadowParams r \<and>
       stats r' = stats r \<and>
       length (shadowMaps r') = length (shadowMaps r) \<and>
       (\<forall>j<n. \<exists>names cs. shadowMaps r' ! j =
          snd (snd (updateShadowMapSlot (shadowParams r) (lightManager r ! j)
                      (names, cs, shadowMaps r ! j)))) \<and>
       (\<forall>j\<ge>n. shadowMaps r' ! j = shadowMaps r ! j))"
proof (induction n)
  case 0
  then show ?case by simp
next
  case (Suc n)
  define r' where
    "r' = foldl (\<lambda>r i. onSlot (updateShadowMapSlot (shadowParams r) (lightManager r ! i)) i r)
            r [0..<n]"
  from Suc have ih:
    "lightManager r' = lightManager r" "shadowParams r' = shadowParams r"
    "stats r' = stats r"
    "length (shadowMaps r') = length (shadowMaps r)"
    "\<forall>j<n. \<exists>names cs. shadowMaps r' ! j =
          snd (snd (updateShadowMapSlot (shadowParams r) (lightManager r ! j)
                      (names, cs, shadowMaps r ! j)))"
    "\<forall>j\<ge>n. shadowMaps r' ! j = shadowMaps r ! j"
    by (simp_all add: r'_def Let_def)
  define r'' where
    "r'' = onSlot (updateShadowMapSlot (shadowParams r') (lightManager r' ! n)) n r'"
  have n: "n < length (shadowMaps r')"
    using Suc.prems ih(4) by simp
  have "shadowMaps r'' ! n =
          snd (snd (updateShadowMapSlot (shadowParams r) (lightManager r ! n)
                      (glNames r', calls r', shadowMaps r ! n)))"
    unfolding r''_def using n ih(6)
    by (simp add: onSlot_same ih(1,2))
  then have new: "\<exists>names cs. shadowMaps r'' ! n =
          snd (snd (updateShadowMapSlot (shadowParams r) (lightManager r ! n)
                      (names, cs, shadowMaps r ! n)))"
    by blast
  have old: "j \<noteq> n \<Longrightarrow> shadowMaps r'' ! j = shadowMaps r' ! j" for j
    unfolding r''_def by (simp add: onSlot_other)
  have settled: "\<forall>j<Suc n. \<exists>names cs. shadowMaps r'' ! j =
          snd (snd (updateShadowMapSlot (shadowParams r) (lightManager r ! j)
                      (names, cs, shadowMaps r ! j)))"
    using new old ih(5) by (auto simp add: less_Suc_eq)
  have rest: "\<forall>j\<ge>Suc n. shadowMaps r'' ! j = shadowMaps r ! j"
    using old ih(6) by auto
  have fields: "lightManager r'' = lightManager r" "shadowParams r'' = shadowParams r"
    "stats r'' = stats r" "length (shadowMaps r'') = length (shadowMaps r)"
    unfolding r''_def by (simp_all add: onSlot_fields ih)
  have "foldl (\<lambda>r i. onSlot (updateShadowMapSlot (shadowParams r) (lightManager r ! i)) i r)
          r [0..<Suc n] = r''"
    by (simp add: r''_def r'_def)
  with settled rest fields show ?case
    by (simp add: Let_def)
qed

text \<open>The second loop, over the slots from \<open>a\<close> up to \<open>b\<close>.\<close>

lemma removeLoop_inv:
  "a \<le> b \<Longrightarrow> b \<le> length (shadowMaps r) \<Longrightarrow>
   (let r' = foldl (\<lambda>r i. onSlot removeUnusedSlot i r) r [a..<b]
    in lightManager r' = lightManager r \<and> shadowParams r' = shadowParams r \<and>
       stats r' = stats r \<and>
       length (shadowMaps r') = length (shadowMaps r) \<and>
       (\<forall>j. a \<le> j \<and> j < b \<longrightarrow>
          (\<exists>names cs. shadowMaps r' ! j =
             snd (snd (removeUnusedSlot (names, cs, shadowMaps r ! j))))) \<and>
       (\<forall>j. j < a \<or> b \<le> j \<longrightarrow> shadowMaps r' ! j = shadowMaps r ! j))"
proof (induction b)
  case 0
  then show ?case by simp
next
  case (Suc b)
  show ?case
  proof (cases "a = Suc b")
    case True
    then show ?thesis by auto
  next
    case False
    with Suc.prems have ab: "a \<le> b" and bl: "b < length (shadowMaps r)"
      by simp_all
    define r' where "r' = foldl (\<lambda>r i. onSlot removeUnusedSlot i r) r [a..<b]"
    from Suc.IH ab bl have ih:
      "lightManager r' = lightManager r" "shadowParams r' = shadowParams r"
      "stats r' = stats r"
      "length (shadowMaps r') = length (shadowMaps r)"
      "\<forall>j. a \<le> j \<and> j < b \<longrightarrow>
          (\<exists>names cs. shadowMaps r' ! j =
             snd (snd (removeUnusedSlot (names, cs, shadowMaps r ! j))))"
      "\<forall>j. j < a \<or> b \<le> j \<longrightarrow> shadowMaps r' ! j = shadowMaps r ! j"
      by (simp_all add: r'_def Let_def)
    define r'' where "r'' = onSlot removeUnusedSlot b r'"
    have "shadowMaps r'' ! b =
            snd (snd (removeUnusedSlot (glNames r', calls r', shadowMaps r ! b)))"
      unfolding r''_def using bl ih(4) ih(6)
      by (simp add: onSlot_same)
    then have new: "\<exists>names cs. shadowMaps r'' ! b =
            snd (snd (removeUnusedSlot (names, cs, shadowMaps r ! b)))"
      by blast
    have old: "j \<noteq> b \<Longrightarrow> shadowMaps r'' ! j = shadowMaps r' ! j" for j
      unfolding r''_def by (simp add: onSlot_other)
    have inactive: "\<forall>j. a \<le> j \<and> j < Suc b \<longrightarrow>
          (\<exists>names cs. shadowMaps r'' ! j =
             snd (snd (removeUnusedSlot (names, cs, shadowMaps r ! j))))"
      using new old ih(5) by (auto simp add: less_Suc_eq)
    have rest: "\<forall>j. j < a \<or> Suc b \<le> j \<longrightarrow> shadowMaps r'' ! j = shadowMaps r ! j"
      using old ih(6) ab by auto
    have fields: "lightManager r'' = lightManager r" "shadowParams r'' = shadowParams r"
      "stats r'' = stats r" "length (shadowMaps r'') = length (shadowMaps r)"
      unfolding r''_def by (simp_all add: onSlot_fields ih)
    have "foldl (\<lambda>r i. onSlot removeUnusedSlot i r) r [a..<Suc b] = r''"
      using ab by (simp add: r''_def r'_def)
    with inactive rest fields show ?thesis
      by (simp add: Let_def)
  qed
qed

text \<open>What reconciliation establishes.\<close>

lemma updateShadowMaps_post:
  assumes len: "shadowLightCount r \<le> length (shadowMaps r)"
  shows "lightManager (updateShadowMaps r) = lightManager r"
    and "shadowParams (updateShadowMaps r) = shadowParams r"
    and "stats (updateShadowMaps r) = stats r"
    and "length (shadowMaps (updateShadowMaps r)) = length (shadowMaps r)"
    and "\<forall>j. j < shadowLightCount r \<longrightarrow>
           (\<exists>names cs. shadowMaps (updateShadowMaps r) ! j =
              snd (snd (updateShadowMapSlot (shadowParams r) (lightManager r ! j)
                          (names, cs, shadowMaps r ! j))))"
    and "\<forall>j. shadowLightCount r \<le> j \<and> j < length (shadowMaps r) \<longrightarrow>
           \<not> isActive (shadowMaps (updateShadowMaps r) ! j)"
    and "\<forall>j. shadowLightCount r \<le> j \<and> j < length (shadowMaps r) \<longrightarrow>
           (\<exists>names cs. shadowMaps (updateShadowMaps r) ! j =
              snd (snd (removeUnusedSlot (names, cs, shadowMaps r ! j))))"
    and "\<forall>j\<ge>length (shadowMaps r).
           shadowMaps (updateShadowMaps r) ! j = shadowMaps r ! j"
proof -
  define n where "n = shadowLightCount r"
  define r1 where
    "r1 = foldl (\<lambda>r i. onSlot (updateShadowMapSlot (shadowParams r) (lightManager r ! i)) i r)
            r [0..<n]"
  define r2 where "r2 = foldl (\<lambda>r i. onSlot removeUnusedSlot i r) r1 [n..<length (shadowMaps r1)]"
  have u: "updateShadowMaps r = r2"
    by (simp add: updateShadowMaps_def r2_def r1_def n_def Let_def)
  from updateLoop_inv [of n r] len have i1:
    "lightManager r1 = lightManager r" "shadowParams r1 = shadowParams r"
    "stats r1 = stats r"
    "length (shadowMaps r1) = length (shadowMaps r)"
    "\<forall>j<n. \<exists>names cs. shadowMaps r1 ! j =
          snd (snd (updateShadowMapSlot (shadowParams r) (lightManager r ! j)
                      (names, cs, shadowMaps r ! j)))"
    "\<forall>j\<ge>n. shadowMaps r1 ! j = shadowMaps r ! j"
    by (simp_all add: n_def r1_def Let_def)
  have nl: "n \<le> length (shadowMaps r1)"
    using len i1(4) by (simp add: n_def)
  from removeLoop_inv [of n "length (shadowMaps r1)" r1] nl have i2:
    "lightManager r2 = lightManager r1" "shadowParams r2 = shadowParams r1"
    "stats r2 = stats r1"
    "length (shadowMaps r2) = length (shadowMaps r1)"
    "\<forall>j. n \<le> j \<and> j < length (shadowMaps r1) \<longrightarrow>
          (\<exists>names cs. shadowMaps r2 ! j =
             snd (snd (removeUnusedSlot (names, cs, shadowMaps r1 ! j))))"
    "\<forall>j. j < n \<or> length (shadowMaps r1) \<le> j \<longrightarrow> shadowMaps r2 ! j = shadowMaps r1 ! j"
    by (simp_all add: r2_def Let_def)
  show "lightManager (updateShadowMaps r) = lightManager r"
    and "shadowParams (updateShadowMaps r) = shadowParams r"
    and "stats (updateShadowMaps r) = stats r"
    and "length (shadowMaps (updateShadowMaps r)) = length (shadowMaps r)"
    using u i1 i2 by simp_all
  show "\<forall>j. j < shadowLightCount r \<longrightarrow>
           (\<exists>names cs. shadowMaps (updateShadowMaps r) ! j =
              snd (snd (updateShadowMapSlot (shadowParams r) (lightManager r ! j)
                          (names, cs, shadowMaps r ! j))))"
    using u i1(5) i2(6) by (simp add: n_def)
  show out: "\<forall>j. shadowLightCount r \<le> j \<and> j < length (shadowMaps r) \<longrightarrow>
           (\<exists>names cs. shadowMaps (updateShadowMaps r) ! j =
              snd (snd (removeUnusedSlot (names, cs, shadowMaps r ! j))))"
    using u i2(5) i1(4) i1(6) by (simp add: n_def)
  show "\<forall>j. shadowLightCount r \<le> j \<and> j < length (shadowMaps r) \<longrightarrow>
           \<not> isActive (shadowMaps (updateShadowMaps r) ! j)"
  proof (intro allI impI)
    fix j assume "shadowLightCount r \<le> j \<and> j < length (shadowMaps r)"
    with out obtain names cs where
      "shadowMaps (updateShadowMaps r) ! j =
         snd (snd (removeUnusedSlot (names, cs, shadowMaps r ! j)))"
      by blast
    then show "\<not> isActive (shadowMaps (updateShadowMaps r) ! j)"
      by (simp add: removeUnusedSlot_inactive)
  qed
  show "\<forall>j\<ge>length (shadowMaps r).
           shadowMaps (updateShadowMaps r) ! j = shadowMaps r ! j"
    using u i2(6) i1(4) i1(6) len by (simp add: n_def)
qed

text \<open>On a reconciled state, reconciliation changes nothing.\<close>

lemma updateShadowMaps_fixpoint:
  assumes settled: "\<forall>j. j < shadowLightCount r \<longrightarrow>
           slotSettled (shadowParams r) (lightManager r ! j) (shadowMaps r ! j)"
    and inactive: "\<forall>j. shadowLightCount r \<le> j \<and> j < length (shadowMaps r) \<longrightarrow>
           \<not> isActive (shadowMaps r ! j)"
  shows "updateShadowMaps r = r"
proof -
  have 1: "foldl (\<lambda>r i. onSlot (updateShadowMapSlot (shadowParams r) (lightManager r ! i)) i r)
             r [0..<shadowLightCount r] = r"
    by (rule foldl_id) (simp add: onSlot_id updateShadowMapSlot_settled settled)
  have 2: "foldl (\<lambda>r i. onSlot removeUnusedSlot i r) r
             [shadowLightCount r..<length (shadowMaps r)] = r"
    by (rule foldl_id) (simp add: onSlot_id removeUnusedSlot_id inactive)
  show ?thesis
    by (simp add: updateShadowMaps_def Let_def 1 2)
qed

lemma updateShadowMaps_settles:
  assumes len: "shadowLightCount r \<le> length (shadowMaps r)" and j: "j < shadowLightCount r"
  shows "slotSettled (shadowParams r) (lightManager r ! j) (shadowMaps (updateShadowMaps r) ! j)"
proof -
  from updateShadowMaps_post(5) [OF len] j obtain names cs where
    "shadowMaps (updateShadowMaps r) ! j =
       snd (snd (updateShadowMapSlot (shadowParams r) (lightManager r ! j)
                   (names, cs, shadowMaps r ! j)))"
    by blast
  then show ?thesis
    by (simp add: updateShadowMapSlot_settles)
qed

lemma shadowLightCount_updateShadowMaps:
  "shadowLightCount r \<le> length (shadowMaps r) \<Longrightarrow>
   shadowLightCount (updateShadowMaps r) = shadowLightCount r"
  by (simp add: shadowLightCount_def updateShadowMaps_post)

text \<open>
  C8: shadow reconciliation is idempotent. On a renderer with its eight shadow slots,
  whatever the lights, the shadow parameters and the slots hold, a second run of
  \<^verbatim>\<open>updateShadowMaps\<close> right after a first one leaves the whole state as the first run left
  it: the slot array is a fixpoint, and the call log gains no entry, so the second run
  deletes and creates no OpenGL object.
\<close>

theorem updateShadowMaps_idempotent:
  assumes "length (shadowMaps r) = MAX_SHADOW_CASTING_LIGHTS"
  shows "updateShadowMaps (updateShadowMaps r) = updateShadowMaps r
    \<and> calls (updateShadowMaps (updateShadowMaps r)) = calls (updateShadowMaps r)
    \<and> shadowMaps (updateShadowMaps (updateShadowMaps r)) = shadowMaps (updateShadowMaps r)"
proof -
  have len: "shadowLightCount r \<le> length (shadowMaps r)"
    using assms by (simp add: shadowLightCount_def)
  have "updateShadowMaps (updateShadowMaps r) = updateShadowMaps r"
    by (rule updateShadowMaps_fixpoint)
      (simp_all add: updateShadowMaps_post [OF len] shadowLightCount_updateShadowMaps [OF len]
        updateShadowMaps_settles [OF len])
  then show ?thesis by simp
qed


lemmas demo_renderer_defs =
  demo_renderer_def initializeLights_def initializeShadowMapping_def blank_renderer_def
  MAX_SHADOW_CASTING_LIGHTS_def addLight_def clearLights_def MAX_LIGHTS_def
  createDirectionalLight_def createPointLight_def sceneTorch_def Light_default_def
  ShadowMapData_default_def

lemma demo_renderer_first_run:
  "calls (updateShadowMaps demo_renderer) =
     [GlGenFramebuffers 1, GlGenTextures 2, GlGenFramebuffers 3, GlGenTextures 4,
      GlGenFramebuffers 5, GlGenTextures 6, GlGenFramebuffers 7, GlGenTextures 8,
      GlGenFramebuffers 9, GlGenTextures 10, GlGenFramebuffers 11, GlGenTextures 12,
      GlGenFramebuffers 13, GlGenTextures 14, GlGenFramebuffers 15, GlGenTextures 16]"
  by (simp add: demo_renderer_defs updateShadowMaps_def shadowLightCount_def onSlot_def
      updateShadowMapSlot_def allocateShadowMap_def requiredSize_def upt_rec Let_def)

theorem updateShadowMaps_idempotent_witness:
  "length (shadowMaps demo_renderer) = MAX_SHADOW_CASTING_LIGHTS \<and>
   updateShadowMaps (updateShadowMaps demo_renderer) = updateShadowMaps demo_renderer \<and>
   length (calls (updateShadowMaps (updateShadowMaps demo_renderer))) = 16"
proof -
  have len: "length (shadowMaps demo_renderer) = MAX_SHADOW_CASTING_LIGHTS"
    by (simp add: demo_renderer_defs)
  from updateShadowMaps_idempotent [OF len] len show ?thesis
    by (simp add: demo_renderer_first_run)
qed

section \<open>Draw counts and the shadow pass\<close>

lemma renderModel_loaded:
  "renderModel model True r = r \<lparr> stats := countDraw model (stats r) \<rparr>"
  by (cases model) (simp_all add: renderModel_def countDraw_def)

lemma renderModel_null_shader: "renderModel model False r = r"
  by (cases model) (simp_all add: renderModel_def)

lemma foldl_renderModel:
  "foldl (\<lambda>r model. renderModel model True r) r models =
   r \<lparr> stats := countDraws models (stats r) \<rparr>"
proof (induction models arbitrary: r)
  case Nil
  then show ?case by (simp add: countDraws_def)
next
  case (Cons m ms)
  then show ?case by (simp add: countDraws_def renderModel_loaded)
qed

lemma renderScene_loaded:
  "renderScene True r = r \<lparr> stats := countDraws (sceneDraws r) (stats r) \<rparr>"
  by (simp add: renderScene_def foldl_renderModel)

lemma geometryPass_stats:
  "geometryPass r =
   (if geometryShader r then r \<lparr> stats := countDraws (geometryDraws r) (stats r) \<rparr> else r)"
  by (simp add: geometryPass_def foldl_renderModel)

lemma drawCalls_countDraws:
  "drawCalls (countDraws models s) = drawCalls s + of_nat (loadedModels models)"
proof (induction models arbitrary: s)
  case Nil
  then show ?case by (simp add: countDraws_def loadedModels_def)
next
  case (Cons m ms)
  have "countDraws (m # ms) s = countDraws ms (countDraw m s)"
    by (simp add: countDraws_def)
  then show ?case
    using Cons [of "countDraw m s"]
    by (cases m) (simp_all add: countDraw_def loadedModels_def)
qed

lemma shadowMapPass_step_eq:
  assumes "shadowMapShader r" "pointShadowShader r" "i < length (shadowMaps r)"
  shows "shadowMapPass_step i r =
     (if rendersAt r i
      then r \<lparr> calls := calls r @ [RenderShadowMapForLight i],
               shadowMaps := (shadowMaps r)
                 [i := renderedSlot (shadowParams r) (lightManager r ! i) (shadowMaps r ! i)],
               stats := countDraws (sceneDraws r) (stats r) \<rparr>
      else r)"
  using assms
  by (cases "type (lightManager r ! i)")
    (auto simp add: shadowMapPass_step_def rendersAt_def renderShadowMapForLight_def
      renderDirectionalShadow_def renderPointShadow_def renderSpotShadow_def
      renderScene_loaded renderedSlot_def Let_def)


lemma shadowPass_loop_inv:
  assumes sh: "shadowMapShader r" "pointShadowShader r"
  shows "n \<le> length (shadowMaps r) \<Longrightarrow>
   (let r' = foldl (\<lambda>r i. shadowMapPass_step i r) r [0..<n]
    in (\<exists>a b c. r' = r \<lparr> stats := a, calls := b, shadowMaps := c \<rparr>) \<and>
       length (shadowMaps r') = length (shadowMaps r) \<and>
       calls r' = calls r @ map RenderShadowMapForLight (filter (rendersAt r) [0..<n]) \<and>
       stats r' = (countDraws (sceneDraws r) ^^ length (filter (rendersAt r) [0..<n])) (stats r) \<and>
       (\<forall>j\<ge>n. shadowMaps r' ! j = shadowMaps r ! j) \<and>
       (\<forall>j<n. shadowMaps r' ! j =
          (if rendersAt r j
           then renderedSlot (shadowParams r) (lightManager r ! j) (shadowMaps r ! j)
           else shadowMaps r ! j)))"
proof (induction n)
  case 0
  have "r = r \<lparr> stats := stats r, calls := calls r, shadowMaps := shadowMaps r \<rparr>"
    by simp
  then have "\<exists>a b c. r = r \<lparr> stats := a, calls := b, shadowMaps := c \<rparr>"
    by blast
  then show ?case by simp
next
  case (Suc n)
  define r' where "r' = foldl (\<lambda>r i. shadowMapPass_step i r) r [0..<n]"
  from Suc obtain a b c where frame: "r' = r \<lparr> stats := a, calls := b, shadowMaps := c \<rparr>"
    by (auto simp add: r'_def Let_def)
  from Suc have ih:
    "length (shadowMaps r') = length (shadowMaps r)"
    "calls r' = calls r @ map RenderShadowMapForLight (filter (rendersAt r) [0..<n])"
    "stats r' = (countDraws (sceneDraws r) ^^ length (filter (rendersAt r) [0..<n])) (stats r)"
    "\<forall>j\<ge>n. shadowMaps r' ! j = shadowMaps r ! j"
    "\<forall>j<n. shadowMaps r' ! j =
          (if rendersAt r j
           then renderedSlot (shadowParams r) (lightManager r ! j) (shadowMaps r ! j)
           else shadowMaps r ! j)"
    by (simp_all add: r'_def Let_def)
  have same: "lightManager r' = lightManager r" "shadowParams r' = shadowParams r"
    "sceneDraws r' = sceneDraws r" "shadowMapShader r'" "pointShadowShader r'"
    using frame sh by simp_all
  have n: "n < length (shadowMaps r')"
    using Suc.prems ih(1) by simp
  have slot: "shadowMaps r' ! n = shadowMaps r ! n"
    using ih(4) by simp
  have dec: "rendersAt r' n = rendersAt r n"
    by (simp add: rendersAt_def same slot)
  define r'' where "r'' = shadowMapPass_step n r'"
  have step: "r'' =
     (if rendersAt r n
      then r' \<lparr> calls := calls r' @ [RenderShadowMapForLight n],
                shadowMaps := (shadowMaps r')
                  [n := renderedSlot (shadowParams r) (lightManager r ! n) (shadowMaps r ! n)],
                stats := countDraws (sceneDraws r) (stats r') \<rparr>
      else r')"
    unfolding r''_def
    by (simp add: shadowMapPass_step_eq [OF same(4) same(5) n] dec same slot)
  have fold: "foldl (\<lambda>r i. shadowMapPass_step i r) r [0..<Suc n] = r''"
    by (simp add: r''_def r'_def)
  have 1: "\<exists>a b c. r'' = r \<lparr> stats := a, calls := b, shadowMaps := c \<rparr>"
  proof (cases "rendersAt r n")
    case True
    then have "r'' = r \<lparr> stats := countDraws (sceneDraws r) (stats r'),
        calls := calls r' @ [RenderShadowMapForLight n],
        shadowMaps := (shadowMaps r')
          [n := renderedSlot (shadowParams r) (lightManager r ! n) (shadowMaps r ! n)] \<rparr>"
      by (simp add: step) (simp add: frame)
    then show ?thesis by blast
  next
    case False
    then show ?thesis using step frame by auto
  qed
  have 2: "length (shadowMaps r'') = length (shadowMaps r)"
    using step ih(1) by simp
  have 3: "calls r'' = calls r @ map RenderShadowMapForLight (filter (rendersAt r) [0..<Suc n])"
    using step ih(2) by simp
  have 4: "stats r'' =
      (countDraws (sceneDraws r) ^^ length (filter (rendersAt r) [0..<Suc n])) (stats r)"
    using step ih(3) by simp
  have 5: "\<forall>j\<ge>Suc n. shadowMaps r'' ! j = shadowMaps r ! j"
    using step ih(4) by simp
  have 6: "\<forall>j<Suc n. shadowMaps r'' ! j =
          (if rendersAt r j
           then renderedSlot (shadowParams r) (lightManager r ! j) (shadowMaps r ! j)
           else shadowMaps r ! j)"
  proof (intro allI impI)
    fix j assume "j < Suc n"
    then consider "j < n" | "j = n" by linarith
    then show "shadowMaps r'' ! j =
          (if rendersAt r j
           then renderedSlot (shadowParams r) (lightManager r ! j) (shadowMaps r ! j)
           else shadowMaps r ! j)"
    proof cases
      case 1
      then show ?thesis using step ih(5) by simp
    next
      case 2
      then show ?thesis using step n slot by simp
    qed
  qed
  from 1 2 3 4 5 6 show ?case
    unfolding fold Let_def by blast
qed

text \<open>The shadow pass as a whole, with both shadow shaders loaded.\<close>

lemma shadowMapPass_post:
  assumes sh: "shadowMapShader r" "pointShadowShader r"
    and len: "shadowLightCount r \<le> length (shadowMaps r)"
  shows "\<exists>a b c. shadowMapPass r = r \<lparr> stats := a, calls := b, shadowMaps := c \<rparr>"
    and "length (shadowMaps (shadowMapPass r)) = length (shadowMaps r)"
    and "callsDuring r (shadowMapPass r) =
           map RenderShadowMapForLight (filter (rendersAt r) [0..<shadowLightCount r])"
    and "stats (shadowMapPass r) =
           (countDraws (sceneDraws r) ^^ length (filter (rendersAt r) [0..<shadowLightCount r]))
             (stats r)"
    and "\<forall>j. shadowMaps (shadowMapPass r) ! j =
          (if j < shadowLightCount r \<and> rendersAt r j
           then renderedSlot (shadowParams r) (lightManager r ! j) (shadowMaps r ! j)
           else shadowMaps r ! j)"
proof -
  have p: "shadowMapPass r = foldl (\<lambda>r i. shadowMapPass_step i r) r [0..<shadowLightCount r]"
    using sh by (simp add: shadowMapPass_def)
  note inv = shadowPass_loop_inv [OF sh len, unfolded Let_def, folded p]
  show "\<exists>a b c. shadowMapPass r = r \<lparr> stats := a, calls := b, shadowMaps := c \<rparr>"
    using inv by blast
  show "length (shadowMaps (shadowMapPass r)) = length (shadowMaps r)"
    using inv by blast
  show "callsDuring r (shadowMapPass r) =
           map RenderShadowMapForLight (filter (rendersAt r) [0..<shadowLightCount r])"
    using inv by (simp add: callsDuring_def)
  show "stats (shadowMapPass r) =
           (countDraws (sceneDraws r) ^^ length (filter (rendersAt r) [0..<shadowLightCount r]))
             (stats r)"
    using inv by blast
  show "\<forall>j. shadowMaps (shadowMapPass r) ! j =
          (if j < shadowLightCount r \<and> rendersAt r j
           then renderedSlot (shadowParams r) (lightManager r ! j) (shadowMaps r ! j)
           else shadowMaps r ! j)"
  proof
    fix j
    show "shadowMaps (shadowMapPass r) ! j =
          (if j < shadowLightCount r \<and> rendersAt r j
           then renderedSlot (shadowParams r) (lightManager r ! j) (shadowMaps r ! j)
           else shadowMaps r ! j)"
      using inv by (cases "j < shadowLightCount r") (simp_all add: not_less)
  qed
qed

lemma shadowMapPass_renders_iff:
  assumes sh: "shadowMapShader r" "pointShadowShader r"
    and len: "shadowLightCount r \<le> length (shadowMaps r)"
  shows "RenderShadowMapForLight i \<in> set (callsDuring r (shadowMapPass r)) \<longleftrightarrow>
         i < shadowLightCount r \<and> rendersAt r i"
  by (auto simp add: shadowMapPass_post(3) [OF sh len])

lemma shadowMapPass_unloaded:
  "\<not> shadowMapShader r \<or> \<not> pointShadowShader r \<Longrightarrow> shadowMapPass r = r"
  by (auto simp add: shadowMapPass_def)


section \<open>Frame lemmas\<close>

lemma onSlot_frame:
  "\<exists>a b c. onSlot f i r = r \<lparr> glNames := a, calls := b, shadowMaps := c \<rparr>"
  by (cases "f (glNames r, calls r, shadowMaps r ! i)") (auto simp add: onSlot_def)

lemma foldl_resource_frame:
  assumes "\<And>r i. \<exists>a b c. step r i = r \<lparr> glNames := a, calls := b, shadowMaps := c \<rparr>"
  shows "\<exists>a b c. foldl step r xs = r \<lparr> glNames := a, calls := b, shadowMaps := c \<rparr>"
proof (induction xs arbitrary: r)
  case Nil
  have "r = r \<lparr> glNames := glNames r, calls := calls r, shadowMaps := shadowMaps r \<rparr>"
    by simp
  then have "\<exists>a b c. r = r \<lparr> glNames := a, calls := b, shadowMaps := c \<rparr>"
    by blast
  then show ?case by simp
next
  case (Cons x xs)
  from assms obtain a b c where
    s: "step r x = r \<lparr> glNames := a, calls := b, shadowMaps := c \<rparr>"
    by blast
  from Cons [of "step r x"] obtain a' b' c' where
    "foldl step (step r x) xs = (step r x) \<lparr> glNames := a', calls := b', shadowMaps := c' \<rparr>"
    by blast
  then have "foldl step r (x # xs) = r \<lparr> glNames := a', calls := b', shadowMaps := c' \<rparr>"
    by (simp add: s)
  then show ?case by blast
qed

lemma updateShadowMaps_frame:
  "\<exists>a b c. updateShadowMaps r = r \<lparr> glNames := a, calls := b, shadowMaps := c \<rparr>"
proof -
  obtain a b c where 1:
    "foldl (\<lambda>r i. onSlot (updateShadowMapSlot (shadowParams r) (lightManager r ! i)) i r)
       r [0..<shadowLightCount r] = r \<lparr> glNames := a, calls := b, shadowMaps := c \<rparr>"
    using foldl_resource_frame [of "\<lambda>r i. onSlot (updateShadowMapSlot (shadowParams r) (lightManager r ! i)) i r" r]
      onSlot_frame by blast
  obtain a' b' c' where 2:
    "foldl (\<lambda>r i. onSlot removeUnusedSlot i r) (r \<lparr> glNames := a, calls := b, shadowMaps := c \<rparr>)
       [shadowLightCount r..<length c] =
     (r \<lparr> glNames := a, calls := b, shadowMaps := c \<rparr>)
       \<lparr> glNames := a', calls := b', shadowMaps := c' \<rparr>"
    using foldl_resource_frame [of "\<lambda>r i. onSlot removeUnusedSlot i r"]
      onSlot_frame by blast
  have "updateShadowMaps r = r \<lparr> glNames := a', calls := b', shadowMaps := c' \<rparr>"
    by (simp add: updateShadowMaps_def Let_def 1 2)
  then show ?thesis by blast
qed


section \<open>Slots across reconciliation\<close>

lemma updateShadowMapSlot_reallocates:
  "castShadows light \<Longrightarrow> \<not> slotSettled params light shadowData \<Longrightarrow>
   hasRendered shadowData \<longrightarrow> isActive shadowData \<Longrightarrow>
   isActive (snd (snd (updateShadowMapSlot params light (names, cs, shadowData)))) \<and>
   \<not> hasRendered (snd (snd (updateShadowMapSlot params light (names, cs, shadowData))))"
  by (auto simp add: updateShadowMapSlot_def slotSettled_def cleanupShadowMap_def
      allocateShadowMap_def Let_def)

lemma updateShadowMapSlot_tears_down:
  "\<not> castShadows light \<Longrightarrow> hasRendered shadowData \<longrightarrow> isActive shadowData \<Longrightarrow>
   \<not> isActive (snd (snd (updateShadowMapSlot params light (names, cs, shadowData)))) \<and>
   \<not> hasRendered (snd (snd (updateShadowMapSlot params light (names, cs, shadowData))))"
  by (auto simp add: updateShadowMapSlot_def cleanupShadowMap_def Let_def)

lemma updateShadowMaps_slot:
  assumes len: "shadowLightCount r \<le> length (shadowMaps r)" and i: "i < shadowLightCount r"
  shows "slotSettled (shadowParams r) (lightManager r ! i) (shadowMaps r ! i) \<longrightarrow>
           shadowMaps (updateShadowMaps r) ! i = shadowMaps r ! i"
    and "castShadows (lightManager r ! i) \<and>
         \<not> slotSettled (shadowParams r) (lightManager r ! i) (shadowMaps r ! i) \<and>
         (hasRendered (shadowMaps r ! i) \<longrightarrow> isActive (shadowMaps r ! i)) \<longrightarrow>
           isActive (shadowMaps (updateShadowMaps r) ! i) \<and>
           \<not> hasRendered (shadowMaps (updateShadowMaps r) ! i)"
    and "castShadows (lightManager r ! i) \<longrightarrow> isActive (shadowMaps (updateShadowMaps r) ! i)"
proof -
  from updateShadowMaps_post(5) [OF len] i obtain names cs where
    out: "shadowMaps (updateShadowMaps r) ! i =
       snd (snd (updateShadowMapSlot (shadowParams r) (lightManager r ! i)
                   (names, cs, shadowMaps r ! i)))"
    by blast
  show "slotSettled (shadowParams r) (lightManager r ! i) (shadowMaps r ! i) \<longrightarrow>
           shadowMaps (updateShadowMaps r) ! i = shadowMaps r ! i"
    by (simp add: out updateShadowMapSlot_settled)
  show "castShadows (lightManager r ! i) \<and>
         \<not> slotSettled (shadowParams r) (lightManager r ! i) (shadowMaps r ! i) \<and>
         (hasRendered (shadowMaps r ! i) \<longrightarrow> isActive (shadowMaps r ! i)) \<longrightarrow>
           isActive (shadowMaps (updateShadowMaps r) ! i) \<and>
           \<not> hasRendered (shadowMaps (updateShadowMaps r) ! i)"
    unfolding out using updateShadowMapSlot_reallocates by blast
  show "castShadows (lightManager r ! i) \<longrightarrow> isActive (shadowMaps (updateShadowMaps r) ! i)"
    using updateShadowMaps_settles [OF len i] by (simp add: slotSettled_def)
qed

section \<open>The registry across the light animation\<close>

lemma updateCelestia_keeps:
  "isStatic (updateCelestia light t startT endT maxI minI) = isStatic light"
  "type (updateCelestia light t startT endT maxI minI) = type light"
  by (simp_all add: updateCelestia_def Let_def)

lemma flickerLight_keeps:
  "isStatic (flickerLight t light) = isStatic light"
  "type (flickerLight t light) = type light"
  "direction (flickerLight t light) = direction light"
  by (simp_all add: flickerLight_def Let_def)

lemma updateLights_registry_length: "length (updateLights_registry t lights) = length lights"
  by (simp add: updateLights_registry_def Let_def)

lemma updateLights_registry_isStatic:
  "i < length lights \<Longrightarrow> isStatic (updateLights_registry t lights ! i) = isStatic (lights ! i)"
  by (cases "i = 0"; cases "i = 1")
    (simp_all add: updateLights_registry_def Let_def flickerLight_keeps updateCelestia_keeps
      nth_list_update)

section \<open>The state before the shadow pass\<close>

lemma beforeShadowPass_fields:
  "shadowMaps (beforeShadowPass r) = shadowMaps (updateShadowMaps (resetStats r))"
  "shadowMapShader (beforeShadowPass r) = shadowMapShader r"
  "pointShadowShader (beforeShadowPass r) = pointShadowShader r"
  "shadowLightCount (beforeShadowPass r) = shadowLightCount r"
  "i < length (lightManager r) \<Longrightarrow>
     isStatic (lightManager (beforeShadowPass r) ! i) = isStatic (lightManager r ! i)"
proof -
  obtain a b c where u: "updateShadowMaps (resetStats r) =
      (resetStats r) \<lparr> glNames := a, calls := b, shadowMaps := c \<rparr>"
    using updateShadowMaps_frame by blast
  show "shadowMaps (beforeShadowPass r) = shadowMaps (updateShadowMaps (resetStats r))"
    by (simp add: beforeShadowPass_def updateLights_def Let_def)
  show "shadowMapShader (beforeShadowPass r) = shadowMapShader r"
    and "pointShadowShader (beforeShadowPass r) = pointShadowShader r"
    by (simp_all add: beforeShadowPass_def updateLights_def Let_def u) (simp_all add: resetStats_def)
  show "shadowLightCount (beforeShadowPass r) = shadowLightCount r"
    by (simp add: beforeShadowPass_def updateLights_def Let_def u
        shadowLightCount_def updateLights_registry_length) (simp add: resetStats_def)
  show "i < length (lightManager r) \<Longrightarrow>
     isStatic (lightManager (beforeShadowPass r) ! i) = isStatic (lightManager r ! i)"
    by (simp add: beforeShadowPass_def updateLights_def Let_def u) (simp add: resetStats_def
        updateLights_registry_isStatic)
qed

lemma resetStats_fields:
  "shadowMaps (resetStats r) = shadowMaps r"
  "lightManager (resetStats r) = lightManager r"
  "shadowParams (resetStats r) = shadowParams r"
  "shadowLightCount (resetStats r) = shadowLightCount r"
  by (simp_all add: resetStats_def shadowLightCount_def)

lemma shadowMapPass_renders:
  assumes len: "shadowLightCount r \<le> length (shadowMaps r)"
  shows "RenderShadowMapForLight i \<in> set (callsDuring r (shadowMapPass r)) \<longleftrightarrow>
         shadowMapShader r \<and> pointShadowShader r \<and> i < shadowLightCount r \<and> rendersAt r i"
proof (cases "shadowMapShader r \<and> pointShadowShader r")
  case True
  then show ?thesis
    using shadowMapPass_renders_iff [OF _ _ len] by simp
next
  case False
  then have "shadowMapPass r = r"
    using shadowMapPass_unloaded by blast
  with False show ?thesis
    by (auto simp add: callsDuring_def)
qed

lemma demo_lights: "length (lightManager demo_renderer) = 8"
  by (simp add: demo_renderer_defs)

lemma demo_slots: "length (shadowMaps demo_renderer) = 8"
  by (simp add: demo_renderer_defs)

lemma demo_light_2:
  "lightManager demo_renderer ! 2 = sceneTorch (- 6, 1.9, - 9.6)"
  by (simp add: demo_renderer_def initializeLights_def addLight_def clearLights_def MAX_LIGHTS_def)

lemma demo_light_0:
  "lightManager demo_renderer ! 0 = (createDirectionalLight (0, - 1, 0) (1, 1, 0.984) 1)
                  \<lparr> castShadows := True, isStatic := False, flicker := False \<rparr>"
  by (simp add: demo_renderer_def initializeLights_def addLight_def clearLights_def MAX_LIGHTS_def)

lemma demo_slot: "j < 8 \<Longrightarrow> shadowMaps demo_renderer ! j = ShadowMapData_default"
  by (simp add: demo_renderer_def initializeLights_def initializeShadowMapping_def
      blank_renderer_def MAX_SHADOW_CASTING_LIGHTS_def)

lemma demo_shaders: "shadowMapShader demo_renderer" "pointShadowShader demo_renderer"
  "shadowParams demo_renderer = shadowParams blank_renderer"
  by (simp_all add: demo_renderer_def initializeLights_def initializeShadowMapping_def
      blank_renderer_def)

section \<open>Rendered slots are active\<close>

lemma updateShadowMapSlot_consistent:
  "hasRendered shadowData \<longrightarrow> isActive shadowData \<Longrightarrow>
   hasRendered (snd (snd (updateShadowMapSlot params light (names, cs, shadowData)))) \<longrightarrow>
   isActive (snd (snd (updateShadowMapSlot params light (names, cs, shadowData))))"
  by (auto simp add: updateShadowMapSlot_def cleanupShadowMap_def allocateShadowMap_def Let_def)

lemma removeUnusedSlot_consistent:
  "hasRendered shadowData \<longrightarrow> isActive shadowData \<Longrightarrow>
   hasRendered (snd (snd (removeUnusedSlot (names, cs, shadowData)))) \<longrightarrow>
   isActive (snd (snd (removeUnusedSlot (names, cs, shadowData))))"
  by (auto simp add: removeUnusedSlot_def cleanupShadowMap_def Let_def)

lemma renderedSlot_active: "isActive (renderedSlot params light shadowData) = isActive shadowData"
  by (cases "type light") (simp_all add: renderedSlot_def)

lemma updateShadowMaps_consistent:
  assumes len: "shadowLightCount r \<le> length (shadowMaps r)" and c: "slotsConsistent r"
  shows "slotsConsistent (updateShadowMaps r)"
  unfolding slotsConsistent_def
proof (intro allI impI)
  fix j
  assume "j < length (shadowMaps (updateShadowMaps r))"
    and h: "hasRendered (shadowMaps (updateShadowMaps r) ! j)"
  then have j: "j < length (shadowMaps r)"
    by (simp add: updateShadowMaps_post(4) [OF len])
  with c have cj: "hasRendered (shadowMaps r ! j) \<longrightarrow> isActive (shadowMaps r ! j)"
    by (simp add: slotsConsistent_def)
  show "isActive (shadowMaps (updateShadowMaps r) ! j)"
  proof (cases "j < shadowLightCount r")
    case True
    with updateShadowMaps_post(5) [OF len] obtain names cs where
      "shadowMaps (updateShadowMaps r) ! j =
         snd (snd (updateShadowMapSlot (shadowParams r) (lightManager r ! j)
                     (names, cs, shadowMaps r ! j)))"
      by blast
    with h updateShadowMapSlot_consistent [OF cj] show ?thesis by simp
  next
    case False
    with j updateShadowMaps_post(7) [OF len] obtain names cs where
      "shadowMaps (updateShadowMaps r) ! j =
         snd (snd (removeUnusedSlot (names, cs, shadowMaps r ! j)))"
      by (auto simp add: not_less)
    with h removeUnusedSlot_consistent [OF cj] show ?thesis by simp
  qed
qed

lemma shadowMapPass_consistent:
  assumes len: "shadowLightCount r \<le> length (shadowMaps r)" and c: "slotsConsistent r"
  shows "slotsConsistent (shadowMapPass r)"
proof (cases "shadowMapShader r \<and> pointShadowShader r")
  case False
  then have "shadowMapPass r = r"
    using shadowMapPass_unloaded by blast
  with c show ?thesis by simp
next
  case True
  then have sh: "shadowMapShader r" "pointShadowShader r" by simp_all
  show ?thesis
    unfolding slotsConsistent_def
    using c shadowMapPass_post(5) [OF sh len]
    by (auto simp add: shadowMapPass_post(2) [OF sh len] slotsConsistent_def
        renderedSlot_active rendersAt_def)
qed

lemma pass_shadowMaps:
  "shadowMaps (geometryPass r) = shadowMaps r"
  "shadowMaps (lightingPass cam r) = shadowMaps r"
  "shadowMaps (edgeDetectionPass r) = shadowMaps r"
  "shadowMaps (compositePass r) = shadowMaps r"
  "shadowMaps (updateLights dt r) = shadowMaps r"
  "shadowMaps (resetStats r) = shadowMaps r"
  by (simp_all add: geometryPass_stats lightingPass_def edgeDetectionPass_def compositePass_def
      updateLights_def resetStats_def Let_def split: option.splits)

lemma render_unfold:
  "render cam r =
   compositePass (edgeDetectionPass (lightingPass cam (geometryPass
     (shadowMapPass (beforeShadowPass r)))))"
  by (simp add: render_def beforeShadowPass_def Let_def)

lemma beforeShadowPass_consistent:
  assumes len: "length (shadowMaps r) = MAX_SHADOW_CASTING_LIGHTS" and c: "slotsConsistent r"
  shows "slotsConsistent (beforeShadowPass r)"
    and "length (shadowMaps (beforeShadowPass r)) = MAX_SHADOW_CASTING_LIGHTS"
proof -
  have l0: "shadowLightCount (resetStats r) \<le> length (shadowMaps (resetStats r))"
    using len by (simp add: resetStats_fields shadowLightCount_def)
  have c0: "slotsConsistent (resetStats r)"
    using c by (simp add: slotsConsistent_def resetStats_fields)
  from updateShadowMaps_consistent [OF l0 c0]
  show "slotsConsistent (beforeShadowPass r)"
    by (simp add: slotsConsistent_def beforeShadowPass_fields)
  show "length (shadowMaps (beforeShadowPass r)) = MAX_SHADOW_CASTING_LIGHTS"
    using len by (simp add: beforeShadowPass_fields updateShadowMaps_post(4) [OF l0] resetStats_fields)
qed

text \<open>
  The premise on \<^verbatim>\<open>hasRendered\<close> in the caching theorem holds throughout: it is true of
  the slots the constructor creates and every frame keeps it, together with the number
  of slots.
\<close>

lemma initializeShadowMapping_consistent:
  "shadowMaps r = [] \<Longrightarrow>
   slotsConsistent (initializeShadowMapping r) \<and>
   length (shadowMaps (initializeShadowMapping r)) = MAX_SHADOW_CASTING_LIGHTS"
  by (simp add: slotsConsistent_def initializeShadowMapping_def ShadowMapData_default_def)

lemma render_consistent:
  assumes len: "length (shadowMaps r) = MAX_SHADOW_CASTING_LIGHTS" and c: "slotsConsistent r"
  shows "slotsConsistent (render cam r) \<and>
         length (shadowMaps (render cam r)) = MAX_SHADOW_CASTING_LIGHTS"
proof -
  note b = beforeShadowPass_consistent [OF len c]
  have lb: "shadowLightCount (beforeShadowPass r) \<le> length (shadowMaps (beforeShadowPass r))"
    using b(2) by (simp add: shadowLightCount_def)
  have "slotsConsistent (shadowMapPass (beforeShadowPass r))"
    by (rule shadowMapPass_consistent [OF lb b(1)])
  moreover have "length (shadowMaps (shadowMapPass (beforeShadowPass r))) = MAX_SHADOW_CASTING_LIGHTS"
  proof (cases "shadowMapShader (beforeShadowPass r) \<and> pointShadowShader (beforeShadowPass r)")
    case True
    then show ?thesis
      using shadowMapPass_post(2) [OF _ _ lb] b(2) by simp
  next
    case False
    then have "shadowMapPass (beforeShadowPass r) = beforeShadowPass r"
      using shadowMapPass_unloaded by blast
    then show ?thesis using b(2) by simp
  qed
  ultimately show ?thesis
    by (simp add: render_unfold slotsConsistent_def pass_shadowMaps)
qed


section \<open>Frame statistics\<close>

lemma vertexCount_countDraws:
  "vertexCount (countDraws models s) = vertexCount s + of_nat (loadedVertices models)"
proof (induction models arbitrary: s)
  case Nil
  then show ?case by (simp add: countDraws_def loadedVertices_def)
next
  case (Cons m ms)
  have "countDraws (m # ms) s = countDraws ms (countDraw m s)"
    by (simp add: countDraws_def)
  then show ?case
    using Cons [of "countDraw m s"]
    by (cases m) (simp_all add: countDraw_def loadedVertices_def)
qed

lemma countDraws_repeated:
  "drawCalls ((countDraws models ^^ k) s) = drawCalls s + of_nat (k * loadedModels models)"
  "vertexCount ((countDraws models ^^ k) s) = vertexCount s + of_nat (k * loadedVertices models)"
  by (induction k) (simp_all add: drawCalls_countDraws vertexCount_countDraws algebra_simps)

lemma pass_stats:
  "stats (updateShadowMaps r) = stats r"
  "stats (updateLights dt r) = stats r"
  "stats (lightingPass cam r) = stats r"
  "stats (edgeDetectionPass r) = stats r"
  "stats (compositePass r) = stats r"
proof -
  obtain a b c where "updateShadowMaps r = r \<lparr> glNames := a, calls := b, shadowMaps := c \<rparr>"
    using updateShadowMaps_frame by blast
  then show "stats (updateShadowMaps r) = stats r" by simp
qed (simp_all add: lightingPass_def edgeDetectionPass_def compositePass_def
      updateLights_def Let_def split: option.splits)

lemma beforeShadowPass_stats:
  "stats (beforeShadowPass r) = \<lparr> drawCalls = 0, vertexCount = 0 \<rparr>"
  "sceneDraws (beforeShadowPass r) = sceneDraws r"
  "geometryDraws (beforeShadowPass r) = geometryDraws r"
  "geometryShader (beforeShadowPass r) = geometryShader r"
proof -
  obtain a b c where u: "updateShadowMaps (resetStats r) =
      (resetStats r) \<lparr> glNames := a, calls := b, shadowMaps := c \<rparr>"
    using updateShadowMaps_frame by blast
  show "stats (beforeShadowPass r) = \<lparr> drawCalls = 0, vertexCount = 0 \<rparr>"
    "sceneDraws (beforeShadowPass r) = sceneDraws r"
    "geometryDraws (beforeShadowPass r) = geometryDraws r"
    "geometryShader (beforeShadowPass r) = geometryShader r"
    by (simp_all add: beforeShadowPass_def updateLights_def Let_def u) (simp_all add: resetStats_def)
qed

lemma shadowMapPass_stats:
  assumes sh: "shadowMapShader r" "pointShadowShader r"
    and len: "shadowLightCount r \<le> length (shadowMaps r)"
  shows "drawCalls (stats (shadowMapPass r)) =
           drawCalls (stats r) +
           of_nat (length (filter (rendersAt r) [0..<shadowLightCount r]) * loadedModels (sceneDraws r))"
    and "vertexCount (stats (shadowMapPass r)) =
           vertexCount (stats r) +
           of_nat (length (filter (rendersAt r) [0..<shadowLightCount r]) * loadedVertices (sceneDraws r))"
    and "geometryShader (shadowMapPass r) = geometryShader r"
    and "geometryDraws (shadowMapPass r) = geometryDraws r"
proof -
  show "drawCalls (stats (shadowMapPass r)) =
           drawCalls (stats r) +
           of_nat (length (filter (rendersAt r) [0..<shadowLightCount r]) * loadedModels (sceneDraws r))"
    and "vertexCount (stats (shadowMapPass r)) =
           vertexCount (stats r) +
           of_nat (length (filter (rendersAt r) [0..<shadowLightCount r]) * loadedVertices (sceneDraws r))"
    by (simp_all add: shadowMapPass_post(4) [OF sh len] countDraws_repeated)
  obtain a b c where "shadowMapPass r = r \<lparr> stats := a, calls := b, shadowMaps := c \<rparr>"
    using shadowMapPass_post(1) [OF sh len] by blast
  then show "geometryShader (shadowMapPass r) = geometryShader r"
    and "geometryDraws (shadowMapPass r) = geometryDraws r"
    by simp_all
qed

lemma demo_reconciled_rendersAt:
  "filter (rendersAt (updateShadowMaps demo_renderer)) [0..<8] = [0, 1, 2, 3, 4, 5, 6, 7]"
  by (simp add: demo_renderer_defs updateShadowMaps_def shadowLightCount_def onSlot_def
      updateShadowMapSlot_def allocateShadowMap_def requiredSize_def upt_rec Let_def rendersAt_def)

text \<open>
  C4, as stated, fails: the shadow pass draws the scene through \<^verbatim>\<open>renderModel\<close>, which
  counts every draw. On the demo renderer, whose counters are 0 after reconciliation, the
  shadow pass renders eight shadow maps of a scene with two loaded models and leaves
  16 draw calls and 576 vertices in the counters.
\<close>

theorem shadow_pass_counts_counterexample:
  "drawCalls (stats (updateShadowMaps demo_renderer)) = 0 \<and>
   vertexCount (stats (updateShadowMaps demo_renderer)) = 0 \<and>
   drawCalls (stats (shadowMapPass (updateShadowMaps demo_renderer))) = 16 \<and>
   vertexCount (stats (shadowMapPass (updateShadowMaps demo_renderer))) = 576"
proof -
  let ?r = "updateShadowMaps demo_renderer"
  obtain a b c where u: "?r = demo_renderer \<lparr> glNames := a, calls := b, shadowMaps := c \<rparr>"
    using updateShadowMaps_frame by blast
  have l: "shadowLightCount demo_renderer \<le> length (shadowMaps demo_renderer)"
    by (simp add: shadowLightCount_def demo_slots demo_lights MAX_SHADOW_CASTING_LIGHTS_def)
  have sh: "shadowMapShader ?r" "pointShadowShader ?r"
    by (simp_all add: u demo_shaders)
  have n: "shadowLightCount ?r = 8"
    by (simp add: shadowLightCount_updateShadowMaps [OF l])
      (simp add: shadowLightCount_def demo_lights MAX_SHADOW_CASTING_LIGHTS_def)
  have len: "shadowLightCount ?r \<le> length (shadowMaps ?r)"
    by (simp add: n updateShadowMaps_post(4) [OF l] demo_slots)
  have s0: "stats ?r = \<lparr> drawCalls = 0, vertexCount = 0 \<rparr>"
    by (simp add: pass_stats) (simp add: demo_renderer_defs)
  have scene: "sceneDraws ?r = [Some demo_model, None, Some demo_model]"
    by (simp add: u) (simp add: demo_renderer_defs)
  have m: "loadedModels (sceneDraws ?r) = 2" "loadedVertices (sceneDraws ?r) = 72"
    by (simp_all add: scene loadedModels_def loadedVertices_def getVertexCount_def demo_model_def)
  show ?thesis
    by (simp add: shadowMapPass_stats(1,2) [OF sh len] n demo_reconciled_rendersAt m s0)
qed


text \<open>
  C4, amended: the counters are reset at frame start and are incremented by every draw
  that \<^verbatim>\<open>renderModel\<close> issues with a loaded model and a shader, in the shadow pass as in
  the geometry pass: each rendered shadow map adds the scene's loaded models and their
  vertices, the geometry pass adds its own. Reconciliation, the light update and the
  lighting, edge and composite passes leave the counters unchanged. \<^verbatim>\<open>getStats\<close> returns
  the counters. The counters are 32-bit and wrap.
\<close>

theorem frame_statistics:
  "stats (resetStats r) = \<lparr> drawCalls = 0, vertexCount = 0 \<rparr> \<and>
   getStats r = stats r \<and>
   stats (renderModel (Some m) True r) =
     \<lparr> drawCalls = drawCalls (stats r) + 1,
       vertexCount = vertexCount (stats r) + of_nat (getVertexCount m) \<rparr> \<and>
   stats (renderModel None shader r) = stats r \<and>
   stats (renderModel model False r) = stats r \<and>
   stats (updateShadowMaps r) = stats r \<and>
   stats (updateLights dt r) = stats r \<and>
   stats (lightingPass cam r) = stats r \<and>
   stats (edgeDetectionPass r) = stats r \<and>
   stats (compositePass r) = stats r \<and>
   (length (shadowMaps r) = MAX_SHADOW_CASTING_LIGHTS \<and> shadowMapShader r \<and> pointShadowShader r \<longrightarrow>
      drawCalls (stats (shadowMapPass r)) =
        drawCalls (stats r) + of_nat (shadowRenders r * loadedModels (sceneDraws r)) \<and>
      vertexCount (stats (shadowMapPass r)) =
        vertexCount (stats r) + of_nat (shadowRenders r * loadedVertices (sceneDraws r))) \<and>
   (geometryShader r \<longrightarrow>
      drawCalls (stats (geometryPass r)) =
        drawCalls (stats r) + of_nat (loadedModels (geometryDraws r)) \<and>
      vertexCount (stats (geometryPass r)) =
        vertexCount (stats r) + of_nat (loadedVertices (geometryDraws r))) \<and>
   (length (shadowMaps r) = MAX_SHADOW_CASTING_LIGHTS \<and> shadowMapShader r \<and> pointShadowShader r
      \<and> geometryShader r \<longrightarrow>
      drawCalls (stats (render cam r)) =
        of_nat (shadowRenders (beforeShadowPass r) * loadedModels (sceneDraws r)
                + loadedModels (geometryDraws r)) \<and>
      vertexCount (stats (render cam r)) =
        of_nat (shadowRenders (beforeShadowPass r) * loadedVertices (sceneDraws r)
                + loadedVertices (geometryDraws r)))"
proof -
  have basic: "stats (resetStats r) = \<lparr> drawCalls = 0, vertexCount = 0 \<rparr>"
    "getStats r = stats r"
    "stats (renderModel (Some m) True r) =
     \<lparr> drawCalls = drawCalls (stats r) + 1,
       vertexCount = vertexCount (stats r) + of_nat (getVertexCount m) \<rparr>"
    "stats (renderModel None shader r) = stats r"
    "stats (renderModel model False r) = stats r"
    by (simp_all add: resetStats_def getStats_def renderModel_def split: option.splits)
  have shadow: "drawCalls (stats (shadowMapPass r)) =
        drawCalls (stats r) + of_nat (shadowRenders r * loadedModels (sceneDraws r)) \<and>
      vertexCount (stats (shadowMapPass r)) =
        vertexCount (stats r) + of_nat (shadowRenders r * loadedVertices (sceneDraws r))"
    if "length (shadowMaps r) = MAX_SHADOW_CASTING_LIGHTS" "shadowMapShader r" "pointShadowShader r"
    for r
  proof -
    have "shadowLightCount r \<le> length (shadowMaps r)"
      using that(1) by (simp add: shadowLightCount_def)
    from shadowMapPass_stats(1,2) [OF that(2,3) this] show ?thesis
      by (simp add: shadowRenders_def)
  qed
  have geometry: "drawCalls (stats (geometryPass r)) =
        drawCalls (stats r) + of_nat (loadedModels (geometryDraws r)) \<and>
      vertexCount (stats (geometryPass r)) =
        vertexCount (stats r) + of_nat (loadedVertices (geometryDraws r))"
    if "geometryShader r" for r
    using that by (simp add: geometryPass_stats drawCalls_countDraws vertexCount_countDraws)
  have frame: "drawCalls (stats (render cam r)) =
        of_nat (shadowRenders (beforeShadowPass r) * loadedModels (sceneDraws r)
                + loadedModels (geometryDraws r)) \<and>
      vertexCount (stats (render cam r)) =
        of_nat (shadowRenders (beforeShadowPass r) * loadedVertices (sceneDraws r)
                + loadedVertices (geometryDraws r))"
    if len: "length (shadowMaps r) = MAX_SHADOW_CASTING_LIGHTS"
      and sh: "shadowMapShader r" "pointShadowShader r" and g: "geometryShader r"
  proof -
    let ?b = "beforeShadowPass r"
    have lenb: "length (shadowMaps ?b) = MAX_SHADOW_CASTING_LIGHTS"
    proof -
      have "shadowLightCount (resetStats r) \<le> length (shadowMaps (resetStats r))"
        using len by (simp add: resetStats_fields shadowLightCount_def)
      from updateShadowMaps_post(4) [OF this] len show ?thesis
        by (simp add: beforeShadowPass_fields resetStats_fields)
    qed
    have shb: "shadowMapShader ?b" "pointShadowShader ?b"
      using sh by (simp_all add: beforeShadowPass_fields)
    have lb: "shadowLightCount ?b \<le> length (shadowMaps ?b)"
      using lenb by (simp add: shadowLightCount_def)
    have gs: "geometryShader (shadowMapPass ?b)"
      "geometryDraws (shadowMapPass ?b) = geometryDraws r"
      using g by (simp_all add: shadowMapPass_stats(3,4) [OF shb lb] beforeShadowPass_stats)
    have "stats (render cam r) = stats (geometryPass (shadowMapPass ?b))"
      by (simp add: render_unfold pass_stats)
    then show ?thesis
      using geometry [OF gs(1)] shadow [OF lenb shb]
      by (simp add: gs(2) beforeShadowPass_stats)
  qed
  from basic shadow [of r] geometry [of r] frame show ?thesis
    by (simp add: pass_stats)
qed

lemma replicate_8: "replicate 8 x = [x, x, x, x, x, x, x, x]"
  by (simp add: numeral_eq_Suc)

lemma demo_first_frame_slots:
  "map (\<lambda>shadowData. (isActive shadowData, hasRendered shadowData))
     (shadowMaps (updateShadowMaps (resetStats demo_renderer))) = replicate 8 (True, False)"
  by (simp add: demo_renderer_defs resetStats_def updateShadowMaps_def shadowLightCount_def
      onSlot_def updateShadowMapSlot_def allocateShadowMap_def requiredSize_def upt_rec Let_def
      replicate_8)

lemma demo_first_frame_shadowRenders:
  "shadowRenders (beforeShadowPass demo_renderer) = 8"
proof -
  let ?xs = "shadowMaps (updateShadowMaps (resetStats demo_renderer))"
  have len: "length ?xs = 8"
    using arg_cong [OF demo_first_frame_slots, of length] by simp
  have "rendersAt (beforeShadowPass demo_renderer) j" if "j < 8" for j
  proof -
    have "map (\<lambda>shadowData. (isActive shadowData, hasRendered shadowData)) ?xs ! j = (True, False)"
      using that by (simp only: demo_first_frame_slots nth_replicate)
    then have "isActive (?xs ! j) \<and> \<not> hasRendered (?xs ! j)"
      using that len by simp
    then show ?thesis
      by (simp add: rendersAt_def beforeShadowPass_fields(1))
  qed
  then have "filter (rendersAt (beforeShadowPass demo_renderer)) [0..<8] = [0..<8]"
    by (simp add: filter_id_conv)
  moreover have "shadowLightCount (beforeShadowPass demo_renderer) = 8"
    by (simp add: beforeShadowPass_fields)
      (simp add: shadowLightCount_def demo_lights MAX_SHADOW_CASTING_LIGHTS_def)
  ultimately show ?thesis
    by (simp add: shadowRenders_def)
qed

theorem frame_statistics_witness:
  "drawCalls (stats (render (0, 0, 0) demo_renderer)) = 18 \<and>
   vertexCount (stats (render (0, 0, 0) demo_renderer)) = 648"
proof -
  have h: "length (shadowMaps demo_renderer) = MAX_SHADOW_CASTING_LIGHTS"
    "shadowMapShader demo_renderer" "pointShadowShader demo_renderer"
    "geometryShader demo_renderer"
    by (simp_all add: demo_renderer_defs)
  have m: "loadedModels (sceneDraws demo_renderer) = 2"
    "loadedVertices (sceneDraws demo_renderer) = 72"
    "loadedModels (geometryDraws demo_renderer) = 2"
    "loadedVertices (geometryDraws demo_renderer) = 72"
    by (simp_all add: demo_renderer_defs loadedModels_def loadedVertices_def
        getVertexCount_def demo_model_def)
  from frame_statistics [of demo_renderer _ _ _ _ "(0, 0, 0)"] h
  show ?thesis
    by (simp add: demo_first_frame_shadowRenders m)
qed


section \<open>Light directions\<close>

lemma vlength_vscale: "vlength (vscale v k) = \<bar>k\<bar> * vlength v"
proof (cases v)
  case (fields a b c)
  have "(a * k) * (a * k) + (b * k) * (b * k) + (c * k) * (c * k) =
        k\<^sup>2 * (a * a + b * b + c * c)"
    by (simp add: power2_eq_square algebra_simps)
  then show ?thesis
    by (simp add: fields vlength_def real_sqrt_mult)
qed

lemma sum_squares_pos:
  fixes a b c :: real
  shows "a \<noteq> 0 \<or> b \<noteq> 0 \<or> c \<noteq> 0 \<Longrightarrow> 0 < a * a + b * b + c * c"
proof -
  assume nz: "a \<noteq> 0 \<or> b \<noteq> 0 \<or> c \<noteq> 0"
  have ge: "0 \<le> a * a" "0 \<le> b * b" "0 \<le> c * c"
    by simp_all
  from nz have "0 < a * a \<or> 0 < b * b \<or> 0 < c * c"
    by (simp add: zero_less_mult_iff) linarith
  with ge show ?thesis
    by linarith
qed

lemma vlength_pos: "v \<noteq> (0, 0, 0) \<Longrightarrow> 0 < vlength v"
proof (cases v)
  case (fields a b c)
  assume "v \<noteq> (0, 0, 0)"
  with fields have "a \<noteq> 0 \<or> b \<noteq> 0 \<or> c \<noteq> 0" by simp
  then have "0 < a * a + b * b + c * c"
    by (rule sum_squares_pos)
  then show ?thesis
    by (simp add: fields vlength_def)
qed

lemma normalize_unit: "v \<noteq> (0, 0, 0) \<Longrightarrow> vlength (normalize v) = 1"
  using vlength_pos [of v] by (simp add: normalize_def vlength_vscale)

lemma unitLength_1: "vlength v = 1 \<Longrightarrow> unitLength v"
  by (simp add: unitLength_def)

lemma celestial_direction_unit:
  "vlength (- cos a, - (sin a * cos t), - (sin a * sin t)) = 1"
proof -
  have "cos a * cos a + sin a * cos t * (sin a * cos t) + sin a * sin t * (sin a * sin t) =
        cos a * cos a + sin a * sin a * (cos t * cos t + sin t * sin t)"
    by (simp only: algebra_simps)
  also have "\<dots> = 1"
    by (simp add: sin_cos_squared_add3)
  finally show ?thesis
    by (simp add: vlength_def)
qed


lemma updateCelestia_unit:
  "vlength (direction (updateCelestia light t startT endT maxI minI)) = 1"
proof -
  have nz: "(- cos a, - (sin a * cos b), - (sin a * sin b)) \<noteq> (0, 0, 0)" for a b :: real
  proof
    assume "(- cos a, - (sin a * cos b), - (sin a * sin b)) = (0, 0, 0)"
    then have "vlength (- cos a, - (sin a * cos b), - (sin a * sin b)) = vlength (0, 0, 0)"
      by (rule arg_cong)
    then show False
      by (simp only: celestial_direction_unit) (simp add: vlength_def)
  qed
  have u: "vlength (normalize (- cos a, - (sin a * cos b), - (sin a * sin b))) = 1"
    for a b :: real
    by (rule normalize_unit [OF nz])
  have i: "vlength (normalize (- 1, 0, 0)) = 1"
    by (rule normalize_unit) simp
  show ?thesis
  proof (cases "(if t - startT < 0 then t - startT + 1 else t - startT) \<le> endT - startT")
    case True
    then show ?thesis
      by (simp add: updateCelestia_def Let_def u del: sin_cos_squared_add3)
  next
    case False
    then show ?thesis
      using i by (simp add: updateCelestia_def Let_def)
  qed
qed


lemma updateLights_registry_sun_moon:
  assumes "2 \<le> length lights"
  shows "vlength (direction (updateLights_registry t lights ! 0)) = 1"
    and "vlength (direction (updateLights_registry t lights ! 1)) = 1"
proof -
  from assms have l: "0 < length lights" "Suc 0 < length lights"
    by linarith+
  show "vlength (direction (updateLights_registry t lights ! 0)) = 1"
    and "vlength (direction (updateLights_registry t lights ! 1)) = 1"
    using assms l
    by (simp_all add: updateLights_registry_def Let_def flickerLight_keeps updateCelestia_unit)
qed

lemma updateLights_registry_others:
  "i < length lights \<Longrightarrow> 2 \<le> i \<Longrightarrow>
     direction (updateLights_registry t lights ! i) = direction (lights ! i)"
  by (simp add: updateLights_registry_def Let_def flickerLight_keeps)

lemma demo_sun_direction: "direction (lightManager demo_renderer ! 0) = (0, - 1, 0)"
  by (simp add: demo_light_0 createDirectionalLight_def normalize_def vlength_def)

text \<open>
  C3, as stated, fails: the direction sliders of the lighting window write the slider
  values into the light's direction as they are. After the sun's direction is dragged to
  \<open>(0, -0.5, 0)\<close> the registry holds a direction of length 0.5.
\<close>

theorem direction_not_normalized_counterexample:
  "\<not> unitLength (direction (edited_registry ! 0))"
proof -
  have "type (lightManager demo_renderer ! 0) \<noteq> POINT"
    by (simp add: demo_light_0 createDirectionalLight_def)
  then have "direction (edited_registry ! 0) = (0, - 1/2, 0)"
    by (simp add: edited_registry_def demo_lights editDirection_def sliderValue_def clamp_def)
  moreover have "vlength (0, - 1/2, 0) = 1/2"
    by (simp add: vlength_def real_sqrt_divide)
  ultimately show ?thesis
    by (simp add: unitLength_def)
qed

text \<open>
  C3, amended: the direction has unit length after factory creation (for directional and
  spot lights from a direction whose length lies between \<open>1e-15\<close> and \<open>1e15\<close>, so that its
  squared length is a normal \<^verbatim>\<open>float\<close>; a point light keeps the default \<open>(0, -1, 0)\<close>) and,
  for the sun and the moon, after the day and night animation of \<^verbatim>\<open>updateLights\<close> (the
  animation of one light taken by itself needs a window that is not empty,
  \<open>startT < endT\<close>), which leaves the direction of every other light as it was.
  \<^verbatim>\<open>updateLight\<close> stores the given light, and the direction sliders store the slider
  values, without normalising: after them the direction is the one given.
\<close>

theorem direction_normalized_where_normalized:
  "(1 / 10 ^ 15 \<le> vlength dir \<and> vlength dir \<le> 10 ^ 15 \<longrightarrow>
      unitLength (direction (createDirectionalLight dir col inten)) \<and>
      unitLength (direction (createSpotLight pos dir col inner outer inten))) \<and>
   unitLength (direction (createPointLight pos col inten)) \<and>
   (startT < endT \<longrightarrow>
      unitLength (direction (updateCelestia light t startT endT maxI minI))) \<and>
   (2 \<le> length lights \<longrightarrow>
      unitLength (direction (updateLights_registry time lights ! 0)) \<and>
      unitLength (direction (updateLights_registry time lights ! 1))) \<and>
   (i < length lights \<and> 2 \<le> i \<longrightarrow>
      direction (updateLights_registry time lights ! i) = direction (lights ! i)) \<and>
   (i < length lights \<longrightarrow> direction (updateLight lights i light ! i) = direction light) \<and>
   (type light \<noteq> POINT \<and> \<bar>vx v\<bar> \<le> 1 \<and> \<bar>vy v\<bar> \<le> 1 \<and> \<bar>vz v\<bar> \<le> 1 \<longrightarrow>
      direction (editDirection light v) = v)"
proof -
  have factories: "unitLength (direction (createDirectionalLight dir col inten)) \<and>
      unitLength (direction (createSpotLight pos dir col inner outer inten))"
    if "1 / 10 ^ 15 \<le> vlength dir \<and> vlength dir \<le> 10 ^ 15"
  proof -
    have "vlength (0, 0, 0) = 0"
      by (simp add: vlength_def)
    with that have "dir \<noteq> (0, 0, 0)"
      by auto
    from normalize_unit [OF this] show ?thesis
      by (simp add: createDirectionalLight_def createSpotLight_def unitLength_1)
  qed
  have "vlength (0, - 1, 0) = 1"
    by (simp add: vlength_def)
  then have point: "unitLength (direction (createPointLight pos col inten))"
    by (simp add: createPointLight_def Light_default_def unitLength_1)
  have anim: "unitLength (direction (updateCelestia light t startT endT maxI minI))"
    by (simp add: updateCelestia_unit unitLength_1)
  have reg: "unitLength (direction (updateLights_registry time lights ! 0)) \<and>
      unitLength (direction (updateLights_registry time lights ! 1))"
    if "2 \<le> length lights"
    using updateLights_registry_sun_moon [OF that] by (simp add: unitLength_1)
  have upd: "direction (updateLight lights i light ! i) = direction light" if "i < length lights"
    using that by (simp add: updateLight_def)
  have edit: "direction (editDirection light v) = v"
    if "type light \<noteq> POINT" "\<bar>vx v\<bar> \<le> 1" "\<bar>vy v\<bar> \<le> 1" "\<bar>vz v\<bar> \<le> 1"
    using that by (cases v) (simp add: editDirection_def sliderValue_def clamp_def)
  from factories point anim reg updateLights_registry_others upd edit show ?thesis
    by blast
qed

theorem direction_normalized_where_normalized_witness:
  "unitLength (direction (createDirectionalLight (0, - 2, 0) (1, 1, 1) 1)) \<and>
   unitLength (direction (createSpotLight (0, 3, 0) (0, - 2, 0) (1, 1, 1) 12.5 15 1)) \<and>
   unitLength (direction (updateCelestia Light_default (1/4) 0 (11/20) 1 0)) \<and>
   unitLength (direction (updateLights_registry 1 (lightManager demo_renderer) ! 0)) \<and>
   direction (updateLights_registry 1 (lightManager demo_renderer) ! 2) =
     direction (lightManager demo_renderer ! 2) \<and>
   direction (updateLight (lightManager demo_renderer) 2 Light_default ! 2) = (0, - 1, 0) \<and>
   direction (editDirection (lightManager demo_renderer ! 0) (0, - 1/2, 0)) = (0, - 1/2, 0)"
proof -
  have "vlength (0, - 2, 0) = 2"
    by (simp add: vlength_def)
  then have nz: "1 / 10 ^ 15 \<le> vlength (0, - 2, 0) \<and> vlength (0, - 2, 0) \<le> 10 ^ 15"
    by simp
  have window: "(0 :: real) < 11/20"
    by simp
  have len: "2 \<le> length (lightManager demo_renderer)" "2 < length (lightManager demo_renderer)"
    by (simp_all add: demo_lights)
  have ty: "type (lightManager demo_renderer ! 0) \<noteq> POINT"
    by (simp add: demo_light_0 createDirectionalLight_def)
  have v: "\<bar>vx (0, - 1/2, 0)\<bar> \<le> 1" "\<bar>vy (0, - 1/2, 0)\<bar> \<le> 1" "\<bar>vz (0, - 1/2, 0)\<bar> \<le> 1"
    by simp_all
  from direction_normalized_where_normalized
    [where dir = "(0, - 2, 0)" and col = "(1, 1, 1)" and inten = 1 and pos = "(0, 3, 0)"
      and inner = "12.5" and outer = 15 and lights = "lightManager demo_renderer"
      and time = 1 and i = 2 and light = Light_default
      and t = "1/4" and startT = 0 and endT = "11/20" and maxI = 1 and minI = 0]
    nz len window
  have a: "unitLength (direction (createDirectionalLight (0, - 2, 0) (1, 1, 1) 1)) \<and>
   unitLength (direction (createSpotLight (0, 3, 0) (0, - 2, 0) (1, 1, 1) 12.5 15 1)) \<and>
   unitLength (direction (updateCelestia Light_default (1/4) 0 (11/20) 1 0)) \<and>
   unitLength (direction (updateLights_registry 1 (lightManager demo_renderer) ! 0)) \<and>
   direction (updateLights_registry 1 (lightManager demo_renderer) ! 2) =
     direction (lightManager demo_renderer ! 2) \<and>
   direction (updateLight (lightManager demo_renderer) 2 Light_default ! 2) = (0, - 1, 0)"
    by (simp add: Light_default_def)
  from direction_normalized_where_normalized
    [where light = "lightManager demo_renderer ! 0" and v = "(0, - 1/2, 0)"]
    ty v
  have b: "direction (editDirection (lightManager demo_renderer ! 0) (0, - 1/2, 0)) = (0, - 1/2, 0)"
    by blast
  from a b show ?thesis by blast
qed


section \<open>Lights beyond the eighth\<close>






















section \<open>Static shadow caching\<close>

lemma flickerLight_castShadows: "castShadows (flickerLight t light) = castShadows light"
  by (simp add: flickerLight_def Let_def)

lemma updateLights_registry_type:
  "i < length lights \<Longrightarrow> type (updateLights_registry t lights ! i) = type (lights ! i)"
  by (cases "i = 0"; cases "i = 1")
    (simp_all add: updateLights_registry_def Let_def flickerLight_keeps updateCelestia_keeps
      nth_list_update)

lemma updateLights_registry_castShadows:
  "i < length lights \<Longrightarrow> 2 \<le> i \<Longrightarrow>
   castShadows (updateLights_registry t lights ! i) = castShadows (lights ! i)"
  by (simp add: updateLights_registry_def Let_def flickerLight_castShadows)

lemma beforeShadowPass_lights:
  "lightManager (beforeShadowPass r) = updateLights_registry (totalTime r + 0.016) (lightManager r)"
  "shadowParams (beforeShadowPass r) = shadowParams r"
proof -
  obtain a b c where u: "updateShadowMaps (resetStats r) =
      (resetStats r) \<lparr> glNames := a, calls := b, shadowMaps := c \<rparr>"
    using updateShadowMaps_frame by blast
  show "lightManager (beforeShadowPass r) =
      updateLights_registry (totalTime r + 0.016) (lightManager r)"
    by (simp add: beforeShadowPass_def updateLights_def Let_def u) (simp add: resetStats_def)
  show "shadowParams (beforeShadowPass r) = shadowParams r"
    by (simp add: beforeShadowPass_def updateLights_def Let_def u) (simp add: resetStats_def)
qed

lemma later_passes_keep:
  "lightManager (compositePass (edgeDetectionPass (lightingPass cam (geometryPass r)))) =
     lightManager r"
  "shadowParams (compositePass (edgeDetectionPass (lightingPass cam (geometryPass r)))) =
     shadowParams r"
  "shadowMapShader (compositePass (edgeDetectionPass (lightingPass cam (geometryPass r)))) =
     shadowMapShader r"
  "pointShadowShader (compositePass (edgeDetectionPass (lightingPass cam (geometryPass r)))) =
     pointShadowShader r"
  "shadowMaps (compositePass (edgeDetectionPass (lightingPass cam (geometryPass r)))) =
     shadowMaps r"
  by (simp_all add: geometryPass_stats lightingPass_def edgeDetectionPass_def compositePass_def
      Let_def split: option.splits)

lemma shadowMapPass_keeps:
  assumes len: "shadowLightCount r \<le> length (shadowMaps r)"
  shows "lightManager (shadowMapPass r) = lightManager r"
    and "shadowParams (shadowMapPass r) = shadowParams r"
    and "shadowMapShader (shadowMapPass r) = shadowMapShader r"
    and "pointShadowShader (shadowMapPass r) = pointShadowShader r"
    and "length (shadowMaps (shadowMapPass r)) = length (shadowMaps r)"
proof -
  have "\<exists>a b c. shadowMapPass r = r \<lparr> stats := a, calls := b, shadowMaps := c \<rparr>
          \<and> length c = length (shadowMaps r)"
  proof (cases "shadowMapShader r \<and> pointShadowShader r")
    case True
    then obtain a b c where p: "shadowMapPass r = r \<lparr> stats := a, calls := b, shadowMaps := c \<rparr>"
      using shadowMapPass_post(1) [OF _ _ len] by blast
    from True have "length (shadowMaps (shadowMapPass r)) = length (shadowMaps r)"
      using shadowMapPass_post(2) [OF _ _ len] by blast
    with p have "length c = length (shadowMaps r)"
      by simp
    with p show ?thesis by blast
  next
    case False
    then have "shadowMapPass r = r"
      using shadowMapPass_unloaded by blast
    then have "shadowMapPass r = r \<lparr> stats := stats r, calls := calls r, shadowMaps := shadowMaps r \<rparr>"
      by simp
    then show ?thesis by blast
  qed
  then obtain a b c where p: "shadowMapPass r = r \<lparr> stats := a, calls := b, shadowMaps := c \<rparr>"
    and c: "length c = length (shadowMaps r)"
    by blast
  show "lightManager (shadowMapPass r) = lightManager r"
    and "shadowParams (shadowMapPass r) = shadowParams r"
    and "shadowMapShader (shadowMapPass r) = shadowMapShader r"
    and "pointShadowShader (shadowMapPass r) = pointShadowShader r"
    and "length (shadowMaps (shadowMapPass r)) = length (shadowMaps r)"
    by (simp_all add: p c)
qed

text \<open>The shadow pass leaves every active slot of a light marked as rendered.\<close>

lemma shadowMapPass_marks:
  assumes sh: "shadowMapShader r" "pointShadowShader r"
    and len: "shadowLightCount r \<le> length (shadowMaps r)"
    and i: "i < shadowLightCount r"
    and act: "isActive (shadowMaps r ! i)"
  shows "hasRendered (shadowMaps (shadowMapPass r) ! i)"
    and "isActive (shadowMaps (shadowMapPass r) ! i)"
    and "type_sm (shadowMaps (shadowMapPass r) ! i) = type_sm (shadowMaps r ! i)"
    and "size_sm (shadowMaps (shadowMapPass r) ! i) = size_sm (shadowMaps r ! i)"
proof -
  have slot: "shadowMaps (shadowMapPass r) ! i =
      (if rendersAt r i
       then renderedSlot (shadowParams r) (lightManager r ! i) (shadowMaps r ! i)
       else shadowMaps r ! i)"
    using shadowMapPass_post(5) [OF sh len] i by simp
  have kept: "hasRendered (renderedSlot p l d)" "isActive (renderedSlot p l d) = isActive d"
    "type_sm (renderedSlot p l d) = type_sm d" "size_sm (renderedSlot p l d) = size_sm d"
    for p l d
    by (cases "type l"; simp add: renderedSlot_def)+
  show "hasRendered (shadowMaps (shadowMapPass r) ! i)"
    using act by (auto simp add: slot kept rendersAt_def)
  show "isActive (shadowMaps (shadowMapPass r) ! i)"
    using act by (simp add: slot kept)
  show "type_sm (shadowMaps (shadowMapPass r) ! i) = type_sm (shadowMaps r ! i)"
    and "size_sm (shadowMaps (shadowMapPass r) ! i) = size_sm (shadowMaps r ! i)"
    by (simp_all add: slot kept)
qed

lemma beforeShadowPass_length:
  "length (shadowMaps r) = MAX_SHADOW_CASTING_LIGHTS \<Longrightarrow>
   length (shadowMaps (beforeShadowPass r)) = MAX_SHADOW_CASTING_LIGHTS"
proof -
  assume len: "length (shadowMaps r) = MAX_SHADOW_CASTING_LIGHTS"
  then have l0: "shadowLightCount (resetStats r) \<le> length (shadowMaps (resetStats r))"
    by (simp add: resetStats_fields shadowLightCount_def)
  show ?thesis
    using len
    by (simp add: beforeShadowPass_fields updateShadowMaps_post(4) [OF l0] resetStats_fields)
qed

text \<open>
  In a frame that starts with the slot of a static shadow-casting light rendered and
  matching the light, the shadow pass does not render that light's shadow map.
\<close>

lemma static_frame_cached:
  assumes len: "length (shadowMaps r) = MAX_SHADOW_CASTING_LIGHTS"
    and i: "i < shadowLightCount r"
    and static: "isStatic (lightManager r ! i)"
    and rendered: "hasRendered (shadowMaps r ! i)"
    and cast: "castShadows (lightManager r ! i)"
    and settled: "slotSettled (shadowParams r) (lightManager r ! i) (shadowMaps r ! i)"
  shows "RenderShadowMapForLight i \<notin>
           set (callsDuring (beforeShadowPass r) (shadowMapPass (beforeShadowPass r)))"
proof -
  let ?b = "beforeShadowPass r"
  have l0: "shadowLightCount (resetStats r) \<le> length (shadowMaps (resetStats r))"
    and i0: "i < shadowLightCount (resetStats r)"
    using len i by (simp_all add: resetStats_fields shadowLightCount_def)
  have lb: "shadowLightCount ?b \<le> length (shadowMaps ?b)"
    using beforeShadowPass_length [OF len] by (simp add: shadowLightCount_def)
  have il: "i < length (lightManager r)"
    using i by (simp add: shadowLightCount_def)
  from updateShadowMaps_slot(1) [OF l0 i0] settled
  have same: "shadowMaps ?b ! i = shadowMaps r ! i"
    by (simp add: resetStats_fields beforeShadowPass_fields)
  have "isStatic (lightManager ?b ! i)"
    using il static by (simp add: beforeShadowPass_fields)
  with rendered have "\<not> rendersAt ?b i"
    by (simp add: rendersAt_def same)
  then show ?thesis
    by (simp add: shadowMapPass_renders [OF lb])
qed

text \<open>
  After a frame with both shadow shaders loaded, the slot of a shadow-casting light is
  active and marked as rendered; if the light is static and still casts shadows, the
  next frame does not render its shadow map.
\<close>

lemma next_frame_cached:
  assumes len: "length (shadowMaps r) = MAX_SHADOW_CASTING_LIGHTS"
    and i: "i < shadowLightCount r"
    and sh: "shadowMapShader r" "pointShadowShader r"
    and cast: "castShadows (lightManager r ! i)"
  shows "isActive (shadowMaps (render cam r) ! i)"
    and "hasRendered (shadowMaps (render cam r) ! i)"
    and "isStatic (lightManager r ! i) \<and> castShadows (lightManager (render cam r) ! i) \<longrightarrow>
         RenderShadowMapForLight i \<notin>
           set (callsDuring (beforeShadowPass (render cam r))
                  (shadowMapPass (beforeShadowPass (render cam r))))"
proof -
  let ?b = "beforeShadowPass r" and ?r' = "render cam r"
  let ?L = "lightManager r ! i"
  have l0: "shadowLightCount (resetStats r) \<le> length (shadowMaps (resetStats r))"
    and i0: "i < shadowLightCount (resetStats r)"
    using len i by (simp_all add: resetStats_fields shadowLightCount_def)
  have lenb: "length (shadowMaps ?b) = MAX_SHADOW_CASTING_LIGHTS"
    by (rule beforeShadowPass_length [OF len])
  then have lb: "shadowLightCount ?b \<le> length (shadowMaps ?b)"
    by (simp add: shadowLightCount_def)
  have ib: "i < shadowLightCount ?b"
    using i by (simp add: beforeShadowPass_fields)
  have shb: "shadowMapShader ?b" "pointShadowShader ?b"
    using sh by (simp_all add: beforeShadowPass_fields)
  have il: "i < length (lightManager r)"
    using i by (simp add: shadowLightCount_def)
  from updateShadowMaps_settles [OF l0 i0] cast
  have b: "isActive (shadowMaps ?b ! i)" "type_sm (shadowMaps ?b ! i) = type ?L"
    "size_sm (shadowMaps ?b ! i) = requiredSize (shadowParams r) ?L"
    by (simp_all add: slotSettled_def resetStats_fields beforeShadowPass_fields)
  note marks = shadowMapPass_marks [OF shb lb ib b(1)]
  have maps: "shadowMaps ?r' = shadowMaps (shadowMapPass ?b)"
    and lights: "lightManager ?r' = lightManager ?b"
    and params: "shadowParams ?r' = shadowParams r"
    by (simp_all add: render_unfold later_passes_keep shadowMapPass_keeps [OF lb]
        beforeShadowPass_lights(2))
  show act': "isActive (shadowMaps ?r' ! i)" and rendered': "hasRendered (shadowMaps ?r' ! i)"
    using marks by (simp_all add: maps)
  have len': "length (shadowMaps ?r') = MAX_SHADOW_CASTING_LIGHTS"
    using lenb by (simp add: maps shadowMapPass_keeps [OF lb])
  have i': "i < shadowLightCount ?r'"
    using i by (simp add: shadowLightCount_def lights beforeShadowPass_lights
        updateLights_registry_length)
  have ty: "type (lightManager ?r' ! i) = type ?L"
    and st: "isStatic (lightManager ?r' ! i) = isStatic ?L"
    using il by (simp_all add: lights beforeShadowPass_lights updateLights_registry_type
        updateLights_registry_isStatic)
  show "isStatic ?L \<and> castShadows (lightManager ?r' ! i) \<longrightarrow>
         RenderShadowMapForLight i \<notin>
           set (callsDuring (beforeShadowPass ?r') (shadowMapPass (beforeShadowPass ?r')))"
  proof
    assume a: "isStatic ?L \<and> castShadows (lightManager ?r' ! i)"
    have "slotSettled (shadowParams ?r') (lightManager ?r' ! i) (shadowMaps ?r' ! i)"
      using a act' marks(3,4) b(2,3)
      by (simp add: slotSettled_def maps params ty requiredSize_def)
    with a show "RenderShadowMapForLight i \<notin>
           set (callsDuring (beforeShadowPass ?r') (shadowMapPass (beforeShadowPass ?r')))"
      using static_frame_cached [OF len' i' _ rendered'] st by simp
  qed
qed

lemma point_shader_missing_fields:
  "length (shadowMaps point_shader_missing) = 8"
  "lightManager point_shader_missing = lightManager demo_renderer"
  "shadowMaps point_shader_missing = shadowMaps demo_renderer"
  "shadowParams point_shader_missing = shadowParams demo_renderer"
  "shadowMapShader point_shader_missing" "\<not> pointShadowShader point_shader_missing"
  by (simp_all add: point_shader_missing_def demo_slots demo_shaders)

text \<open>
  C2, as stated, fails: when the point-light shadow shader is null the shadow pass returns
  at once. In the first frame of such a renderer the slot of the sun, a shadow-casting
  directional light that is not static, is allocated with \<^verbatim>\<open>hasRendered\<close> false, and the
  shadow pass that follows renders no shadow map and leaves the slot as it is.
\<close>

theorem shadow_pass_unloaded_counterexample:
  "\<not> isStatic (lightManager point_shader_missing ! 0) \<and>
   castShadows (lightManager point_shader_missing ! 0) \<and>
   \<not> isActive (shadowMaps point_shader_missing ! 0) \<and>
   isActive (shadowMaps (beforeShadowPass point_shader_missing) ! 0) \<and>
   \<not> hasRendered (shadowMaps (beforeShadowPass point_shader_missing) ! 0) \<and>
   callsDuring (beforeShadowPass point_shader_missing)
     (shadowMapPass (beforeShadowPass point_shader_missing)) = [] \<and>
   \<not> hasRendered (shadowMaps (shadowMapPass (beforeShadowPass point_shader_missing)) ! 0)"
proof -
  let ?r = point_shader_missing
  have l: "shadowLightCount (resetStats ?r) \<le> length (shadowMaps (resetStats ?r))"
    and i: "0 < shadowLightCount (resetStats ?r)"
    by (simp_all add: resetStats_fields shadowLightCount_def point_shader_missing_fields
        demo_lights demo_slots MAX_SHADOW_CASTING_LIGHTS_def)
  have light: "\<not> isStatic (lightManager ?r ! 0)" "castShadows (lightManager ?r ! 0)"
    by (simp_all add: point_shader_missing_fields demo_light_0)
  have slot: "\<not> isActive (shadowMaps ?r ! 0)" "\<not> hasRendered (shadowMaps ?r ! 0)"
    by (simp_all add: point_shader_missing_fields demo_slot ShadowMapData_default_def)
  from slot light have "\<not> slotSettled (shadowParams ?r) (lightManager ?r ! 0) (shadowMaps ?r ! 0)"
    by (simp add: slotSettled_def)
  with updateShadowMaps_slot(2) [OF l i] light slot
  have b: "isActive (shadowMaps (beforeShadowPass ?r) ! 0)"
    "\<not> hasRendered (shadowMaps (beforeShadowPass ?r) ! 0)"
    by (simp_all add: resetStats_fields beforeShadowPass_fields)
  have "\<not> pointShadowShader (beforeShadowPass ?r)"
    by (simp add: beforeShadowPass_fields point_shader_missing_fields)
  then have same: "shadowMapPass (beforeShadowPass ?r) = beforeShadowPass ?r"
    using shadowMapPass_unloaded by blast
  from light slot b show ?thesis
    by (simp add: same callsDuring_def)
qed

text \<open>
  C2, amended, for a light \<open>i\<close> among the first eight.
  \<^item> The shadow pass does not render the shadow map of a static light whose slot is active
    and has been rendered; in a frame that starts with such a slot matching its
    shadow-casting light (same type and required size, so that reconciliation leaves it
    alone), the frame's shadow pass does not render it.
  \<^item> When reconciliation allocates or reallocates the slot of a shadow-casting light
    (the slot was inactive, or of another type or size), the slot comes out active with
    \<^verbatim>\<open>hasRendered\<close> false; if both shadow shaders are loaded, the frame's shadow pass
    renders it, static or not, and marks it as rendered.
  \<^item> If both shadow shaders are loaded, the shadow pass renders the active slot of a
    light that is not static, so every frame renders the shadow map of a shadow-casting
    light that is not static; and the shadow pass leaves every active slot marked as
    rendered.
  \<^item> After a frame with both shadow shaders loaded the slot of a shadow-casting light is
    active and marked as rendered, and if the light is static and still casts shadows the
    next frame does not render its shadow map.
  \<^item> If a shadow shader is null the shadow pass returns at once: it renders nothing and
    marks nothing.
\<close>

theorem static_shadow_caching:
  assumes len: "length (shadowMaps r) = MAX_SHADOW_CASTING_LIGHTS"
    and i: "i < shadowLightCount r"
  shows
    "(isStatic (lightManager r ! i) \<and> isActive (shadowMaps r ! i)
        \<and> hasRendered (shadowMaps r ! i) \<longrightarrow>
        RenderShadowMapForLight i \<notin> set (callsDuring r (shadowMapPass r))) \<and>
     (isStatic (lightManager r ! i) \<and> hasRendered (shadowMaps r ! i)
        \<and> castShadows (lightManager r ! i)
        \<and> slotSettled (shadowParams r) (lightManager r ! i) (shadowMaps r ! i) \<longrightarrow>
        RenderShadowMapForLight i \<notin>
          set (callsDuring (beforeShadowPass r) (shadowMapPass (beforeShadowPass r)))) \<and>
     (castShadows (lightManager r ! i)
        \<and> \<not> slotSettled (shadowParams r) (lightManager r ! i) (shadowMaps r ! i)
        \<and> (hasRendered (shadowMaps r ! i) \<longrightarrow> isActive (shadowMaps r ! i)) \<longrightarrow>
        isActive (shadowMaps (updateShadowMaps r) ! i) \<and>
        \<not> hasRendered (shadowMaps (updateShadowMaps r) ! i) \<and>
        (shadowMapShader r \<and> pointShadowShader r \<longrightarrow>
           RenderShadowMapForLight i \<in>
             set (callsDuring (beforeShadowPass r) (shadowMapPass (beforeShadowPass r))) \<and>
           hasRendered (shadowMaps (shadowMapPass (beforeShadowPass r)) ! i))) \<and>
     (\<not> isStatic (lightManager r ! i) \<and> isActive (shadowMaps r ! i)
        \<and> shadowMapShader r \<and> pointShadowShader r \<longrightarrow>
        RenderShadowMapForLight i \<in> set (callsDuring r (shadowMapPass r))) \<and>
     (\<not> isStatic (lightManager r ! i) \<and> castShadows (lightManager r ! i)
        \<and> shadowMapShader r \<and> pointShadowShader r \<longrightarrow>
        RenderShadowMapForLight i \<in>
          set (callsDuring (beforeShadowPass r) (shadowMapPass (beforeShadowPass r)))) \<and>
     (isActive (shadowMaps r ! i) \<and> shadowMapShader r \<and> pointShadowShader r \<longrightarrow>
        hasRendered (shadowMaps (shadowMapPass r) ! i)) \<and>
     (castShadows (lightManager r ! i) \<and> shadowMapShader r \<and> pointShadowShader r \<longrightarrow>
        isActive (shadowMaps (render cam r) ! i) \<and>
        hasRendered (shadowMaps (render cam r) ! i) \<and>
        (isStatic (lightManager r ! i) \<and> castShadows (lightManager (render cam r) ! i) \<longrightarrow>
           RenderShadowMapForLight i \<notin>
             set (callsDuring (beforeShadowPass (render cam r))
                    (shadowMapPass (beforeShadowPass (render cam r)))))) \<and>
     (\<not> shadowMapShader r \<or> \<not> pointShadowShader r \<longrightarrow> shadowMapPass r = r)"
proof -
  let ?L = "lightManager r ! i" and ?D = "shadowMaps r ! i" and ?P = "shadowParams r"
  let ?b = "beforeShadowPass r"
  have l: "shadowLightCount r \<le> length (shadowMaps r)"
    using len by (simp add: shadowLightCount_def)
  have l0: "shadowLightCount (resetStats r) \<le> length (shadowMaps (resetStats r))"
    and i0: "i < shadowLightCount (resetStats r)"
    using l i by (simp_all add: resetStats_fields)
  have lb: "shadowLightCount ?b \<le> length (shadowMaps ?b)"
    using beforeShadowPass_length [OF len] by (simp add: shadowLightCount_def)
  have ib: "i < shadowLightCount ?b"
    using i by (simp add: beforeShadowPass_fields)
  have il: "i < length (lightManager r)"
    using i by (simp add: shadowLightCount_def)
  note slot0 = updateShadowMaps_slot [OF l0 i0, unfolded resetStats_fields,
      folded beforeShadowPass_fields(1)]
  note slot = updateShadowMaps_slot [OF l i]
  have static: "isStatic (lightManager ?b ! i) = isStatic ?L"
    using il by (simp add: beforeShadowPass_fields)
  have frame: "RenderShadowMapForLight i \<in> set (callsDuring ?b (shadowMapPass ?b)) \<longleftrightarrow>
      shadowMapShader r \<and> pointShadowShader r \<and> rendersAt ?b i"
    using shadowMapPass_renders [OF lb, of i] i by (simp add: beforeShadowPass_fields)
  have p1: "isStatic ?L \<and> isActive ?D \<and> hasRendered ?D \<longrightarrow>
        RenderShadowMapForLight i \<notin> set (callsDuring r (shadowMapPass r))"
    by (simp add: shadowMapPass_renders [OF l] rendersAt_def)
  have f1: "isStatic ?L \<and> hasRendered ?D \<and> castShadows ?L \<and> slotSettled ?P ?L ?D \<longrightarrow>
        RenderShadowMapForLight i \<notin> set (callsDuring ?b (shadowMapPass ?b))"
    using static_frame_cached [OF len i] by blast
  have marksb: "hasRendered (shadowMaps (shadowMapPass ?b) ! i)"
    if "shadowMapShader r" "pointShadowShader r" "isActive (shadowMaps ?b ! i)"
    using that shadowMapPass_marks(1) [OF _ _ lb ib] by (simp add: beforeShadowPass_fields)
  have f2: "castShadows ?L \<and> \<not> slotSettled ?P ?L ?D \<and> (hasRendered ?D \<longrightarrow> isActive ?D) \<longrightarrow>
        isActive (shadowMaps (updateShadowMaps r) ! i) \<and>
        \<not> hasRendered (shadowMaps (updateShadowMaps r) ! i) \<and>
        (shadowMapShader r \<and> pointShadowShader r \<longrightarrow>
           RenderShadowMapForLight i \<in> set (callsDuring ?b (shadowMapPass ?b)) \<and>
           hasRendered (shadowMaps (shadowMapPass ?b) ! i))"
    using slot(2) slot0(2) marksb by (auto simp add: frame rendersAt_def)
  have p3: "\<not> isStatic ?L \<and> isActive ?D \<and> shadowMapShader r \<and> pointShadowShader r \<longrightarrow>
        RenderShadowMapForLight i \<in> set (callsDuring r (shadowMapPass r))"
    using i by (simp add: shadowMapPass_renders [OF l] rendersAt_def)
  have f3: "\<not> isStatic ?L \<and> castShadows ?L \<and> shadowMapShader r \<and> pointShadowShader r \<longrightarrow>
        RenderShadowMapForLight i \<in> set (callsDuring ?b (shadowMapPass ?b))"
    using slot0(3) by (auto simp add: frame rendersAt_def static)
  have p4: "isActive ?D \<and> shadowMapShader r \<and> pointShadowShader r \<longrightarrow>
        hasRendered (shadowMaps (shadowMapPass r) ! i)"
    using shadowMapPass_marks(1) [OF _ _ l i] by blast
  have f4: "castShadows ?L \<and> shadowMapShader r \<and> pointShadowShader r \<longrightarrow>
        isActive (shadowMaps (render cam r) ! i) \<and>
        hasRendered (shadowMaps (render cam r) ! i) \<and>
        (isStatic ?L \<and> castShadows (lightManager (render cam r) ! i) \<longrightarrow>
           RenderShadowMapForLight i \<notin>
             set (callsDuring (beforeShadowPass (render cam r))
                    (shadowMapPass (beforeShadowPass (render cam r)))))"
    using next_frame_cached [OF len i, of cam] by blast
  have p5: "\<not> shadowMapShader r \<or> \<not> pointShadowShader r \<longrightarrow> shadowMapPass r = r"
    using shadowMapPass_unloaded by blast
  from p1 f1 f2 p3 f3 p4 f4 p5 show ?thesis by blast
qed

text \<open>
  On the demo renderer: the first frame allocates the slot of the torch at index 2, a
  static light, and renders it; the second frame does not render it again; the sun, which
  is not static, is rendered in the first frame. Without the point-light shadow shader
  the shadow pass changes nothing.
\<close>

theorem static_shadow_caching_witness:
  "\<not> hasRendered (shadowMaps (updateShadowMaps demo_renderer) ! 2) \<and>
   RenderShadowMapForLight 2 \<in>
     set (callsDuring (beforeShadowPass demo_renderer)
            (shadowMapPass (beforeShadowPass demo_renderer))) \<and>
   hasRendered (shadowMaps (render (0, 0, 0) demo_renderer) ! 2) \<and>
   isStatic (lightManager demo_renderer ! 2) \<and>
   RenderShadowMapForLight 2 \<notin>
     set (callsDuring (beforeShadowPass (render (0, 0, 0) demo_renderer))
            (shadowMapPass (beforeShadowPass (render (0, 0, 0) demo_renderer)))) \<and>
   RenderShadowMapForLight 0 \<in>
     set (callsDuring (beforeShadowPass demo_renderer)
            (shadowMapPass (beforeShadowPass demo_renderer))) \<and>
   shadowMapPass point_shader_missing = point_shader_missing"
proof -
  let ?r' = "render (0, 0, 0) demo_renderer"
  have d: "length (shadowMaps demo_renderer) = MAX_SHADOW_CASTING_LIGHTS"
    "2 < shadowLightCount demo_renderer" "0 < shadowLightCount demo_renderer"
    "castShadows (lightManager demo_renderer ! 2)"
    "\<not> slotSettled (shadowParams demo_renderer) (lightManager demo_renderer ! 2)
       (shadowMaps demo_renderer ! 2)"
    "\<not> hasRendered (shadowMaps demo_renderer ! 2)"
    "\<not> isStatic (lightManager demo_renderer ! 0)"
    "castShadows (lightManager demo_renderer ! 0)"
    "isStatic (lightManager demo_renderer ! 2)"
    by (simp_all add: demo_slots demo_lights demo_light_2 demo_light_0 demo_slot demo_shaders
        shadowLightCount_def MAX_SHADOW_CASTING_LIGHTS_def sceneTorch_def createPointLight_def
        createDirectionalLight_def Light_default_def slotSettled_def ShadowMapData_default_def)
  have lb: "shadowLightCount (beforeShadowPass demo_renderer)
              \<le> length (shadowMaps (beforeShadowPass demo_renderer))"
    using beforeShadowPass_length [OF d(1)] by (simp add: shadowLightCount_def)
  have "lightManager ?r' = updateLights_registry (totalTime demo_renderer + 0.016)
          (lightManager demo_renderer)"
    by (simp add: render_unfold later_passes_keep shadowMapPass_keeps [OF lb]
        beforeShadowPass_lights)
  then have still: "castShadows (lightManager ?r' ! 2)"
    using d(4) by (simp add: updateLights_registry_castShadows demo_lights)
  have p: "length (shadowMaps point_shader_missing) = MAX_SHADOW_CASTING_LIGHTS"
    "0 < shadowLightCount point_shader_missing"
    by (simp_all add: point_shader_missing_fields MAX_SHADOW_CASTING_LIGHTS_def
        shadowLightCount_def demo_lights demo_slots)
  from static_shadow_caching [OF d(1) d(2), of "(0, 0, 0)"] d(4-6,9) demo_shaders(1,2) still
  have 1: "\<not> hasRendered (shadowMaps (updateShadowMaps demo_renderer) ! 2) \<and>
   RenderShadowMapForLight 2 \<in>
     set (callsDuring (beforeShadowPass demo_renderer)
            (shadowMapPass (beforeShadowPass demo_renderer))) \<and>
   hasRendered (shadowMaps ?r' ! 2) \<and>
   RenderShadowMapForLight 2 \<notin>
     set (callsDuring (beforeShadowPass ?r') (shadowMapPass (beforeShadowPass ?r')))"
    by blast
  from static_shadow_caching [OF d(1) d(3)] d(7,8) demo_shaders(1,2)
  have 2: "RenderShadowMapForLight 0 \<in>
     set (callsDuring (beforeShadowPass demo_renderer)
            (shadowMapPass (beforeShadowPass demo_renderer)))"
    by blast
  from static_shadow_caching [OF p(1) p(2)] point_shader_missing_fields(6)
  have 3: "shadowMapPass point_shader_missing = point_shader_missing"
    by blast
  from 1 2 3 d(9) show ?thesis by blast
qed

section \<open>The two spot-light matrices\<close>





















end
